theory Spec2Isabelle
  imports Complex_Main "HOL-Library.Multiset"
begin

section \<open>Detection metrics of \<open>utils/metrics.py\<close>\<close>

text \<open>
  The arrays of the source hold IEEE floats. They are modelled as lists of \<open>real\<close>:
  comparison and maximum of finite floats are exact, so every statement below that only
  compares, selects or counts values reads on the floats as it does on the reals; sums,
  products and quotients are the exact ones, without rounding. Every raise of the source
  is a value \<open>Inl e\<close> of the result.
\<close>

datatype error =
  IndexError | ValueError | RuntimeError | TypeError | ImportError | OSError
  | KeyboardInterrupt

subsection \<open>NumPy primitives used by the source\<close>

text \<open>\<open>np.maximum.accumulate\<close>: running maximum from the left.\<close>

fun maximum_accumulate :: "real list \<Rightarrow> real list" where
  "maximum_accumulate [] = []"
| "maximum_accumulate [x] = [x]"
| "maximum_accumulate (x # y # ys) = x # maximum_accumulate (max x y # ys)"

text \<open>\<open>np.linspace(a, b, n)\<close>: \<open>n\<close> evenly spaced points, both ends included.\<close>

definition linspace :: "real \<Rightarrow> real \<Rightarrow> nat \<Rightarrow> real list" where
  "linspace a b n = map (\<lambda>k. a + real k * ((b - a) / real (n - 1))) [0..<n]"

text \<open>
  \<open>np.interp\<close> at one abscissa: \<open>left\<close> below the first sample point, \<open>right\<close> above the
  last one, otherwise linear between the sample points \<open>j\<close> and \<open>j + 1\<close>, where \<open>j\<close> is the
  last index whose sample point is at most \<open>x\<close> (what the binary search of NumPy finds in
  an increasing \<open>xp\<close>).
\<close>

definition interp1 :: "real \<Rightarrow> real \<Rightarrow> real list \<Rightarrow> real list \<Rightarrow> real \<Rightarrow> real" where
  "interp1 left right xp fp x =
     (if x < hd xp then left
      else if last xp < x then right
      else (let j = last (filter (\<lambda>j. xp ! j \<le> x) [0..<length xp]) in
            if j = length xp - 1 then fp ! j
            else if xp ! j = x then fp ! j
            else (fp ! (j + 1) - fp ! j) / (xp ! (j + 1) - xp ! j) * (x - xp ! j) + fp ! j))"

text \<open>
  \<open>np.interp(x, xp, fp, left=...)\<close>: a ValueError for an empty \<open>xp\<close> and for \<open>fp\<close> of
  another length; \<open>left\<close> defaults to \<open>fp[0]\<close>, \<open>right\<close> is always the default \<open>fp[-1]\<close>
  in this source.
\<close>

definition np_interp :: "real list \<Rightarrow> real list \<Rightarrow> real list \<Rightarrow> real option \<Rightarrow> error + real list" where
  "np_interp x xp fp left =
     (if xp = [] \<or> length fp \<noteq> length xp then Inl ValueError
      else Inr (map (interp1 (case left of None \<Rightarrow> hd fp | Some l \<Rightarrow> l) (last fp) xp fp) x))"

text \<open>\<open>np.trapz(y, x)\<close>: the trapezoidal rule.\<close>

fun trapz :: "real list \<Rightarrow> real list \<Rightarrow> real" where
  "trapz (y0 # y1 # ys) (x0 # x1 # xs) = (x1 - x0) * (y1 + y0) / 2 + trapz (y1 # ys) (x1 # xs)"
| "trapz _ _ = 0"

subsection \<open>\<open>compute_ap\<close>\<close>

text \<open>
  The result is \<open>(ap, mpre, mrec)\<close>. \<open>recall[-1]\<close> raises IndexError on an empty
  recall array; \<open>np.interp\<close> raises ValueError when the two padded arrays differ in
  length. The method is the constant \<open>"interp"\<close>, so only that branch is live.
\<close>

definition compute_ap :: "real list \<Rightarrow> real list \<Rightarrow> error + (real \<times> real list \<times> real list)" where
  "compute_ap recall precision =
     (if recall = [] then Inl IndexError
      else
        let mrec = [0] @ recall @ [last recall + 1 / 100];
            mpre0 = [1] @ precision @ [0];
            mpre = rev (maximum_accumulate (rev mpre0));
            x = linspace 0 1 101
        in case np_interp x mrec mpre None of
             Inl e \<Rightarrow> Inl e
           | Inr y \<Rightarrow> Inr (trapz y x, mpre, mrec))"

text \<open>Projections of a result of \<open>compute_ap\<close> (empty when it raised).\<close>

definition ap_mpre :: "error + (real \<times> real list \<times> real list) \<Rightarrow> real list" where
  "ap_mpre res = (case res of Inl e \<Rightarrow> [] | Inr (ap, mpre, mrec) \<Rightarrow> mpre)"

definition ap_mrec :: "error + (real \<times> real list \<times> real list) \<Rightarrow> real list" where
  "ap_mrec res = (case res of Inl e \<Rightarrow> [] | Inr (ap, mpre, mrec) \<Rightarrow> mrec)"

subsection \<open>Sequencing of calls that may raise\<close>

definition bind_err :: "error + 'a \<Rightarrow> ('a \<Rightarrow> error + 'b) \<Rightarrow> error + 'b" where
  "bind_err m f = (case m of Inl e \<Rightarrow> Inl e | Inr x \<Rightarrow> f x)"

text \<open>A loop that builds one value per element and stops at the first raise.\<close>

fun map_err :: "('a \<Rightarrow> error + 'b) \<Rightarrow> 'a list \<Rightarrow> error + 'b list" where
  "map_err f [] = Inr []"
| "map_err f (x # xs) =
     (case f x of
        Inl e \<Rightarrow> Inl e
      | Inr y \<Rightarrow> (case map_err f xs of Inl e \<Rightarrow> Inl e | Inr ys \<Rightarrow> Inr (y # ys)))"

subsection \<open>More NumPy primitives\<close>

text \<open>
  \<open>np.argsort\<close> uses an unstable sort by default, so the order it gives to equal keys
  is not fixed. The functions below take the sort as a parameter \<open>argsort\<close>;
  \<open>is_argsort\<close> says what every implementation of \<open>np.argsort\<close> guarantees, and
  \<open>stable_argsort\<close> is one such implementation, used to run examples.
\<close>

definition is_argsort :: "(real list \<Rightarrow> nat list) \<Rightarrow> bool" where
  "is_argsort argsort \<longleftrightarrow>
     (\<forall>xs. mset (argsort xs) = mset [0..<length xs] \<and> sorted (map ((!) xs) (argsort xs)))"

definition stable_argsort :: "real list \<Rightarrow> nat list" where
  "stable_argsort xs = sort_key ((!) xs) [0..<length xs]"

text \<open>Indexing with an integer array, \<open>xs[idx]\<close>: IndexError on an index out of range.\<close>

definition np_take :: "'a list \<Rightarrow> nat list \<Rightarrow> error + 'a list" where
  "np_take xs idx =
     (if \<forall>k\<in>set idx. k < length xs then Inr (map ((!) xs) idx) else Inl IndexError)"

text \<open>Indexing with a boolean mask of the same length, \<open>xs[mask]\<close>.\<close>

definition mask_select :: "bool list \<Rightarrow> 'a list \<Rightarrow> 'a list" where
  "mask_select msk xs = map snd (filter fst (zip msk xs))"

text \<open>A two-dimensional array is the list of its rows; \<open>col j m\<close> is \<open>m[:, j]\<close>.\<close>

definition col :: "nat \<Rightarrow> real list list \<Rightarrow> real list" where
  "col j m = map (\<lambda>row. row ! j) m"

definition mat_map :: "(real \<Rightarrow> real) \<Rightarrow> real list list \<Rightarrow> real list list" where
  "mat_map f m = map (map f) m"

definition mat_map2 :: "(real \<Rightarrow> real \<Rightarrow> real) \<Rightarrow> real list list \<Rightarrow> real list list \<Rightarrow> real list list" where
  "mat_map2 f a b = map2 (map2 f) a b"

text \<open>\<open>m.cumsum(0)\<close>: the running sum of the rows, column by column.\<close>

fun cumsum0_from :: "real list \<Rightarrow> real list list \<Rightarrow> real list list" where
  "cumsum0_from acc [] = []"
| "cumsum0_from acc (row # rows) = map2 (+) acc row # cumsum0_from (map2 (+) acc row) rows"

definition cumsum0 :: "nat \<Rightarrow> real list list \<Rightarrow> real list list" where
  "cumsum0 T m = cumsum0_from (replicate T 0) m"

text \<open>The running sum of a one-dimensional array, started at \<open>a\<close>: one column of \<open>cumsum0\<close>.\<close>

fun cumsum_from :: "real \<Rightarrow> real list \<Rightarrow> real list" where
  "cumsum_from a [] = []"
| "cumsum_from a (x # xs) = (a + x) # cumsum_from (a + x) xs"

text \<open>
  \<open>m.mean(0)\<close> of an array with \<open>n\<close> columns. For an array without rows NumPy gives NaN in
  every column and \<open>argmax\<close> then answers 0; here the quotient by zero is 0 in every column
  and \<open>argmax\<close> answers 0 as well.
\<close>

definition mean0 :: "nat \<Rightarrow> real list list \<Rightarrow> real list" where
  "mean0 n m = map (\<lambda>k. sum_list (col k m) / real (length m)) [0..<n]"

text \<open>\<open>argmax\<close>: the first index of a greatest element.\<close>

definition argmax :: "real list \<Rightarrow> nat" where
  "argmax xs = hd (filter (\<lambda>k. \<forall>v\<in>set xs. v \<le> xs ! k) [0..<length xs])"

subsection \<open>The plotting functions\<close>

text \<open>
  Matplotlib, seaborn and the file system are outside the repository. They are the
  parameter \<open>backend\<close>: \<open>backend name = Some e\<close> when importing the module \<open>name\<close>, or
  rendering and saving the file \<open>name\<close>, raises \<open>e\<close>, and \<open>None\<close> when it succeeds. What
  the plotting functions of the source raise by themselves is written out.
  \<open>KeyboardInterrupt\<close> is the one error of the model that is not a Python \<open>Exception\<close>.
\<close>

definition is_Exception :: "error \<Rightarrow> bool" where
  "is_Exception e \<longleftrightarrow> e \<noteq> KeyboardInterrupt"

definition savefig :: "(string \<Rightarrow> error option) \<Rightarrow> string \<Rightarrow> error + unit" where
  "savefig backend name = (case backend name of Some e \<Rightarrow> Inl e | None \<Rightarrow> Inr ())"

text \<open>Two backends for examples: one where everything succeeds, one where \<open>file\<close> raises \<open>e\<close>.\<close>

definition working_backend :: "string \<Rightarrow> error option" where
  "working_backend name = None"

definition failing_backend :: "string \<Rightarrow> error \<Rightarrow> string \<Rightarrow> error option" where
  "failing_backend file e name = (if name = file then Some e else None)"

text \<open>
  \<open>plot_pr_curve\<close>: \<open>np.stack(py, axis=1)\<close> raises ValueError for an empty \<open>py\<close>; with
  between 1 and 20 names, \<open>names[i]\<close> and \<open>ap[i, 0]\<close> are read for every curve of \<open>py\<close>;
  then \<open>ap[:, 0]\<close> is read for the legend of the mean curve. \<open>ap\<close> is the list of its
  rows and \<open>T\<close> is \<open>ap.shape[1]\<close>.
\<close>

definition plot_pr_curve ::
  "(string \<Rightarrow> error option) \<Rightarrow> real list \<Rightarrow> real list list \<Rightarrow> nat \<Rightarrow> real list list \<Rightarrow> string
     \<Rightarrow> string list \<Rightarrow> error + unit" where
  "plot_pr_curve backend px py T ap save_dir names =
     (if py = [] then Inl ValueError
      else if 0 < length names \<and> length names < 21
              \<and> (length names < length py \<or> length ap < length py)
           then Inl IndexError
      else if T = 0 then Inl IndexError
      else savefig backend save_dir)"

text \<open>\<open>plot_mc_curve\<close>: with between 1 and 20 names, \<open>names[i]\<close> is read for every row of \<open>py\<close>.\<close>

definition plot_mc_curve ::
  "(string \<Rightarrow> error option) \<Rightarrow> real list \<Rightarrow> real list list \<Rightarrow> string \<Rightarrow> string list \<Rightarrow> error + unit" where
  "plot_mc_curve backend px py save_dir names =
     (if 0 < length names \<and> length names < 21 \<and> length names < length py then Inl IndexError
      else savefig backend save_dir)"

text \<open>\<open>import seaborn as sn\<close> inside a function: it raises what the backend raises.\<close>

definition import_module :: "(string \<Rightarrow> error option) \<Rightarrow> string \<Rightarrow> error + unit" where
  "import_module backend name = (case backend name of Some e \<Rightarrow> Inl e | None \<Rightarrow> Inr ())"

text \<open>\<open>try: body except Exception: pass\<close>: an Exception raised by the body is dropped.\<close>

definition try_except_Exception :: "error + unit \<Rightarrow> error + unit" where
  "try_except_Exception body =
     (case body of Inl e \<Rightarrow> if is_Exception e then Inr () else Inl e | Inr u \<Rightarrow> Inr u)"

text \<open>
  \<open>ConfusionMatrix.plot\<close>: the import of seaborn, then the heat map, drawn and saved, all
  inside the \<open>try\<close>. With 1 to 98 names that are as many as the classes, the tick labels
  are \<open>names + ["background FP"]\<close>, which raises TypeError when \<open>names\<close> is a tuple
  (\<open>names_is_tuple\<close>), as the default \<open>()\<close> is. \<open>n_c\<close> is \<open>self.nc\<close>.
\<close>

definition ConfusionMatrix_plot_body ::
  "(string \<Rightarrow> error option) \<Rightarrow> nat \<Rightarrow> bool \<Rightarrow> string list \<Rightarrow> error + unit" where
  "ConfusionMatrix_plot_body backend n_c names_is_tuple names =
     bind_err (import_module backend ''seaborn'') (\<lambda>_.
     if 0 < length names \<and> length names < 99 \<and> length names = n_c \<and> names_is_tuple
     then Inl TypeError
     else savefig backend ''confusion_matrix.png'')"

definition ConfusionMatrix_plot ::
  "(string \<Rightarrow> error option) \<Rightarrow> nat \<Rightarrow> bool \<Rightarrow> string list \<Rightarrow> error + unit" where
  "ConfusionMatrix_plot backend n_c names_is_tuple names =
     try_except_Exception (ConfusionMatrix_plot_body backend n_c names_is_tuple names)"

subsection \<open>\<open>ap_per_class\<close>\<close>

text \<open>The grid \<open>px = np.linspace(0, 1, 1000)\<close> and the constant \<open>1e-16\<close>.\<close>

definition px1000 :: "real list" where
  "px1000 = linspace 0 1 1000"

definition eps16 :: real where
  "eps16 = 1 / 10 ^ 16"

text \<open>What one class contributes: its rows of \<open>ap\<close>, \<open>p\<close> and \<open>r\<close>, and what it appends to \<open>py\<close>.\<close>

record class_row =
  row_ap :: "real list"
  row_p :: "real list"
  row_r :: "real list"
  row_py :: "real list list"

text \<open>The body of \<open>for j in range(tp.shape[1])\<close>: the AP of column \<open>j\<close> and the curve appended to \<open>py\<close>.\<close>

definition ap_column ::
  "bool \<Rightarrow> real list list \<Rightarrow> real list list \<Rightarrow> nat \<Rightarrow> error + (real \<times> real list list)" where
  "ap_column plot recall precision j =
     bind_err (compute_ap (col j recall) (col j precision)) (\<lambda>(ap, mpre, mrec).
       if plot \<and> j = 0 then bind_err (np_interp px1000 mrec mpre None) (\<lambda>y. Inr (ap, [y]))
       else Inr (ap, []))"

text \<open>
  The body of \<open>for ci, c in enumerate(unique_classes)\<close>. \<open>T\<close> is \<open>tp.shape[1]\<close>; the arrays
  are the sorted ones. A skipped class keeps its rows of zeros. \<open>recall[:, 0]\<close> raises
  IndexError for an array without columns.
\<close>

definition class_curves ::
  "nat \<Rightarrow> real list list \<Rightarrow> real list \<Rightarrow> nat list \<Rightarrow> nat list \<Rightarrow> bool \<Rightarrow> nat \<Rightarrow> error + class_row" where
  "class_curves T tp conf pred_cls target_cls plot c =
     (let i = map (\<lambda>q. q = c) pred_cls;
          n_l = length (filter (\<lambda>t. t = c) target_cls);
          n_p = length (filter (\<lambda>b. b) i)
      in if n_p = 0 \<or> n_l = 0
         then Inr \<lparr>row_ap = replicate T 0, row_p = replicate 1000 0, row_r = replicate 1000 0,
                   row_py = []\<rparr>
         else
           let fpc = cumsum0 T (mat_map (\<lambda>v. 1 - v) (mask_select i tp));
               tpc = cumsum0 T (mask_select i tp);
               recall = mat_map (\<lambda>v. v / (real n_l + eps16)) tpc;
               precision = mat_map2 (\<lambda>a b. a / (a + b)) tpc fpc
           in if T = 0 then Inl IndexError
              else
                bind_err (np_interp (map uminus px1000) (map uminus (mask_select i conf))
                            (col 0 recall) (Some 0)) (\<lambda>r.
                bind_err (np_interp (map uminus px1000) (map uminus (mask_select i conf))
                            (col 0 precision) (Some 1)) (\<lambda>p.
                bind_err (map_err (ap_column plot recall precision) [0..<T]) (\<lambda>cols.
                  Inr \<lparr>row_ap = map fst cols, row_p = p, row_r = r,
                       row_py = concat (map snd cols)\<rparr>))))"

text \<open>
  The same curves computed from the first column \<open>tp[:, 0]\<close> alone: what
  \<open>class_curves\<close> is compared with.
\<close>

definition class_curves_first_column ::
  "real list \<Rightarrow> real list \<Rightarrow> nat list \<Rightarrow> nat list \<Rightarrow> bool \<Rightarrow> nat
     \<Rightarrow> error + (real list \<times> real list \<times> real list list)" where
  "class_curves_first_column tp0 conf pred_cls target_cls plot c =
     (let i = map (\<lambda>q. q = c) pred_cls;
          n_l = length (filter (\<lambda>t. t = c) target_cls);
          n_p = length (filter (\<lambda>b. b) i)
      in if n_p = 0 \<or> n_l = 0 then Inr (replicate 1000 0, replicate 1000 0, [])
         else
           let fpc = cumsum_from 0 (map (\<lambda>v. 1 - v) (mask_select i tp0));
               tpc = cumsum_from 0 (mask_select i tp0);
               recall = map (\<lambda>v. v / (real n_l + eps16)) tpc;
               precision = map2 (\<lambda>a b. a / (a + b)) tpc fpc
           in bind_err (np_interp (map uminus px1000) (map uminus (mask_select i conf))
                          recall (Some 0)) (\<lambda>r.
              bind_err (np_interp (map uminus px1000) (map uminus (mask_select i conf))
                          precision (Some 1)) (\<lambda>p.
              bind_err (compute_ap recall precision) (\<lambda>(ap, mpre, mrec).
                if plot then bind_err (np_interp px1000 mrec mpre None) (\<lambda>y. Inr (p, r, [y]))
                else Inr (p, r, [])))))"

record ap_result =
  res_p :: "real list"
  res_r :: "real list"
  res_ap :: "real list list"
  res_f1 :: "real list"
  res_classes :: "nat list"

text \<open>The four plotting calls under \<open>if plot:\<close>, in the order of the source.\<close>

definition ap_plots ::
  "(string \<Rightarrow> error option) \<Rightarrow> real list list \<Rightarrow> nat \<Rightarrow> real list list \<Rightarrow> real list list
     \<Rightarrow> real list list \<Rightarrow> real list list \<Rightarrow> string list \<Rightarrow> error + unit" where
  "ap_plots backend py T ap f1 p r names =
     bind_err (plot_pr_curve backend px1000 py T ap ''PR_curve.png'' names) (\<lambda>_.
     bind_err (plot_mc_curve backend px1000 f1 ''F1_curve.png'' names) (\<lambda>_.
     bind_err (plot_mc_curve backend px1000 p ''P_curve.png'' names) (\<lambda>_.
     plot_mc_curve backend px1000 r ''R_curve.png'' names)))"

text \<open>
  \<open>ap_per_class\<close> after the loop over the classes, from \<open>f1 = ...\<close> on: the rows of the
  classes are the arrays \<open>ap\<close>, \<open>p\<close> and \<open>r\<close>, and \<open>py\<close> is what the classes appended.
  \<open>T\<close> is \<open>tp.shape[1]\<close>, the number of columns of \<open>ap\<close>.
\<close>

definition ap_finish ::
  "(string \<Rightarrow> error option) \<Rightarrow> bool \<Rightarrow> string list \<Rightarrow> nat \<Rightarrow> nat list \<Rightarrow> class_row list
     \<Rightarrow> error + ap_result" where
  "ap_finish backend plot names T unique_classes rows =
     (let ap = map row_ap rows; p = map row_p rows; r = map row_r rows;
          py = concat (map row_py rows);
          f1 = mat_map2 (\<lambda>p r. 2 * p * r / (p + r + eps16)) p r
      in
      bind_err (if plot then ap_plots backend py T ap f1 p r names else Inr ()) (\<lambda>_.
      let i = argmax (mean0 1000 f1) in
      Inr \<lparr>res_p = col i p, res_r = col i r, res_ap = ap, res_f1 = col i f1,
           res_classes = unique_classes\<rparr>))"

text \<open>
  \<open>ap_per_class\<close>. Class ids are natural numbers; \<open>np.unique\<close> gives them sorted and
  without repetition. \<open>T\<close> is \<open>tp.shape[1]\<close> and every row of \<open>tp\<close> has \<open>T\<close> entries.
\<close>

definition ap_per_class ::
  "(real list \<Rightarrow> nat list) \<Rightarrow> (string \<Rightarrow> error option) \<Rightarrow> nat \<Rightarrow> real list list \<Rightarrow> real list
     \<Rightarrow> nat list \<Rightarrow> nat list \<Rightarrow> bool \<Rightarrow> string list \<Rightarrow> error + ap_result" where
  "ap_per_class argsort backend T tp conf pred_cls target_cls plot names =
     (let i = argsort (map uminus conf) in
      bind_err (np_take tp i) (\<lambda>tp.
      bind_err (np_take conf i) (\<lambda>conf.
      bind_err (np_take pred_cls i) (\<lambda>pred_cls.
      let unique_classes = sort (remdups target_cls) in
      bind_err (map_err (class_curves T tp conf pred_cls target_cls plot) unique_classes)
        (ap_finish backend plot names T unique_classes)))))"

text \<open>Everything \<open>ap_per_class\<close> returns but the \<open>ap\<close> array.\<close>

definition operating_point :: "ap_result \<Rightarrow> real list \<times> real list \<times> real list \<times> nat list" where
  "operating_point res = (res_p res, res_r res, res_f1 res, res_classes res)"

subsection \<open>Detections, labels and their overlap\<close>

text \<open>
  A row \<open>[x1, y1, x2, y2, conf, class]\<close> of the detections array and a row
  \<open>[class, x1, y1, x2, y2]\<close> of the labels array. Class ids are natural numbers.
\<close>

record box =
  box_x1 :: real
  box_y1 :: real
  box_x2 :: real
  box_y2 :: real

record detection =
  det_box :: box
  det_conf :: real
  det_cls :: nat

record label =
  lab_cls :: nat
  lab_box :: box

text \<open>
  Modelled from the spec: \<open>general.box_iou\<close> is not among the sources. The spec gives it
  as a pure function from two sets of boxes to the matrix of their IoU values, the IoU of
  two boxes being the ratio of their overlap area to their union area. The functions
  below take the pairwise IoU as a parameter \<open>iou\<close>; \<open>box_iou\<close> is used to run examples
  (on boxes with a union of positive area, where the quotient is defined).
\<close>

definition box_area :: "box \<Rightarrow> real" where
  "box_area b = (box_x2 b - box_x1 b) * (box_y2 b - box_y1 b)"

definition box_inter :: "box \<Rightarrow> box \<Rightarrow> real" where
  "box_inter a b =
     max 0 (min (box_x2 a) (box_x2 b) - max (box_x1 a) (box_x1 b)) * max 0 (min (box_y2 a) (box_y2 b) - max (box_y1 a) (box_y1 b))"

definition box_iou :: "box \<Rightarrow> box \<Rightarrow> real" where
  "box_iou a b = box_inter a b / (box_area a + box_area b - box_inter a b)"

text \<open>
  A row \<open>[label index, detection index, IoU]\<close> of the \<open>matches\<close> array. The index columns
  hold the whole numbers that \<open>torch.where\<close> returned, stored as floats (exactly, for the
  indices below \<open>2^24\<close> that a \<open>float32\<close> holds).
\<close>

type_synonym match = "nat \<times> nat \<times> real"

definition m_label :: "match \<Rightarrow> nat" where
  "m_label m = fst m"

definition m_det :: "match \<Rightarrow> nat" where
  "m_det m = fst (snd m)"

definition m_iou :: "match \<Rightarrow> real" where
  "m_iou m = snd (snd m)"

text \<open>
  \<open>astype(np.int16)\<close> on a whole number: the cast wraps, keeping the value modulo \<open>2^16\<close>
  that lies between \<open>-2^15\<close> and \<open>2^15 - 1\<close>.
\<close>

definition int16 :: "nat \<Rightarrow> int" where
  "int16 k = (let r = int k mod 65536 in if r < 32768 then r else r - 65536)"

text \<open>
  \<open>m0, m1, _ = matches.transpose().astype(np.int16)\<close>: the label indices and the detection
  indices of the matches, as \<open>int16\<close>.
\<close>

definition matches_m0 :: "match list \<Rightarrow> int list" where
  "matches_m0 matches = map (\<lambda>m. int16 (m_label m)) matches"

definition matches_m1 :: "match list \<Rightarrow> int list" where
  "matches_m1 matches = map (\<lambda>m. int16 (m_det m)) matches"

text \<open>
  Indexing with signed indices, \<open>xs[k]\<close> and \<open>xs[idx]\<close>: a negative index counts from the
  end, and an index outside \<open>[-len(xs), len(xs))\<close> raises IndexError.
\<close>

definition py_nth :: "'a list \<Rightarrow> int \<Rightarrow> 'a" where
  "py_nth xs k = xs ! nat (if k < 0 then int (length xs) + k else k)"


text \<open>
  \<open>x = torch.where(iou > iou_thres)\<close> and the rows \<open>[x[0], x[1], iou[x[0], x[1]]]\<close> built
  from it: the pairs above the threshold, in row-major order of the IoU matrix
  (labels are its rows, detections its columns).
\<close>

definition candidates :: "(box \<Rightarrow> box \<Rightarrow> real) \<Rightarrow> real \<Rightarrow> label list \<Rightarrow> detection list \<Rightarrow> match list" where
  "candidates iou thres labels detections =
     concat (map (\<lambda>i.
       concat (map (\<lambda>j.
         if thres < iou (lab_box (labels ! i)) (det_box (detections ! j))
         then [(i, j, iou (lab_box (labels ! i)) (det_box (detections ! j)))] else [])
       [0..<length detections]))
     [0..<length labels])"

text \<open>
  \<open>np.unique(xs, return_index=True)[1]\<close>: for each distinct value, in increasing order of
  the values, the index of its first occurrence.
\<close>

definition unique_index :: "nat list \<Rightarrow> nat list" where
  "unique_index xs = map (\<lambda>v. length (takeWhile (\<lambda>x. x \<noteq> v) xs)) (sort (remdups xs))"

text \<open>
  The four lines under \<open>if x[0].shape[0] > 1\<close>: sort by descending IoU, keep the first
  row of each detection index, sort again, keep the first row of each label index.
\<close>

definition resolve_matches :: "(real list \<Rightarrow> nat list) \<Rightarrow> match list \<Rightarrow> error + match list" where
  "resolve_matches argsort matches =
     bind_err (np_take matches (rev (argsort (map m_iou matches)))) (\<lambda>matches.
     bind_err (np_take matches (unique_index (map m_det matches))) (\<lambda>matches.
     bind_err (np_take matches (rev (argsort (map m_iou matches)))) (\<lambda>matches.
     np_take matches (unique_index (map m_label matches)))))"

subsection \<open>\<open>ConfusionMatrix\<close>\<close>

record confusion_matrix =
  cm_matrix :: "nat list list"
  cm_nc :: nat
  cm_conf :: real
  cm_iou_thres :: real

definition ConfusionMatrix_init :: "nat \<Rightarrow> real \<Rightarrow> real \<Rightarrow> confusion_matrix" where
  "ConfusionMatrix_init n c t =
     \<lparr>cm_matrix = replicate (n + 1) (replicate (n + 1) 0), cm_nc = n, cm_conf = c, cm_iou_thres = t\<rparr>"



text \<open>The detections kept by \<open>detections[detections[:, 4] > self.conf]\<close>.\<close>

definition above_conf :: "confusion_matrix \<Rightarrow> detection list \<Rightarrow> detection list" where
  "above_conf cm detections = filter (\<lambda>d. cm_conf cm < det_conf d) detections"

text \<open>The \<open>matches\<close> array of \<open>process_batch\<close>, from the IoU matrix to the end of the \<open>if\<close>.\<close>

definition ConfusionMatrix_matches ::
  "(real list \<Rightarrow> nat list) \<Rightarrow> (box \<Rightarrow> box \<Rightarrow> real) \<Rightarrow> confusion_matrix \<Rightarrow> detection list \<Rightarrow> label list
     \<Rightarrow> error + match list" where
  "ConfusionMatrix_matches argsort iou cm detections labels =
     (let x = candidates iou (cm_iou_thres cm) labels (above_conf cm detections)
      in if x \<noteq> [] then (if 1 < length x then resolve_matches argsort x else Inr x)
         else Inr [])"

text \<open>
  The two loops of \<open>process_batch\<close> are modelled as the list of the cells they increment,
  in order, followed by the increments: finding a cell does not read the matrix.
\<close>






subsection \<open>\<open>OD_AUCROC\<close>\<close>

text \<open>
  Modelled from the spec: \<open>torchmetrics.ROC\<close> is a library class. The spec gives the state
  of such an accumulator as the ordered (score, binary label) pairs it was fed, growing
  with each update; \<open>update(preds, target)\<close> appends the pairs of two tensors of the same
  length.
\<close>

type_synonym roc = "(real \<times> real) list"

definition roc_update :: "roc \<Rightarrow> real list \<Rightarrow> real list \<Rightarrow> roc" where
  "roc_update acc preds target = acc @ zip preds target"

record od_aucroc =
  roc_lesion :: roc
  roc_image :: roc
  roc_image_noloc :: roc
  class_modifier :: nat
  markers_in_normal_image :: "real list list"
  od_nc :: nat
  od_iou_thres :: real
  fm_img_ths :: real
  malignant_cls_th :: nat

text \<open>The fields set by \<open>__init__\<close> for the malignancy threshold \<open>th\<close>.\<close>

definition new_od_aucroc :: "nat \<Rightarrow> nat \<Rightarrow> real \<Rightarrow> real \<Rightarrow> od_aucroc" where
  "new_od_aucroc th n t f =
     \<lparr>roc_lesion = [], roc_image = [], roc_image_noloc = [], class_modifier = 1,
      markers_in_normal_image = [], od_nc = n, od_iou_thres = t, fm_img_ths = f,
      malignant_cls_th = th\<rparr>"

definition OD_AUCROC_init :: "nat \<Rightarrow> real \<Rightarrow> real \<Rightarrow> error + od_aucroc" where
  "OD_AUCROC_init n t f =
     (if n = 4 then Inr (new_od_aucroc 2 n t f)
      else if n = 2 then Inr (new_od_aucroc 1 n t f)
      else if n = 1 then Inr (new_od_aucroc 0 n t f)
      else Inl ValueError)"

text \<open>
  \<open>torch.max(detection_probs, 0, keepdim=True)[0]\<close>: the greatest element; the source calls
  it on a tensor with at least one element only.
\<close>

definition torch_max :: "real list \<Rightarrow> real" where
  "torch_max xs = fold max (tl xs) (hd xs)"

text \<open>
  The body of the inner loop \<open>for idc, dc in enumerate(detection_classes[m1[j]])\<close>, on
  the pair of \<open>dc\<close> and \<open>detection_probs[m1[j]][idc]\<close>; the state is
  \<open>(best_score, image_best_score)\<close>.
\<close>

definition lesion_inner :: "nat \<Rightarrow> nat \<times> real \<Rightarrow> real \<times> real \<Rightarrow> real \<times> real" where
  "lesion_inner gc dcp st =
     (case st of (best_score, image_best_score) \<Rightarrow>
        if fst dcp = gc
        then (max best_score (snd dcp), max image_best_score (max best_score (snd dcp)))
        else (best_score, image_best_score))"

text \<open>
  The body of \<open>for i, gc in enumerate(gt_classes)\<close>; the state is the lesion accumulator
  and \<open>image_best_score\<close>. The matches are \<open>candidates\<close>, so their detection indices are
  below the length of \<open>detection_classes\<close> and \<open>detection_probs\<close>; cast to \<open>int16\<close> they
  are still within \<open>[-len, len)\<close>, and the indexing with \<open>m1[j]\<close> does not raise.
\<close>

definition lesion_step ::
  "match list \<Rightarrow> nat list \<Rightarrow> real list \<Rightarrow> nat \<times> nat \<Rightarrow> roc \<times> real \<Rightarrow> roc \<times> real" where
  "lesion_step matches detection_classes detection_probs igc st =
     (case st of (lesion, image_best_score) \<Rightarrow>
        let j = map (\<lambda>v. v = int (fst igc)) (matches_m0 matches);
            m1j = mask_select j (matches_m1 matches);
            dcs = map (py_nth detection_classes) m1j;
            ps = map (py_nth detection_probs) m1j
        in if matches \<noteq> [] \<and> 0 < length (filter (\<lambda>b. b) j) \<and> (\<exists>dc\<in>set dcs. dc = snd igc)
           then (case fold (lesion_inner (snd igc)) (zip dcs ps) (0, image_best_score) of
                   (best_score, image_best_score) \<Rightarrow>
                     (roc_update lesion [best_score] [real (snd igc)], image_best_score))
           else (roc_update lesion [0] [real (snd igc)], image_best_score))"

text \<open>
  \<open>process_batch\<close> from \<open>detection_probs = ...\<close> on, given the relabelled malignant
  detections and labels. The matches are all the pairs above the IoU threshold: the four
  lines that resolve them are commented out in this class.
\<close>

definition OD_AUCROC_score_image ::
  "(box \<Rightarrow> box \<Rightarrow> real) \<Rightarrow> od_aucroc \<Rightarrow> detection list \<Rightarrow> label list \<Rightarrow> od_aucroc" where
  "OD_AUCROC_score_image iou eng mal_detections mal_labels =
     (let detection_probs = map det_conf mal_detections;
          nl = length mal_labels
      in
      if length mal_detections = 0 then
        (if nl = 0 then
           eng\<lparr>markers_in_normal_image := markers_in_normal_image eng @ [detection_probs],
               roc_lesion := roc_update (roc_lesion eng) [0] [0],
               roc_image := roc_update (roc_image eng) [0] [0],
               roc_image_noloc := roc_update (roc_image_noloc eng) [0] [0]\<rparr>
         else
           eng\<lparr>roc_lesion := roc_update (roc_lesion eng) (replicate nl 0) (replicate nl 1),
               roc_image := roc_update (roc_image eng) [0] [1],
               roc_image_noloc := roc_update (roc_image_noloc eng) [0] [1]\<rparr>)
      else if nl = 0 then
        eng\<lparr>markers_in_normal_image := markers_in_normal_image eng @ [detection_probs],
            roc_lesion := roc_update (roc_lesion eng) [torch_max detection_probs] [0],
            roc_image := roc_update (roc_image eng) [torch_max detection_probs] [0],
            roc_image_noloc := roc_update (roc_image_noloc eng) [torch_max detection_probs] [0]\<rparr>
      else
        let gt_classes = map (\<lambda>l. lab_cls l + class_modifier eng) mal_labels;
            detection_classes = map (\<lambda>d. det_cls d + class_modifier eng) mal_detections;
            matches = candidates iou (od_iou_thres eng) mal_labels mal_detections
        in case fold (lesion_step matches detection_classes detection_probs)
                  (enumerate 0 gt_classes) (roc_lesion eng, 0) of
             (lesion, image_best_score) \<Rightarrow>
               eng\<lparr>roc_image_noloc := roc_update (roc_image_noloc eng) [torch_max detection_probs] [1],
                   roc_lesion := lesion,
                   roc_image := (if 0 < nl then roc_update (roc_image eng) [image_best_score] [1]
                                 else roc_image eng)\<rparr>)"

text \<open>
  The tensors a caller holds and the tensors \<open>process_batch\<close> makes live in a store; a
  reference to a tensor is its index in the store. Indexing with a boolean mask makes a
  new tensor (a copy of the selected rows); assigning to a column slice writes into the
  tensor it is applied to.
\<close>

record store =
  det_arrays :: "detection list list"
  lab_arrays :: "label list list"

definition det_mask_index :: "store \<Rightarrow> nat \<Rightarrow> (detection \<Rightarrow> bool) \<Rightarrow> store \<times> nat" where
  "det_mask_index st a P =
     (st\<lparr>det_arrays := det_arrays st @ [filter P (det_arrays st ! a)]\<rparr>, length (det_arrays st))"

definition lab_mask_index :: "store \<Rightarrow> nat \<Rightarrow> (label \<Rightarrow> bool) \<Rightarrow> store \<times> nat" where
  "lab_mask_index st a P =
     (st\<lparr>lab_arrays := lab_arrays st @ [filter P (lab_arrays st ! a)]\<rparr>, length (lab_arrays st))"

definition det_set_cls :: "store \<Rightarrow> nat \<Rightarrow> nat \<Rightarrow> store" where
  "det_set_cls st a v =
     st\<lparr>det_arrays := (det_arrays st)[a := map (\<lambda>d. d\<lparr>det_cls := v\<rparr>) (det_arrays st ! a)]\<rparr>"

definition lab_set_cls :: "store \<Rightarrow> nat \<Rightarrow> nat \<Rightarrow> store" where
  "lab_set_cls st a v =
     st\<lparr>lab_arrays := (lab_arrays st)[a := map (\<lambda>l. l\<lparr>lab_cls := v\<rparr>) (lab_arrays st ! a)]\<rparr>"

text \<open>
  \<open>OD_AUCROC.process_batch\<close> on the references \<open>detections\<close> and \<open>labels\<close>: the store and
  the engine after the call.
\<close>

definition OD_AUCROC_process_batch ::
  "(box \<Rightarrow> box \<Rightarrow> real) \<Rightarrow> od_aucroc \<Rightarrow> store \<Rightarrow> nat \<Rightarrow> nat \<Rightarrow> store \<times> od_aucroc" where
  "OD_AUCROC_process_batch iou eng st detections labels =
     (case det_mask_index st detections (\<lambda>d. malignant_cls_th eng \<le> det_cls d) of
        (st1, mal_detections) \<Rightarrow>
     case lab_mask_index st1 labels (\<lambda>l. malignant_cls_th eng \<le> lab_cls l) of
        (st2, mal_labels) \<Rightarrow>
     let st3 = det_set_cls st2 mal_detections 0;
         st4 = lab_set_cls st3 mal_labels 0
     in (st4, OD_AUCROC_score_image iou eng (det_arrays st4 ! mal_detections)
                (lab_arrays st4 ! mal_labels)))"

text \<open>The malignant detections and labels of an image, relabelled to class 0.\<close>

definition mal_detections_of :: "od_aucroc \<Rightarrow> detection list \<Rightarrow> detection list" where
  "mal_detections_of eng detections =
     map (\<lambda>d. d\<lparr>det_cls := 0\<rparr>) (filter (\<lambda>d. malignant_cls_th eng \<le> det_cls d) detections)"

definition mal_labels_of :: "od_aucroc \<Rightarrow> label list \<Rightarrow> label list" where
  "mal_labels_of eng labels =
     map (\<lambda>l. l\<lparr>lab_cls := 0\<rparr>) (filter (\<lambda>l. malignant_cls_th eng \<le> lab_cls l) labels)"

text \<open>The \<open>matches\<close> array that \<open>process_batch\<close> scores an image with.\<close>

definition OD_AUCROC_matches ::
  "(box \<Rightarrow> box \<Rightarrow> real) \<Rightarrow> od_aucroc \<Rightarrow> detection list \<Rightarrow> label list \<Rightarrow> match list" where
  "OD_AUCROC_matches iou eng detections labels =
     candidates iou (od_iou_thres eng) (mal_labels_of eng labels) (mal_detections_of eng detections)"

text \<open>
  \<open>torch.cat\<close> and \<open>torch.stack\<close> raise RuntimeError on an empty list of tensors.
\<close>

definition torch_cat :: "real list list \<Rightarrow> error + real list" where
  "torch_cat ts = (if ts = [] then Inl RuntimeError else Inr (concat ts))"

definition torch_stack :: "real list \<Rightarrow> error + real list" where
  "torch_stack ts = (if ts = [] then Inl RuntimeError else Inr ts)"

text \<open>
  \<open>froc_curve\<close>: for each threshold, the number of recorded markers above it divided by
  the number of entries of \<open>markers_in_normal_image\<close>.
\<close>

definition froc_curve :: "od_aucroc \<Rightarrow> real list \<Rightarrow> real list \<Rightarrow> error + (real list \<times> real list)" where
  "froc_curve eng tpr thresholds =
     (let n_normal_images = length (markers_in_normal_image eng) in
      bind_err (map_err (\<lambda>threshold.
                  bind_err (torch_cat (markers_in_normal_image eng)) (\<lambda>markers.
                    Inr (real (length (filter (\<lambda>v. threshold < v) markers))
                         / real n_normal_images)))
                thresholds) (\<lambda>avg_fm_image_per_ths.
      bind_err (torch_stack avg_fm_image_per_ths) (\<lambda>stacked. Inr (tpr, stacked))))"

text \<open>The second array of a result of \<open>froc_curve\<close> (empty when it raised).\<close>

definition froc_fm :: "error + (real list \<times> real list) \<Rightarrow> real list" where
  "froc_fm res = (case res of Inl e \<Rightarrow> [] | Inr (tpr, fm) \<Rightarrow> fm)"

text \<open>Indexing with a boolean mask, \<open>xs[mask]\<close>, which raises IndexError when the shapes differ.\<close>

definition mask_index :: "'a list \<Rightarrow> bool list \<Rightarrow> error + 'a list" where
  "mask_index xs msk =
     (if length msk = length xs then Inr (mask_select msk xs) else Inl IndexError)"

text \<open>
  \<open>torchmetrics.ROC.compute\<close> and \<open>torchmetrics.functional.auc\<close> are library functions.
  They are the parameters \<open>compute\<close> and \<open>auc\<close> of \<open>score\<close>: \<open>compute acc\<close> is the triple
  \<open>(fpr, tpr, thresholds)\<close> derived from the pairs of an accumulator, or the error that the
  call raises; \<open>auc x y\<close> is the area under a curve, or the error that the call raises.

  \<open>partial_auc\<close> is the pair of lines \<open>partial_fm_img_idx = fm_img <= self.fm_img_ths\<close> and
  \<open>auc(tpr[partial_fm_img_idx], fm_img[partial_fm_img_idx])\<close> that \<open>score\<close> has at each of
  its three levels.
\<close>

definition partial_auc ::
  "(real list \<Rightarrow> real list \<Rightarrow> error + real) \<Rightarrow> od_aucroc \<Rightarrow> real list \<Rightarrow> real list \<Rightarrow> error + real" where
  "partial_auc auc eng froc_tpr froc_fm_img =
     (let partial_fm_img_idx = map (\<lambda>v. v \<le> fm_img_ths eng) froc_fm_img in
      bind_err (mask_index froc_tpr partial_fm_img_idx) (\<lambda>x.
      bind_err (mask_index froc_fm_img partial_fm_img_idx) (\<lambda>y. auc x y)))"

text \<open>\<open>score\<close>, statement by statement; the first raise ends it.\<close>

definition score ::
  "(roc \<Rightarrow> error + (real list \<times> real list \<times> real list)) \<Rightarrow> (real list \<Rightarrow> real list \<Rightarrow> error + real)
     \<Rightarrow> od_aucroc \<Rightarrow> error + (real \<times> real \<times> real \<times> real \<times> real \<times> real)" where
  "score compute auc eng =
     bind_err (compute (roc_lesion eng)) (\<lambda>(lesion_fpr, lesion_tpr, lesion_thresholds).
     bind_err (froc_curve eng lesion_tpr lesion_thresholds) (\<lambda>(froc_lesion_tpr, froc_lesion_fm_img).
     bind_err (auc lesion_fpr lesion_tpr) (\<lambda>auc_roc_lesion.
     bind_err (partial_auc auc eng froc_lesion_tpr froc_lesion_fm_img) (\<lambda>pauc_froc_lesion.
     bind_err (compute (roc_image eng)) (\<lambda>(image_fpr, image_tpr, image_thresholds).
     bind_err (auc image_fpr image_tpr) (\<lambda>auc_roc_image.
     bind_err (froc_curve eng image_tpr image_thresholds) (\<lambda>(froc_image_tpr, froc_image_fm_img).
     bind_err (partial_auc auc eng froc_image_tpr froc_image_fm_img) (\<lambda>pauc_froc_image.
     bind_err (compute (roc_image_noloc eng))
       (\<lambda>(image_nonlocal_frp, image_nonlocal_tpr, image_nonlocal_thresholds).
     bind_err (auc image_nonlocal_frp image_nonlocal_tpr) (\<lambda>auc_roc_image_nonloc.
     bind_err (froc_curve eng image_nonlocal_tpr image_nonlocal_thresholds)
       (\<lambda>(froc_image_nonloc_tpr, froc_image_nonloc_fm_img).
     bind_err (partial_auc auc eng froc_image_nonloc_tpr froc_image_nonloc_fm_img)
       (\<lambda>pauc_froc_image_nonloc.
     Inr (auc_roc_lesion, auc_roc_image, auc_roc_image_nonloc,
          pauc_froc_lesion, pauc_froc_image, pauc_froc_image_nonloc)))))))))))))"

text \<open>
  Modelled from the spec: instances of the two library parameters, used to run examples.
  The spec gives \<open>compute\<close> as sorting an accumulator by score, descending, and deriving
  (false-positive rate, true-positive rate, threshold) triples by the standard rank-based
  construction, and the AUC as the trapezoidal integral of one array over the other.
  \<open>rank_roc\<close> puts a first point with no positive call before the distinct scores, and
  divides the counts by their totals (a rate without total is 0). On an accumulator
  without pairs it raises ValueError, as \<open>torchmetrics.ROC.compute\<close> does when no sample
  was stored.
\<close>

definition rank_roc :: "roc \<Rightarrow> error + (real list \<times> real list \<times> real list)" where
  "rank_roc acc =
     (if acc = [] then Inl ValueError
      else
        let ths = rev (sort (remdups (map fst acc)));
            tps = map (\<lambda>t. real (length (filter (\<lambda>sy. t \<le> fst sy \<and> snd sy = 1) acc))) ths;
            fps = map (\<lambda>t. real (length (filter (\<lambda>sy. t \<le> fst sy \<and> snd sy \<noteq> 1) acc))) ths
        in Inr (0 # map (\<lambda>v. v / last fps) fps, 0 # map (\<lambda>v. v / last tps) tps,
                (hd ths + 1) # ths))"

definition trapezoid_auc :: "real list \<Rightarrow> real list \<Rightarrow> error + real" where
  "trapezoid_auc x y = (if length x = length y then Inr (trapz y x) else Inl ValueError)"

section \<open>Properties of the precision envelope\<close>

lemma length_maximum_accumulate [simp]: "length (maximum_accumulate xs) = length xs"
  by (induction xs rule: maximum_accumulate.induct) simp_all

lemma maximum_accumulate_Nil_iff [simp]: "maximum_accumulate xs = [] \<longleftrightarrow> xs = []"
  by (induction xs rule: maximum_accumulate.induct) simp_all

lemma hd_maximum_accumulate: "xs \<noteq> [] \<Longrightarrow> hd (maximum_accumulate xs) = hd xs"
  by (induction xs rule: maximum_accumulate.induct) simp_all

lemma maximum_accumulate_ge_hd:
  "v \<in> set (maximum_accumulate xs) \<Longrightarrow> hd xs \<le> v"
proof (induction xs rule: maximum_accumulate.induct)
  case (3 x y ys)
  then show ?case by (auto simp: max_def split: if_splits)
qed simp_all

lemma sorted_maximum_accumulate: "sorted (maximum_accumulate xs)"
proof (induction xs rule: maximum_accumulate.induct)
  case (3 x y ys)
  have "x \<le> v" if "v \<in> set (maximum_accumulate (max x y # ys))" for v
    using maximum_accumulate_ge_hd [OF that] by simp
  with 3 show ?case by simp
qed simp_all

lemma last_maximum_accumulate_le:
  "xs \<noteq> [] \<Longrightarrow> \<forall>v\<in>set xs. v \<le> b \<Longrightarrow> last (maximum_accumulate xs) \<le> b"
  by (induction xs rule: maximum_accumulate.induct) simp_all

lemma last_le_maximum_accumulate:
  "xs \<noteq> [] \<Longrightarrow> last xs \<le> last (maximum_accumulate xs)"
proof (induction xs rule: maximum_accumulate.induct)
  case (3 x y ys)
  have "last (x # y # ys) \<le> last (max x y # ys)" by (cases ys) simp_all
  also have "\<dots> \<le> last (maximum_accumulate (max x y # ys))" using 3 by simp
  finally show ?case by simp
qed simp_all

lemma compute_ap_Inr:
  assumes "compute_ap recall precision = Inr (ap, mpre, mrec)"
  shows "mpre = rev (maximum_accumulate (rev ([1] @ precision @ [0])))"
    and "mrec = [0] @ recall @ [last recall + 1 / 100]"
    and "recall \<noteq> []" and "length precision = length recall"
  using assms
  by (auto simp: compute_ap_def np_interp_def Let_def split: if_splits)

lemma compute_ap_Inl:
  assumes "compute_ap recall precision = Inl e" and "recall \<noteq> []"
  shows "e = ValueError \<and> length precision \<noteq> length recall"
  using assms
  by (auto simp: compute_ap_def np_interp_def Let_def split: if_splits)

lemma compute_ap_returns:
  assumes "recall \<noteq> []" and "length precision = length recall"
  shows "\<exists>ap. compute_ap recall precision =
           Inr (ap, rev (maximum_accumulate (rev ([1] @ precision @ [0]))),
                [0] @ recall @ [last recall + 1 / 100])"
  using assms by (simp add: compute_ap_def np_interp_def Let_def)

lemma compute_ap_example:
  "\<exists>ap. compute_ap [1 / 2] [1 / 2] = Inr (ap, [1, 1 / 2, 0], [0, 1 / 2, 51 / 100])"
  using compute_ap_returns [of "[1 / 2]" "[1 / 2]"] by simp

text \<open>
  C5, as stated, fails. For \<open>recall = [0.5]\<close> and \<open>precision = [0.5]\<close> the padded recall
  is \<open>[0, 0.5, 0.51]\<close> and the envelope is \<open>[1, 0.5, 0]\<close>: the point at the lowest
  recall has the greatest precision, not one less than or equal to that of the point
  at the highest recall.
\<close>

theorem compute_ap_envelope_counterexample:
  "ap_mrec (compute_ap [1 / 2] [1 / 2]) ! 0 < ap_mrec (compute_ap [1 / 2] [1 / 2]) ! 2
   \<and> \<not> ap_mpre (compute_ap [1 / 2] [1 / 2]) ! 0 \<le> ap_mpre (compute_ap [1 / 2] [1 / 2]) ! 2"
  by (simp add: compute_ap_def np_interp_def ap_mpre_def ap_mrec_def Let_def)

text \<open>
  C5, amended: the envelope returned by \<open>compute_ap\<close> never increases along the array,
  from the recall-0 sentinel to the maximum-recall sentinel; so, when the padded recall
  array is nondecreasing, of any two points of the envelope the one at the higher recall
  has precision less than or equal to that of the one at the lower recall.
\<close>

theorem compute_ap_envelope_nonincreasing:
  assumes "compute_ap recall precision = Inr (ap, mpre, mrec)"
  shows "(\<forall>i j. i \<le> j \<and> j < length mpre \<longrightarrow> mpre ! j \<le> mpre ! i)
       \<and> (sorted mrec \<longrightarrow>
            (\<forall>i j. i < length mpre \<and> j < length mpre \<and> mrec ! i < mrec ! j
               \<longrightarrow> mpre ! j \<le> mpre ! i))"
proof -
  have m: "mpre = rev (maximum_accumulate (rev ([1] @ precision @ [0])))"
    and r: "mrec = [0] @ recall @ [last recall + 1 / 100]"
    and l: "length precision = length recall"
    using compute_ap_Inr [OF assms] by simp_all
  have "sorted (rev mpre)"
    unfolding m by (simp only: rev_rev_ident sorted_maximum_accumulate)
  then have dec: "sorted_wrt (\<lambda>x y. y \<le> x) mpre"
    by (simp add: sorted_wrt_rev)
  have idx: "mpre ! j \<le> mpre ! i" if "i \<le> j" "j < length mpre" for i j
  proof (cases "i = j")
    case False
    with that have "i < j" by simp
    with dec that(2) show ?thesis by (simp add: sorted_wrt_iff_nth_less)
  qed simp
  have len: "length mrec = length mpre" by (simp add: m r l)
  have rec: "mpre ! j \<le> mpre ! i"
    if s: "sorted mrec" and ij: "i < length mpre" "j < length mpre" "mrec ! i < mrec ! j"
    for i j
  proof (rule idx)
    show "i \<le> j"
    proof (rule ccontr)
      assume "\<not> i \<le> j"
      then have "j \<le> i" by simp
      then have "mrec ! j \<le> mrec ! i" using s ij len by (simp add: sorted_iff_nth_mono)
      with ij show False by simp
    qed
  qed (rule ij)
  show ?thesis using idx rec by blast
qed

theorem compute_ap_envelope_nonincreasing_witness:
  "ap_mpre (compute_ap [1 / 2] [1 / 2]) = [1, 1 / 2, 0]
   \<and> ap_mrec (compute_ap [1 / 2] [1 / 2]) = [0, 1 / 2, 51 / 100]
   \<and> sorted (ap_mrec (compute_ap [1 / 2] [1 / 2]))
   \<and> ap_mpre (compute_ap [1 / 2] [1 / 2]) ! 2 \<le> ap_mpre (compute_ap [1 / 2] [1 / 2]) ! 0
   \<and> ap_mpre (compute_ap [1 / 2] [1 / 2]) ! 2 \<le> ap_mpre (compute_ap [1 / 2] [1 / 2]) ! 1"
proof -
  obtain ap where e: "compute_ap [1 / 2] [1 / 2] = Inr (ap, [1, 1 / 2, 0], [0, 1 / 2, 51 / 100])"
    using compute_ap_example by blast
  have s: "sorted [0, 1 / 2, 51 / 100 :: real]" by simp
  from compute_ap_envelope_nonincreasing [OF e]
  have a: "\<forall>i j. i \<le> j \<and> j < length [1, 1 / 2, 0 :: real]
             \<longrightarrow> [1, 1 / 2, 0 :: real] ! j \<le> [1, 1 / 2, 0] ! i"
    and b: "\<forall>i j. i < length [1, 1 / 2, 0 :: real] \<and> j < length [1, 1 / 2, 0 :: real]
                \<and> [0, 1 / 2, 51 / 100 :: real] ! i < [0, 1 / 2, 51 / 100] ! j
             \<longrightarrow> [1, 1 / 2, 0 :: real] ! j \<le> [1, 1 / 2, 0] ! i"
    using s by blast+
  have "[1, 1 / 2, 0 :: real] ! 2 \<le> [1, 1 / 2, 0] ! 0"
    using a [rule_format, of 0 2] by simp
  moreover have "[1, 1 / 2, 0 :: real] ! 2 \<le> [1, 1 / 2, 0] ! 1"
    using b [rule_format, of 1 2] by simp
  ultimately show ?thesis using e s by (simp add: ap_mpre_def ap_mrec_def)
qed

text \<open>
  C7: for a non-empty recall array and precision values at most 1, \<open>compute_ap\<close>
  returns an envelope whose first point is exactly 1 and whose last point is exactly 0.
  It returns whenever the two arrays have the same length; otherwise \<open>np.interp\<close>
  raises ValueError and no envelope is returned.
\<close>

theorem compute_ap_sentinels:
  assumes "recall \<noteq> []" and "\<forall>p\<in>set precision. p \<le> 1"
  shows "case compute_ap recall precision of
           Inr (ap, mpre, mrec) \<Rightarrow> hd mpre = 1 \<and> last mpre = 0
         | Inl e \<Rightarrow> e = ValueError \<and> length precision \<noteq> length recall"
proof (cases "compute_ap recall precision")
  case (Inl e)
  then show ?thesis using compute_ap_Inl [OF Inl assms(1)] by simp
next
  case (Inr t)
  obtain ap mpre mrec where t: "t = (ap, mpre, mrec)" by (cases t) auto
  have m: "mpre = rev (maximum_accumulate (rev ([1] @ precision @ [0])))"
    using compute_ap_Inr(1) Inr t by simp
  let ?xs = "rev ([1] @ precision @ [0])"
  have ne: "?xs \<noteq> []" by simp
  have "last mpre = hd (maximum_accumulate ?xs)"
    unfolding m using ne by (simp add: last_rev)
  also have "\<dots> = 0" using hd_maximum_accumulate [OF ne] by simp
  finally have l0: "last mpre = 0" .
  have "hd mpre = last (maximum_accumulate ?xs)"
    unfolding m by (simp add: hd_rev)
  moreover have "last (maximum_accumulate ?xs) \<le> 1"
    by (rule last_maximum_accumulate_le [OF ne]) (use assms(2) in auto)
  moreover have "1 \<le> last (maximum_accumulate ?xs)"
    using last_le_maximum_accumulate [OF ne] by simp
  ultimately have "hd mpre = 1" by simp
  with l0 show ?thesis using Inr t by simp
qed

theorem compute_ap_sentinels_witness:
  "[1 / 2 :: real] \<noteq> [] \<and> (1 / 2 :: real) \<le> 1
   \<and> hd (ap_mpre (compute_ap [1 / 2] [1 / 2])) = 1
   \<and> last (ap_mpre (compute_ap [1 / 2] [1 / 2])) = 0"
proof -
  obtain ap where e: "compute_ap [1 / 2] [1 / 2] = Inr (ap, [1, 1 / 2, 0], [0, 1 / 2, 51 / 100])"
    using compute_ap_example by blast
  have h1: "[1 / 2 :: real] \<noteq> []" and h2: "\<forall>p\<in>set [1 / 2 :: real]. p \<le> 1" by simp_all
  from compute_ap_sentinels [OF h1 h2]
  have "hd [1, 1 / 2, 0 :: real] = 1 \<and> last [1, 1 / 2, 0 :: real] = 0"
    unfolding e by simp
  then show ?thesis using e by (simp add: ap_mpre_def)
qed

section \<open>Properties of \<open>ap_per_class\<close>\<close>

lemma bind_err_simps [simp]:
  "bind_err (Inl e) f = Inl e" "bind_err (Inr x) f = f x"
  by (simp_all add: bind_err_def)

lemma col_cumsum0_from:
  "j < length acc \<Longrightarrow> \<forall>row\<in>set m. length row = length acc
     \<Longrightarrow> col j (cumsum0_from acc m) = cumsum_from (acc ! j) (col j m)"
proof (induction m arbitrary: acc)
  case Nil
  then show ?case by (simp add: col_def)
next
  case (Cons row m)
  have l: "length (map2 (+) acc row) = length acc" using Cons.prems by simp
  have n: "map2 (+) acc row ! j = acc ! j + row ! j" using Cons.prems by simp
  have "col j (cumsum0_from (map2 (+) acc row) m) = cumsum_from (map2 (+) acc row ! j) (col j m)"
    using Cons.IH [of "map2 (+) acc row"] Cons.prems l by simp
  then show ?case using n by (simp add: col_def)
qed

lemma col_cumsum0:
  "j < T \<Longrightarrow> \<forall>row\<in>set m. length row = T \<Longrightarrow> col j (cumsum0 T m) = cumsum_from 0 (col j m)"
  using col_cumsum0_from [of j "replicate T 0" m] by (simp add: cumsum0_def)

lemma cumsum0_from_rows:
  "\<forall>row\<in>set m. length row = length acc \<Longrightarrow> row \<in> set (cumsum0_from acc m) \<Longrightarrow> length row = length acc"
proof (induction m arbitrary: acc)
  case (Cons r m)
  have l: "length (map2 (+) acc r) = length acc" using Cons.prems by simp
  show ?case using Cons.prems Cons.IH [of "map2 (+) acc r"] l by auto
qed simp

lemma length_cumsum0_from [simp]: "length (cumsum0_from acc m) = length m"
  by (induction m arbitrary: acc) simp_all

lemma length_cumsum0 [simp]: "length (cumsum0 T m) = length m"
  by (simp add: cumsum0_def)

lemma cumsum0_rows:
  "\<forall>row\<in>set m. length row = T \<Longrightarrow> row \<in> set (cumsum0 T m) \<Longrightarrow> length row = T"
  using cumsum0_from_rows [of m "replicate T 0" row] by (simp add: cumsum0_def)

lemma col_mat_map:
  "\<forall>row\<in>set m. j < length row \<Longrightarrow> col j (mat_map f m) = map f (col j m)"
  by (simp add: col_def mat_map_def)

lemma col_mat_map2:
  "\<forall>row\<in>set a. j < length row \<Longrightarrow> \<forall>row\<in>set b. j < length row
     \<Longrightarrow> col j (mat_map2 f a b) = map2 f (col j a) (col j b)"
proof (induction a arbitrary: b)
  case (Cons r a)
  then show ?case by (cases b) (simp_all add: col_def mat_map2_def)
qed (simp add: col_def mat_map2_def)

lemma col_mask_select: "col j (mask_select msk m) = mask_select msk (col j m)"
proof (induction msk arbitrary: m)
  case (Cons b msk)
  then show ?case by (cases m) (simp_all add: col_def mask_select_def)
qed (simp add: col_def mask_select_def)

lemma length_col [simp]: "length (col j m) = length m"
  by (simp add: col_def)

lemma mask_select_map_filter: "mask_select (map P xs) (map f xs) = map f (filter P xs)"
  by (induction xs) (simp_all add: mask_select_def)

lemma mask_select_rows: "row \<in> set (mask_select msk m) \<Longrightarrow> row \<in> set m"
  by (auto simp: mask_select_def dest: set_zip_rightD)

lemma length_mask_select:
  "length msk = length m \<Longrightarrow> length (mask_select msk m) = length (filter (\<lambda>b. b) msk)"
proof (induction msk arbitrary: m)
  case (Cons b msk)
  then show ?case by (cases m) (simp_all add: mask_select_def)
qed (simp add: mask_select_def)


lemma ap_column_returns:
  assumes "col j recall \<noteq> []" and "length (col j precision) = length (col j recall)"
  shows "\<exists>ap. ap_column plot recall precision j =
           Inr (ap, if plot \<and> j = 0
                    then [map (interp1 (hd (rev (maximum_accumulate (rev ([1] @ col j precision @ [0])))))
                                 (last (rev (maximum_accumulate (rev ([1] @ col j precision @ [0])))))
                                 ([0] @ col j recall @ [last (col j recall) + 1 / 100])
                                 (rev (maximum_accumulate (rev ([1] @ col j precision @ [0])))))
                            px1000]
                    else [])"
proof -
  obtain ap where "compute_ap (col j recall) (col j precision) =
      Inr (ap, rev (maximum_accumulate (rev ([1] @ col j precision @ [0]))),
           [0] @ col j recall @ [last (col j recall) + 1 / 100])"
    using compute_ap_returns [OF assms] by blast
  then show ?thesis using assms(2) by (auto simp: ap_column_def np_interp_def)
qed

lemma map_err_no_curve:
  assumes "\<forall>x\<in>set xs. \<exists>a. f x = Inr (a, [])"
  shows "\<exists>ys. map_err f xs = Inr ys \<and> concat (map snd ys) = []"
  using assms
proof (induction xs)
  case (Cons x xs)
  then obtain a ys where "f x = Inr (a, [])" "map_err f xs = Inr ys" "concat (map snd ys) = []"
    by auto
  then show ?case by simp
qed simp

lemma ap_columns_returns:
  assumes "0 < T" and "recall \<noteq> []" and "length precision = length recall"
  shows "\<exists>cols. map_err (ap_column plot recall precision) [0..<T] = Inr cols
           \<and> concat (map snd cols) =
               (if plot
                then [map (interp1 (hd (rev (maximum_accumulate (rev ([1] @ col 0 precision @ [0])))))
                             (last (rev (maximum_accumulate (rev ([1] @ col 0 precision @ [0])))))
                             ([0] @ col 0 recall @ [last (col 0 recall) + 1 / 100])
                             (rev (maximum_accumulate (rev ([1] @ col 0 precision @ [0])))))
                        px1000]
                else [])"
proof -
  have ne: "col j recall \<noteq> []" and len: "length (col j precision) = length (col j recall)" for j
    using assms by (simp_all add: col_def)
  have "\<forall>j\<in>set [1..<T]. \<exists>a. ap_column plot recall precision j = Inr (a, [])"
  proof
    fix j assume "j \<in> set [1..<T]"
    then have "j \<noteq> 0" by simp
    then show "\<exists>a. ap_column plot recall precision j = Inr (a, [])"
      using ap_column_returns [where j = j and plot = plot, OF ne len] by simp
  qed
  then obtain ys where ys: "map_err (ap_column plot recall precision) [1..<T] = Inr ys"
      "concat (map snd ys) = []"
    using map_err_no_curve by blast
  obtain ap where ap: "ap_column plot recall precision 0 =
      Inr (ap, if plot
               then [map (interp1 (hd (rev (maximum_accumulate (rev ([1] @ col 0 precision @ [0])))))
                            (last (rev (maximum_accumulate (rev ([1] @ col 0 precision @ [0])))))
                            ([0] @ col 0 recall @ [last (col 0 recall) + 1 / 100])
                            (rev (maximum_accumulate (rev ([1] @ col 0 precision @ [0])))))
                       px1000]
               else [])"
    using ap_column_returns [where j = 0 and plot = plot, OF ne len] by auto
  have "[0..<T] = 0 # [1..<T]" using assms(1) by (simp add: upt_conv_Cons)
  then show ?thesis using ys ap by simp
qed


lemma length_cumsum_from [simp]: "length (cumsum_from a xs) = length xs"
  by (induction xs arbitrary: a) simp_all

lemma class_curves_first_column:
  assumes T: "0 < T" and rows: "\<forall>row\<in>set tp. length row = T"
    and len: "length tp = length pred_cls"
  shows "map_sum id (\<lambda>row. (row_p row, row_r row, row_py row))
           (class_curves T tp conf pred_cls target_cls plot c)
         = class_curves_first_column (col 0 tp) conf pred_cls target_cls plot c"
proof -
  define i where "i = map (\<lambda>q. q = c) pred_cls"
  define n_l where "n_l = length (filter (\<lambda>t. t = c) target_cls)"
  define sel where "sel = mask_select i tp"
  define tpc where "tpc = cumsum0 T sel"
  define fpc where "fpc = cumsum0 T (mat_map (\<lambda>v. 1 - v) sel)"
  define recall where "recall = mat_map (\<lambda>v. v / (real n_l + eps16)) tpc"
  define precision where "precision = mat_map2 (\<lambda>a b. a / (a + b)) tpc fpc"
  have sel_rows: "\<forall>row\<in>set sel. length row = T"
  proof
    fix row assume "row \<in> set sel"
    then have "row \<in> set tp" unfolding sel_def by (rule mask_select_rows)
    with rows show "length row = T" by simp
  qed
  then have neg_rows: "\<forall>row\<in>set (mat_map (\<lambda>v. 1 - v) sel). length row = T"
    by (simp add: mat_map_def)
  have tpc_rows: "\<forall>row\<in>set tpc. 0 < length row"
  proof
    fix row assume "row \<in> set tpc"
    then have "length row = T" unfolding tpc_def by (rule cumsum0_rows [OF sel_rows])
    with T show "0 < length row" by simp
  qed
  have fpc_rows: "\<forall>row\<in>set fpc. 0 < length row"
  proof
    fix row assume "row \<in> set fpc"
    then have "length row = T" unfolding fpc_def by (rule cumsum0_rows [OF neg_rows])
    with T show "0 < length row" by simp
  qed
  have c_tpc: "col 0 tpc = cumsum_from 0 (mask_select i (col 0 tp))"
    unfolding tpc_def sel_def using col_cumsum0 [OF T sel_rows [unfolded sel_def]]
    by (simp add: col_mask_select)
  have "col 0 (mat_map (\<lambda>v. 1 - v) sel) = map (\<lambda>v. 1 - v) (mask_select i (col 0 tp))"
    using col_mat_map [of sel 0] sel_rows T by (simp add: sel_def col_mask_select)
  then have c_fpc: "col 0 fpc = cumsum_from 0 (map (\<lambda>v. 1 - v) (mask_select i (col 0 tp)))"
    unfolding fpc_def using col_cumsum0 [OF T neg_rows] by simp
  have c_rec: "col 0 recall = map (\<lambda>v. v / (real n_l + eps16)) (cumsum_from 0 (mask_select i (col 0 tp)))"
    unfolding recall_def using col_mat_map [of tpc 0] tpc_rows c_tpc by simp
  have c_pre: "col 0 precision =
      map2 (\<lambda>a b. a / (a + b)) (cumsum_from 0 (mask_select i (col 0 tp)))
        (cumsum_from 0 (map (\<lambda>v. 1 - v) (mask_select i (col 0 tp))))"
    unfolding precision_def using col_mat_map2 [of tpc 0 fpc] tpc_rows fpc_rows c_tpc c_fpc by simp
  show ?thesis
  proof (cases "length (filter (\<lambda>b. b) i) = 0 \<or> n_l = 0")
    case True
    then show ?thesis
      unfolding class_curves_def class_curves_first_column_def Let_def
        i_def [symmetric] n_l_def [symmetric]
      by simp
  next
    case False
    have "length sel = length (filter (\<lambda>b. b) i)"
      unfolding sel_def by (rule length_mask_select) (simp add: i_def len)
    with False have "sel \<noteq> []" by auto
    moreover have lr: "length recall = length sel"
      by (simp add: recall_def tpc_def mat_map_def)
    moreover have lp: "length precision = length sel"
      by (simp add: precision_def tpc_def fpc_def mat_map_def mat_map2_def)
    ultimately have rne: "recall \<noteq> []" and plen: "length precision = length recall"
      by auto
    obtain cols where cols: "map_err (ap_column plot recall precision) [0..<T] = Inr cols"
      and py: "concat (map snd cols) =
               (if plot
                then [map (interp1 (hd (rev (maximum_accumulate (rev ([1] @ col 0 precision @ [0])))))
                             (last (rev (maximum_accumulate (rev ([1] @ col 0 precision @ [0])))))
                             ([0] @ col 0 recall @ [last (col 0 recall) + 1 / 100])
                             (rev (maximum_accumulate (rev ([1] @ col 0 precision @ [0])))))
                        px1000]
                else [])"
      using ap_columns_returns [OF T rne plen] by blast
    have cne: "col 0 recall \<noteq> []" and clen: "length (col 0 precision) = length (col 0 recall)"
      using rne plen by (simp_all add: col_def)
    obtain ap where ap: "compute_ap (col 0 recall) (col 0 precision) =
        Inr (ap, rev (maximum_accumulate (rev ([1] @ col 0 precision @ [0]))),
             [0] @ col 0 recall @ [last (col 0 recall) + 1 / 100])"
      using compute_ap_returns [OF cne clen] by blast
    have lhs: "class_curves T tp conf pred_cls target_cls plot c =
        bind_err (np_interp (map uminus px1000) (map uminus (mask_select i conf)) (col 0 recall) (Some 0)) (\<lambda>r.
        bind_err (np_interp (map uminus px1000) (map uminus (mask_select i conf)) (col 0 precision) (Some 1)) (\<lambda>p.
          Inr \<lparr>row_ap = map fst cols, row_p = p, row_r = r, row_py = concat (map snd cols)\<rparr>))"
      using False T cols
      by (simp add: class_curves_def Let_def i_def [symmetric] n_l_def [symmetric]
          sel_def [symmetric] tpc_def [symmetric] fpc_def [symmetric] recall_def [symmetric]
          precision_def [symmetric])
    have rhs: "class_curves_first_column (col 0 tp) conf pred_cls target_cls plot c =
        bind_err (np_interp (map uminus px1000) (map uminus (mask_select i conf)) (col 0 recall) (Some 0)) (\<lambda>r.
        bind_err (np_interp (map uminus px1000) (map uminus (mask_select i conf)) (col 0 precision) (Some 1)) (\<lambda>p.
          Inr (p, r, concat (map snd cols))))"
    proof -
      have third: "np_interp px1000 ([0] @ col 0 recall @ [last (col 0 recall) + 1 / 100])
            (rev (maximum_accumulate (rev ([1] @ col 0 precision @ [0])))) None =
          Inr (map (interp1 (hd (rev (maximum_accumulate (rev ([1] @ col 0 precision @ [0])))))
                      (last (rev (maximum_accumulate (rev ([1] @ col 0 precision @ [0])))))
                      ([0] @ col 0 recall @ [last (col 0 recall) + 1 / 100])
                      (rev (maximum_accumulate (rev ([1] @ col 0 precision @ [0])))))
                 px1000)"
        using clen by (simp add: np_interp_def)
      have "class_curves_first_column (col 0 tp) conf pred_cls target_cls plot c =
          bind_err (np_interp (map uminus px1000) (map uminus (mask_select i conf)) (col 0 recall) (Some 0)) (\<lambda>r.
          bind_err (np_interp (map uminus px1000) (map uminus (mask_select i conf)) (col 0 precision) (Some 1)) (\<lambda>p.
          bind_err (compute_ap (col 0 recall) (col 0 precision)) (\<lambda>(ap, mpre, mrec).
            if plot then bind_err (np_interp px1000 mrec mpre None) (\<lambda>y. Inr (p, r, [y]))
            else Inr (p, r, []))))"
        using False
        unfolding class_curves_first_column_def Let_def i_def [symmetric] n_l_def [symmetric]
          c_rec [symmetric] c_pre [symmetric]
        by simp
      also have "\<dots> =
          bind_err (np_interp (map uminus px1000) (map uminus (mask_select i conf)) (col 0 recall) (Some 0)) (\<lambda>r.
          bind_err (np_interp (map uminus px1000) (map uminus (mask_select i conf)) (col 0 precision) (Some 1)) (\<lambda>p.
            Inr (p, r, concat (map snd cols))))"
        unfolding ap py using third by simp
      finally show ?thesis .
    qed
    show ?thesis unfolding lhs rhs
      by (cases "np_interp (map uminus px1000) (map uminus (mask_select i conf)) (col 0 recall) (Some 0)";
          cases "np_interp (map uminus px1000) (map uminus (mask_select i conf)) (col 0 precision) (Some 1)")
        simp_all
  qed
qed

lemma map_err_proj_cong:
  assumes "\<forall>x\<in>set xs. map_sum id g (f x) = map_sum id g' (f' x)"
  shows "map_sum id (map g) (map_err f xs) = map_sum id (map g') (map_err f' xs)"
  using assms
proof (induction xs)
  case (Cons x xs)
  have hd: "map_sum id g (f x) = map_sum id g' (f' x)"
    using Cons.prems by (metis list.set_intros(1))
  have tl: "map_sum id (map g) (map_err f xs) = map_sum id (map g') (map_err f' xs)"
    using Cons.prems by (intro Cons.IH) (metis list.set_intros(2))
  show ?case
  proof (cases "f x")
    case (Inl e)
    with hd have "f' x = Inl e" by (cases "f' x") simp_all
    with Inl show ?thesis by simp
  next
    case (Inr y)
    with hd obtain y' where y': "f' x = Inr y'" "g y = g' y'" by (cases "f' x") simp_all
    show ?thesis
    proof (cases "map_err f xs")
      case (Inl e)
      with tl have "map_err f' xs = Inl e" by (cases "map_err f' xs") simp_all
      with Inl Inr y' show ?thesis by simp
    next
      case ys: (Inr ys)
      with tl obtain ys' where "map_err f' xs = Inr ys'" "map g ys = map g' ys'"
        by (cases "map_err f' xs") simp_all
      with ys Inr y' show ?thesis by simp
    qed
  qed
qed simp

lemma ap_plots_ap:
  "length ap = length ap' \<Longrightarrow> 0 < T \<Longrightarrow> 0 < T' \<Longrightarrow>
     ap_plots backend py T ap f1 p r names = ap_plots backend py T' ap' f1 p r names"
  by (auto simp add: ap_plots_def plot_pr_curve_def)

lemma col_map_nth:
  "\<forall>k\<in>set idx. k < length m \<Longrightarrow> col j (map ((!) m) idx) = map ((!) (col j m)) idx"
  by (simp add: col_def)

lemma ap_finish_first_column:
  assumes rows: "map (\<lambda>row. (row_p row, row_r row, row_py row)) rs
        = map (\<lambda>row. (row_p row, row_r row, row_py row)) rs'"
    and T: "0 < T" "0 < T'"
  shows "map_sum id operating_point (ap_finish backend plot names T cls rs)
       = map_sum id operating_point (ap_finish backend plot names T' cls rs')"
proof -
  have len: "length (map row_ap rs) = length (map row_ap rs')"
    using arg_cong [OF rows, of length] by simp
  have p: "map row_p rs = map row_p rs'"
    using arg_cong [OF rows, of "map fst"] by (simp add: comp_def)
  have r: "map row_r rs = map row_r rs'"
    using arg_cong [OF rows, of "map (fst \<circ> snd)"] by (simp add: comp_def)
  have py: "map row_py rs = map row_py rs'"
    using arg_cong [OF rows, of "map (snd \<circ> snd)"] by (simp add: comp_def)
  show ?thesis
    unfolding ap_finish_def Let_def p r py
    using ap_plots_ap [OF len T, of backend "concat (map row_py rs')" _ _ _ names]
    by (cases plot; cases "ap_plots backend (concat (map row_py rs')) T' (map row_ap rs')
           (mat_map2 (\<lambda>p r. 2 * p * r / (p + r + eps16)) (map row_p rs') (map row_r rs'))
           (map row_p rs') (map row_r rs') names")
      (simp_all add: operating_point_def)
qed

text \<open>
  C9: the precision, recall and F1 values and the class ids returned by \<open>ap_per_class\<close>
  are computed from the first column of \<open>tp\<close> only. Two \<open>tp\<close> arrays with the same first
  column, whatever their other columns and however many there are, give the same
  outcome but for the \<open>ap\<close> array: the same error, or results with the same precision,
  recall, F1 and classes.
\<close>

theorem ap_per_class_first_column:
  assumes T: "0 < T" and T': "0 < T'"
    and rows: "\<forall>row\<in>set tp. length row = T" and rows': "\<forall>row\<in>set tp'. length row = T'"
    and c0: "col 0 tp = col 0 tp'"
  shows "map_sum id operating_point
           (ap_per_class argsort backend T tp conf pred_cls target_cls plot names)
         = map_sum id operating_point
             (ap_per_class argsort backend T' tp' conf pred_cls target_cls plot names)"
proof -
  define i where "i = argsort (map uminus conf)"
  define cls where "cls = sort (remdups target_cls)"
  define K where "K = (\<lambda>U. ap_finish backend plot names U cls)"
  have unf: "ap_per_class argsort backend U m conf pred_cls target_cls plot names =
      bind_err (np_take m i) (\<lambda>m.
      bind_err (np_take conf i) (\<lambda>conf.
      bind_err (np_take pred_cls i) (\<lambda>pred_cls.
      bind_err (map_err (class_curves U m conf pred_cls target_cls plot) cls) (K U))))" for U m
    by (simp add: ap_per_class_def Let_def i_def cls_def K_def)
  have Kcong: "map_sum id operating_point (K T rs) = map_sum id operating_point (K T' rs')"
    if "map (\<lambda>row. (row_p row, row_r row, row_py row)) rs
        = map (\<lambda>row. (row_p row, row_r row, row_py row)) rs'" for rs rs'
    unfolding K_def using that T T' by (rule ap_finish_first_column)
  have len: "length tp = length tp'"
    using arg_cong [OF c0, of length] by simp
  show ?thesis
  proof (cases "\<forall>k\<in>set i. k < length tp")
    case False
    then have "np_take tp i = Inl IndexError" and "np_take tp' i = Inl IndexError"
      using len by (simp_all add: np_take_def)
    then show ?thesis by (simp add: unf)
  next
    case True
    define tps where "tps = map ((!) tp) i"
    define tps' where "tps' = map ((!) tp') i"
    have t1: "np_take tp i = Inr tps" and t2: "np_take tp' i = Inr tps'"
      using True len by (simp_all add: np_take_def tps_def tps'_def)
    have c0s: "col 0 tps = col 0 tps'"
      unfolding tps_def tps'_def using True len c0 by (simp add: col_map_nth)
    have rs: "\<forall>row\<in>set tps. length row = T" and rs': "\<forall>row\<in>set tps'. length row = T'"
      using True len rows rows' by (auto simp: tps_def tps'_def)
    show ?thesis
    proof (cases "np_take conf i")
      case (Inl e)
      then show ?thesis by (simp add: unf t1 t2)
    next
      case conf: (Inr confs)
      show ?thesis
      proof (cases "np_take pred_cls i")
        case (Inl e)
        then show ?thesis by (simp add: unf t1 t2 conf)
      next
        case pred: (Inr preds)
        then have lp: "length tps = length preds" "length tps' = length preds"
          by (auto simp: np_take_def tps_def tps'_def split: if_splits)
        have "map_sum id (\<lambda>row. (row_p row, row_r row, row_py row))
                (class_curves T tps confs preds target_cls plot c)
            = map_sum id (\<lambda>row. (row_p row, row_r row, row_py row))
                (class_curves T' tps' confs preds target_cls plot c)" for c
          using class_curves_first_column [OF T rs lp(1)]
            class_curves_first_column [OF T' rs' lp(2)] c0s by simp
        then have eq: "map_sum id (map (\<lambda>row. (row_p row, row_r row, row_py row)))
              (map_err (class_curves T tps confs preds target_cls plot) cls)
            = map_sum id (map (\<lambda>row. (row_p row, row_r row, row_py row)))
              (map_err (class_curves T' tps' confs preds target_cls plot) cls)"
          by (intro map_err_proj_cong) simp
        show ?thesis
        proof (cases "map_err (class_curves T tps confs preds target_cls plot) cls")
          case (Inl e)
          with eq have "map_err (class_curves T' tps' confs preds target_cls plot) cls = Inl e"
            by (cases "map_err (class_curves T' tps' confs preds target_cls plot) cls") simp_all
          with Inl show ?thesis by (simp add: unf t1 t2 conf pred)
        next
          case (Inr rs)
          with eq obtain rs' where
            r': "map_err (class_curves T' tps' confs preds target_cls plot) cls = Inr rs'"
            and m: "map (\<lambda>row. (row_p row, row_r row, row_py row)) rs
                    = map (\<lambda>row. (row_p row, row_r row, row_py row)) rs'"
            by (cases "map_err (class_curves T' tps' confs preds target_cls plot) cls") simp_all
          show ?thesis using Kcong [OF m] by (simp add: unf t1 t2 conf pred Inr r')
        qed
      qed
    qed
  qed
qed

theorem ap_per_class_first_column_witness:
  "(0::nat) < 2 \<and> (0::nat) < 1 \<and> length [1, 0 :: real] = 2 \<and> length [1 :: real] = 1
   \<and> col 0 [[1, 0]] = col 0 [[1]]
   \<and> map_sum id operating_point
         (ap_per_class stable_argsort (\<lambda>_. None) 2 [[1, 0]] [9 / 10] [0] [0] False [])
       = map_sum id operating_point
           (ap_per_class stable_argsort (\<lambda>_. None) 1 [[1]] [9 / 10] [0] [0] False [])"
  using ap_per_class_first_column [of 2 1 "[[1, 0]]" "[[1]]" stable_argsort "\<lambda>_. None"
      "[9 / 10]" "[0]" "[0]" False "[]"]
  by (simp add: col_def)

section \<open>Properties of \<open>ConfusionMatrix.process_batch\<close>\<close>

lemma is_argsort_stable: "is_argsort stable_argsort"
  by (simp add: is_argsort_def stable_argsort_def)

lemma np_take_subset: "np_take xs idx = Inr ys \<Longrightarrow> set ys \<subseteq> set xs"
  by (auto simp: np_take_def split: if_splits)

lemma np_take_returns: "\<forall>k\<in>set idx. k < length xs \<Longrightarrow> np_take xs idx = Inr (map ((!) xs) idx)"
  by (simp add: np_take_def)

lemma argsort_in_range:
  assumes "is_argsort argsort"
  shows "\<forall>k\<in>set (rev (argsort xs)). k < length xs"
proof -
  have "mset (argsort xs) = mset [0..<length xs]" using assms by (simp add: is_argsort_def)
  then have "set (argsort xs) = set [0..<length xs]" by (rule mset_eq_setD)
  then show ?thesis by simp
qed

lemma unique_index_in_range: "\<forall>k\<in>set (unique_index xs). k < length xs"
proof
  fix k assume "k \<in> set (unique_index xs)"
  then obtain v where v: "v \<in> set xs" and k: "k = length (takeWhile (\<lambda>x. x \<noteq> v) xs)"
    by (auto simp: unique_index_def)
  from v show "k < length xs" unfolding k
    by (induction xs) auto
qed

lemma resolve_matches_returns:
  assumes "is_argsort argsort"
  shows "\<exists>ms. resolve_matches argsort xs = Inr ms \<and> set ms \<subseteq> set xs"
proof -
  define a where "a = map ((!) xs) (rev (argsort (map m_iou xs)))"
  define b where "b = map ((!) a) (unique_index (map m_det a))"
  define c where "c = map ((!) b) (rev (argsort (map m_iou b)))"
  define d where "d = map ((!) c) (unique_index (map m_label c))"
  have 1: "np_take xs (rev (argsort (map m_iou xs))) = Inr a"
    unfolding a_def using argsort_in_range [OF assms, of "map m_iou xs"]
    by (intro np_take_returns) simp
  have 2: "np_take a (unique_index (map m_det a)) = Inr b"
    unfolding b_def using unique_index_in_range [of "map m_det a"]
    by (intro np_take_returns) simp
  have 3: "np_take b (rev (argsort (map m_iou b))) = Inr c"
    unfolding c_def using argsort_in_range [OF assms, of "map m_iou b"]
    by (intro np_take_returns) simp
  have 4: "np_take c (unique_index (map m_label c)) = Inr d"
    unfolding d_def using unique_index_in_range [of "map m_label c"]
    by (intro np_take_returns) simp
  have "resolve_matches argsort xs = Inr d"
    by (simp add: resolve_matches_def 1 2 3 4)
  moreover have "set d \<subseteq> set xs"
    using np_take_subset [OF 1] np_take_subset [OF 2] np_take_subset [OF 3] np_take_subset [OF 4]
    by blast
  ultimately show ?thesis by blast
qed

lemma candidates_iff:
  "m \<in> set (candidates iou thres labels detections) \<longleftrightarrow>
     m_label m < length labels \<and> m_det m < length detections
     \<and> m_iou m = iou (lab_box (labels ! m_label m)) (det_box (detections ! m_det m))
     \<and> thres < m_iou m"
  by (cases m) (auto simp: candidates_def m_label_def m_det_def m_iou_def)


lemma ConfusionMatrix_matches_returns:
  assumes "is_argsort argsort"
  shows "\<exists>matches. ConfusionMatrix_matches argsort iou cm detections labels = Inr matches
     \<and> set matches \<subseteq> set (candidates iou (cm_iou_thres cm) labels (above_conf cm detections))"
proof -
  define x where "x = candidates iou (cm_iou_thres cm) labels (above_conf cm detections)"
  show ?thesis
  proof (cases "x \<noteq> [] \<and> 1 < length x")
    case True
    obtain ms where "resolve_matches argsort x = Inr ms" "set ms \<subseteq> set x"
      using resolve_matches_returns [OF assms] by blast
    with True show ?thesis
      by (simp add: ConfusionMatrix_matches_def x_def [symmetric])
  next
    case False
    then have "ConfusionMatrix_matches argsort iou cm detections labels = Inr x"
      by (auto simp: ConfusionMatrix_matches_def x_def [symmetric])
    then show ?thesis by (simp add: x_def)
  qed
qed

text \<open>
  C6: the matching of \<open>ConfusionMatrix.process_batch\<close> returns, and every match it returns
  is a pair of a label and an above-cutoff detection whose IoU is strictly greater than
  the IoU threshold; so a pair whose IoU equals the threshold is never matched, and when
  no pair exceeds the threshold there is no match.
\<close>

theorem ConfusionMatrix_matches_above_threshold:
  assumes "is_argsort argsort"
  shows "\<exists>matches. ConfusionMatrix_matches argsort iou cm detections labels = Inr matches
     \<and> (\<forall>m\<in>set matches.
           m_label m < length labels \<and> m_det m < length (above_conf cm detections)
           \<and> m_iou m = iou (lab_box (labels ! m_label m))
                          (det_box (above_conf cm detections ! m_det m))
           \<and> cm_iou_thres cm < m_iou m
           \<and> iou (lab_box (labels ! m_label m)) (det_box (above_conf cm detections ! m_det m))
               \<noteq> cm_iou_thres cm)
     \<and> ((\<forall>i<length labels. \<forall>j<length (above_conf cm detections).
            \<not> cm_iou_thres cm < iou (lab_box (labels ! i)) (det_box (above_conf cm detections ! j)))
          \<longrightarrow> matches = [])"
proof -
  obtain matches where m: "ConfusionMatrix_matches argsort iou cm detections labels = Inr matches"
    and sub: "set matches \<subseteq> set (candidates iou (cm_iou_thres cm) labels (above_conf cm detections))"
    using ConfusionMatrix_matches_returns [OF assms] by blast
  have props: "m_label m < length labels \<and> m_det m < length (above_conf cm detections)
           \<and> m_iou m = iou (lab_box (labels ! m_label m))
                          (det_box (above_conf cm detections ! m_det m))
           \<and> cm_iou_thres cm < m_iou m
           \<and> iou (lab_box (labels ! m_label m)) (det_box (above_conf cm detections ! m_det m))
               \<noteq> cm_iou_thres cm" if "m \<in> set matches" for m
  proof -
    from that sub
    have "m \<in> set (candidates iou (cm_iou_thres cm) labels (above_conf cm detections))"
      by blast
    then show ?thesis unfolding candidates_iff by auto
  qed
  have none: "matches = []"
    if "\<forall>i<length labels. \<forall>j<length (above_conf cm detections).
            \<not> cm_iou_thres cm < iou (lab_box (labels ! i)) (det_box (above_conf cm detections ! j))"
  proof (rule ccontr)
    assume "matches \<noteq> []"
    then obtain m where "m \<in> set matches" by (cases matches) auto
    from props [OF this] that show False by auto
  qed
  show ?thesis using m props none by blast
qed

theorem ConfusionMatrix_matches_above_threshold_witness:
  "is_argsort stable_argsort
   \<and> ConfusionMatrix_matches stable_argsort box_iou (ConfusionMatrix_init 1 (1 / 4) (9 / 20))
     [\<lparr>det_box = \<lparr>box_x1 = 10, box_y1 = 10, box_x2 = 50, box_y2 = 50\<rparr>, det_conf = 9 / 10, det_cls = 0\<rparr>,
      \<lparr>det_box = \<lparr>box_x1 = 10, box_y1 = 10, box_x2 = 50, box_y2 = 46\<rparr>, det_conf = 8 / 10, det_cls = 0\<rparr>,
      \<lparr>det_box = \<lparr>box_x1 = 60, box_y1 = 60, box_x2 = 70, box_y2 = 70\<rparr>, det_conf = 7 / 10, det_cls = 0\<rparr>]
     [\<lparr>lab_cls = 0, lab_box = \<lparr>box_x1 = 10, box_y1 = 10, box_x2 = 50, box_y2 = 50\<rparr>\<rparr>] = Inr [(0, 0, 1)]
   \<and> cm_iou_thres (ConfusionMatrix_init 1 (1 / 4) (9 / 20)) < m_iou (0, 0, 1)
   \<and> ConfusionMatrix_matches stable_argsort box_iou (ConfusionMatrix_init 1 (1 / 4) (9 / 20))
     [\<lparr>det_box = \<lparr>box_x1 = 60, box_y1 = 60, box_x2 = 70, box_y2 = 70\<rparr>, det_conf = 7 / 10, det_cls = 0\<rparr>]
     [\<lparr>lab_cls = 0, lab_box = \<lparr>box_x1 = 10, box_y1 = 10, box_x2 = 50, box_y2 = 50\<rparr>\<rparr>] = Inr []"
proof -
  obtain ms where ms: "ConfusionMatrix_matches stable_argsort box_iou (ConfusionMatrix_init 1 (1 / 4) (9 / 20))
     [\<lparr>det_box = \<lparr>box_x1 = 10, box_y1 = 10, box_x2 = 50, box_y2 = 50\<rparr>, det_conf = 9 / 10, det_cls = 0\<rparr>,
      \<lparr>det_box = \<lparr>box_x1 = 10, box_y1 = 10, box_x2 = 50, box_y2 = 46\<rparr>, det_conf = 8 / 10, det_cls = 0\<rparr>,
      \<lparr>det_box = \<lparr>box_x1 = 60, box_y1 = 60, box_x2 = 70, box_y2 = 70\<rparr>, det_conf = 7 / 10, det_cls = 0\<rparr>]
     [\<lparr>lab_cls = 0, lab_box = \<lparr>box_x1 = 10, box_y1 = 10, box_x2 = 50, box_y2 = 50\<rparr>\<rparr>] = Inr ms"
    and gt: "\<forall>m\<in>set ms. cm_iou_thres (ConfusionMatrix_init 1 (1 / 4) (9 / 20)) < m_iou m"
    using ConfusionMatrix_matches_above_threshold [OF is_argsort_stable, of box_iou "(ConfusionMatrix_init 1 (1 / 4) (9 / 20))"
      "[\<lparr>det_box = \<lparr>box_x1 = 10, box_y1 = 10, box_x2 = 50, box_y2 = 50\<rparr>, det_conf = 9 / 10, det_cls = 0\<rparr>,
      \<lparr>det_box = \<lparr>box_x1 = 10, box_y1 = 10, box_x2 = 50, box_y2 = 46\<rparr>, det_conf = 8 / 10, det_cls = 0\<rparr>,
      \<lparr>det_box = \<lparr>box_x1 = 60, box_y1 = 60, box_x2 = 70, box_y2 = 70\<rparr>, det_conf = 7 / 10, det_cls = 0\<rparr>]" "[\<lparr>lab_cls = 0, lab_box = \<lparr>box_x1 = 10, box_y1 = 10, box_x2 = 50, box_y2 = 50\<rparr>\<rparr>]"]
    by blast
  have e3: "ConfusionMatrix_matches stable_argsort box_iou (ConfusionMatrix_init 1 (1 / 4) (9 / 20))
     [\<lparr>det_box = \<lparr>box_x1 = 10, box_y1 = 10, box_x2 = 50, box_y2 = 50\<rparr>, det_conf = 9 / 10, det_cls = 0\<rparr>,
      \<lparr>det_box = \<lparr>box_x1 = 10, box_y1 = 10, box_x2 = 50, box_y2 = 46\<rparr>, det_conf = 8 / 10, det_cls = 0\<rparr>,
      \<lparr>det_box = \<lparr>box_x1 = 60, box_y1 = 60, box_x2 = 70, box_y2 = 70\<rparr>, det_conf = 7 / 10, det_cls = 0\<rparr>]
     [\<lparr>lab_cls = 0, lab_box = \<lparr>box_x1 = 10, box_y1 = 10, box_x2 = 50, box_y2 = 50\<rparr>\<rparr>] = Inr [(0, 0, 1)]"
    by code_simp
  with ms gt have a: "cm_iou_thres (ConfusionMatrix_init 1 (1 / 4) (9 / 20)) < m_iou (0, 0, 1)" by simp
  have none: "\<forall>i<length [\<lparr>lab_cls = 0, lab_box = \<lparr>box_x1 = 10, box_y1 = 10, box_x2 = 50, box_y2 = 50\<rparr>\<rparr>].
      \<forall>j<length (above_conf (ConfusionMatrix_init 1 (1 / 4) (9 / 20)) [\<lparr>det_box = \<lparr>box_x1 = 60, box_y1 = 60, box_x2 = 70, box_y2 = 70\<rparr>, det_conf = 7 / 10, det_cls = 0\<rparr>]).
        \<not> cm_iou_thres (ConfusionMatrix_init 1 (1 / 4) (9 / 20))
          < box_iou (lab_box ([\<lparr>lab_cls = 0, lab_box = \<lparr>box_x1 = 10, box_y1 = 10, box_x2 = 50, box_y2 = 50\<rparr>\<rparr>] ! i))
              (det_box (above_conf (ConfusionMatrix_init 1 (1 / 4) (9 / 20)) [\<lparr>det_box = \<lparr>box_x1 = 60, box_y1 = 60, box_x2 = 70, box_y2 = 70\<rparr>, det_conf = 7 / 10, det_cls = 0\<rparr>] ! j))"
    by (simp add: above_conf_def ConfusionMatrix_init_def box_iou_def box_inter_def box_area_def)
  obtain ms' where "ConfusionMatrix_matches stable_argsort box_iou (ConfusionMatrix_init 1 (1 / 4) (9 / 20))
     [\<lparr>det_box = \<lparr>box_x1 = 60, box_y1 = 60, box_x2 = 70, box_y2 = 70\<rparr>, det_conf = 7 / 10, det_cls = 0\<rparr>]
     [\<lparr>lab_cls = 0, lab_box = \<lparr>box_x1 = 10, box_y1 = 10, box_x2 = 50, box_y2 = 50\<rparr>\<rparr>] = Inr ms'"
    and "(\<forall>i<length [\<lparr>lab_cls = 0, lab_box = \<lparr>box_x1 = 10, box_y1 = 10, box_x2 = 50, box_y2 = 50\<rparr>\<rparr>].
      \<forall>j<length (above_conf (ConfusionMatrix_init 1 (1 / 4) (9 / 20)) [\<lparr>det_box = \<lparr>box_x1 = 60, box_y1 = 60, box_x2 = 70, box_y2 = 70\<rparr>, det_conf = 7 / 10, det_cls = 0\<rparr>]).
        \<not> cm_iou_thres (ConfusionMatrix_init 1 (1 / 4) (9 / 20))
          < box_iou (lab_box ([\<lparr>lab_cls = 0, lab_box = \<lparr>box_x1 = 10, box_y1 = 10, box_x2 = 50, box_y2 = 50\<rparr>\<rparr>] ! i))
              (det_box (above_conf (ConfusionMatrix_init 1 (1 / 4) (9 / 20)) [\<lparr>det_box = \<lparr>box_x1 = 60, box_y1 = 60, box_x2 = 70, box_y2 = 70\<rparr>, det_conf = 7 / 10, det_cls = 0\<rparr>] ! j))) \<longrightarrow> ms' = []"
    using ConfusionMatrix_matches_above_threshold [OF is_argsort_stable, of box_iou "(ConfusionMatrix_init 1 (1 / 4) (9 / 20))"
      "[\<lparr>det_box = \<lparr>box_x1 = 60, box_y1 = 60, box_x2 = 70, box_y2 = 70\<rparr>, det_conf = 7 / 10, det_cls = 0\<rparr>]" "[\<lparr>lab_cls = 0, lab_box = \<lparr>box_x1 = 10, box_y1 = 10, box_x2 = 50, box_y2 = 50\<rparr>\<rparr>]"]
    by blast
  with none have e1: "ConfusionMatrix_matches stable_argsort box_iou (ConfusionMatrix_init 1 (1 / 4) (9 / 20))
     [\<lparr>det_box = \<lparr>box_x1 = 60, box_y1 = 60, box_x2 = 70, box_y2 = 70\<rparr>, det_conf = 7 / 10, det_cls = 0\<rparr>]
     [\<lparr>lab_cls = 0, lab_box = \<lparr>box_x1 = 10, box_y1 = 10, box_x2 = 50, box_y2 = 50\<rparr>\<rparr>] = Inr []" by simp
  show ?thesis using is_argsort_stable e3 a e1 by simp
qed







lemma int16_id: "k < 32768 \<Longrightarrow> int16 k = int k"
  by (simp add: int16_def Let_def)



lemma py_nth_int: "py_nth xs (int k) = xs ! k"
  by (simp add: py_nth_def)


lemma matches_m0_id:
  "\<forall>m\<in>set matches. m_label m < 32768 \<Longrightarrow> matches_m0 matches = map (\<lambda>m. int (m_label m)) matches"
  by (simp add: matches_m0_def int16_id)

lemma matches_m1_id:
  "\<forall>m\<in>set matches. m_det m < 32768 \<Longrightarrow> matches_m1 matches = map (\<lambda>m. int (m_det m)) matches"
  by (simp add: matches_m1_def int16_id)










section \<open>Properties of \<open>OD_AUCROC\<close>\<close>

lemma OD_AUCROC_process_batch_store:
  assumes a: "detections < length (det_arrays st)" and b: "labels < length (lab_arrays st)"
  shows "fst (OD_AUCROC_process_batch iou eng st detections labels) =
           st\<lparr>det_arrays := det_arrays st @ [mal_detections_of eng (det_arrays st ! detections)],
              lab_arrays := lab_arrays st @ [mal_labels_of eng (lab_arrays st ! labels)]\<rparr>"
    and "snd (OD_AUCROC_process_batch iou eng st detections labels) =
           OD_AUCROC_score_image iou eng (mal_detections_of eng (det_arrays st ! detections))
             (mal_labels_of eng (lab_arrays st ! labels))"
  using a b
  by (simp_all add: OD_AUCROC_process_batch_def det_mask_index_def lab_mask_index_def
      det_set_cls_def lab_set_cls_def mal_detections_of_def mal_labels_of_def Let_def nth_append)

text \<open>
  C10: \<open>OD_AUCROC.process_batch\<close> leaves the caller's detections and labels arrays
  unchanged. The two boolean-mask selections are new tensors, and the assignments of 0 to
  the class columns write into those; every tensor that was in the store before the call,
  the two arguments among them, has all its original values after it.
\<close>

theorem OD_AUCROC_process_batch_inputs_unchanged:
  assumes "detections < length (det_arrays st)" and "labels < length (lab_arrays st)"
  shows "(\<forall>k<length (det_arrays st).
            det_arrays (fst (OD_AUCROC_process_batch iou eng st detections labels)) ! k
            = det_arrays st ! k)
       \<and> (\<forall>k<length (lab_arrays st).
            lab_arrays (fst (OD_AUCROC_process_batch iou eng st detections labels)) ! k
            = lab_arrays st ! k)
       \<and> det_arrays (fst (OD_AUCROC_process_batch iou eng st detections labels)) ! detections
           = det_arrays st ! detections
       \<and> lab_arrays (fst (OD_AUCROC_process_batch iou eng st detections labels)) ! labels
           = lab_arrays st ! labels"
  using assms by (simp add: OD_AUCROC_process_batch_store nth_append)

theorem OD_AUCROC_process_batch_inputs_unchanged_witness:
  "(0::nat) < length (det_arrays \<lparr>det_arrays = [[\<lparr>det_box = \<lparr>box_x1 = 10, box_y1 = 10, box_x2 = 50, box_y2 = 50\<rparr>, det_conf = 9 / 10, det_cls = 1\<rparr>]], lab_arrays = [[\<lparr>lab_cls = 1, lab_box = \<lparr>box_x1 = 10, box_y1 = 10, box_x2 = 50, box_y2 = 50\<rparr>\<rparr>]]\<rparr>)
   \<and> (0::nat) < length (lab_arrays \<lparr>det_arrays = [[\<lparr>det_box = \<lparr>box_x1 = 10, box_y1 = 10, box_x2 = 50, box_y2 = 50\<rparr>, det_conf = 9 / 10, det_cls = 1\<rparr>]], lab_arrays = [[\<lparr>lab_cls = 1, lab_box = \<lparr>box_x1 = 10, box_y1 = 10, box_x2 = 50, box_y2 = 50\<rparr>\<rparr>]]\<rparr>)
   \<and> det_arrays (fst (OD_AUCROC_process_batch box_iou (new_od_aucroc 1 2 (1 / 2) 1)
      \<lparr>det_arrays = [[\<lparr>det_box = \<lparr>box_x1 = 10, box_y1 = 10, box_x2 = 50, box_y2 = 50\<rparr>, det_conf = 9 / 10, det_cls = 1\<rparr>]], lab_arrays = [[\<lparr>lab_cls = 1, lab_box = \<lparr>box_x1 = 10, box_y1 = 10, box_x2 = 50, box_y2 = 50\<rparr>\<rparr>]]\<rparr> 0 0)) ! 0
       = [\<lparr>det_box = \<lparr>box_x1 = 10, box_y1 = 10, box_x2 = 50, box_y2 = 50\<rparr>, det_conf = 9 / 10, det_cls = 1\<rparr>]
   \<and> lab_arrays (fst (OD_AUCROC_process_batch box_iou (new_od_aucroc 1 2 (1 / 2) 1)
      \<lparr>det_arrays = [[\<lparr>det_box = \<lparr>box_x1 = 10, box_y1 = 10, box_x2 = 50, box_y2 = 50\<rparr>, det_conf = 9 / 10, det_cls = 1\<rparr>]], lab_arrays = [[\<lparr>lab_cls = 1, lab_box = \<lparr>box_x1 = 10, box_y1 = 10, box_x2 = 50, box_y2 = 50\<rparr>\<rparr>]]\<rparr> 0 0)) ! 0
       = [\<lparr>lab_cls = 1, lab_box = \<lparr>box_x1 = 10, box_y1 = 10, box_x2 = 50, box_y2 = 50\<rparr>\<rparr>]
   \<and> det_arrays (fst (OD_AUCROC_process_batch box_iou (new_od_aucroc 1 2 (1 / 2) 1)
      \<lparr>det_arrays = [[\<lparr>det_box = \<lparr>box_x1 = 10, box_y1 = 10, box_x2 = 50, box_y2 = 50\<rparr>, det_conf = 9 / 10, det_cls = 1\<rparr>]], lab_arrays = [[\<lparr>lab_cls = 1, lab_box = \<lparr>box_x1 = 10, box_y1 = 10, box_x2 = 50, box_y2 = 50\<rparr>\<rparr>]]\<rparr> 0 0))
       = [[\<lparr>det_box = \<lparr>box_x1 = 10, box_y1 = 10, box_x2 = 50, box_y2 = 50\<rparr>, det_conf = 9 / 10, det_cls = 1\<rparr>],
          [\<lparr>det_box = \<lparr>box_x1 = 10, box_y1 = 10, box_x2 = 50, box_y2 = 50\<rparr>, det_conf = 9 / 10, det_cls = 0\<rparr>]]
   \<and> lab_arrays (fst (OD_AUCROC_process_batch box_iou (new_od_aucroc 1 2 (1 / 2) 1)
      \<lparr>det_arrays = [[\<lparr>det_box = \<lparr>box_x1 = 10, box_y1 = 10, box_x2 = 50, box_y2 = 50\<rparr>, det_conf = 9 / 10, det_cls = 1\<rparr>]], lab_arrays = [[\<lparr>lab_cls = 1, lab_box = \<lparr>box_x1 = 10, box_y1 = 10, box_x2 = 50, box_y2 = 50\<rparr>\<rparr>]]\<rparr> 0 0))
       = [[\<lparr>lab_cls = 1, lab_box = \<lparr>box_x1 = 10, box_y1 = 10, box_x2 = 50, box_y2 = 50\<rparr>\<rparr>],
          [\<lparr>lab_cls = 0, lab_box = \<lparr>box_x1 = 10, box_y1 = 10, box_x2 = 50, box_y2 = 50\<rparr>\<rparr>]]"
proof -
  have h1: "0 < length (det_arrays \<lparr>det_arrays = [[\<lparr>det_box = \<lparr>box_x1 = 10, box_y1 = 10, box_x2 = 50, box_y2 = 50\<rparr>, det_conf = 9 / 10, det_cls = 1\<rparr>]], lab_arrays = [[\<lparr>lab_cls = 1, lab_box = \<lparr>box_x1 = 10, box_y1 = 10, box_x2 = 50, box_y2 = 50\<rparr>\<rparr>]]\<rparr>)"
    and h2: "0 < length (lab_arrays \<lparr>det_arrays = [[\<lparr>det_box = \<lparr>box_x1 = 10, box_y1 = 10, box_x2 = 50, box_y2 = 50\<rparr>, det_conf = 9 / 10, det_cls = 1\<rparr>]], lab_arrays = [[\<lparr>lab_cls = 1, lab_box = \<lparr>box_x1 = 10, box_y1 = 10, box_x2 = 50, box_y2 = 50\<rparr>\<rparr>]]\<rparr>)"
    by simp_all
  note t = OD_AUCROC_process_batch_inputs_unchanged [OF h1 h2, of box_iou "(new_od_aucroc 1 2 (1 / 2) 1)"]
  have a: "det_arrays (fst (OD_AUCROC_process_batch box_iou (new_od_aucroc 1 2 (1 / 2) 1)
      \<lparr>det_arrays = [[\<lparr>det_box = \<lparr>box_x1 = 10, box_y1 = 10, box_x2 = 50, box_y2 = 50\<rparr>, det_conf = 9 / 10, det_cls = 1\<rparr>]], lab_arrays = [[\<lparr>lab_cls = 1, lab_box = \<lparr>box_x1 = 10, box_y1 = 10, box_x2 = 50, box_y2 = 50\<rparr>\<rparr>]]\<rparr> 0 0))
       = [[\<lparr>det_box = \<lparr>box_x1 = 10, box_y1 = 10, box_x2 = 50, box_y2 = 50\<rparr>, det_conf = 9 / 10, det_cls = 1\<rparr>],
          [\<lparr>det_box = \<lparr>box_x1 = 10, box_y1 = 10, box_x2 = 50, box_y2 = 50\<rparr>, det_conf = 9 / 10, det_cls = 0\<rparr>]]"
    and b: "lab_arrays (fst (OD_AUCROC_process_batch box_iou (new_od_aucroc 1 2 (1 / 2) 1)
      \<lparr>det_arrays = [[\<lparr>det_box = \<lparr>box_x1 = 10, box_y1 = 10, box_x2 = 50, box_y2 = 50\<rparr>, det_conf = 9 / 10, det_cls = 1\<rparr>]], lab_arrays = [[\<lparr>lab_cls = 1, lab_box = \<lparr>box_x1 = 10, box_y1 = 10, box_x2 = 50, box_y2 = 50\<rparr>\<rparr>]]\<rparr> 0 0))
       = [[\<lparr>lab_cls = 1, lab_box = \<lparr>box_x1 = 10, box_y1 = 10, box_x2 = 50, box_y2 = 50\<rparr>\<rparr>],
          [\<lparr>lab_cls = 0, lab_box = \<lparr>box_x1 = 10, box_y1 = 10, box_x2 = 50, box_y2 = 50\<rparr>\<rparr>]]"
    by code_simp+
  show ?thesis using t a b by simp
qed

lemma torch_max_Max: "xs \<noteq> [] \<Longrightarrow> torch_max xs = Max (set xs)"
proof (cases xs)
  case (Cons x ys)
  have "Max (set (x # ys)) = fold max ys x" by (rule Max.set_eq_fold)
  then show ?thesis by (simp only: Cons torch_max_def list.sel)
qed simp

lemma map_err_Inr: "map_err (\<lambda>x. Inr (g x)) xs = Inr (map g xs)"
  by (induction xs) simp_all

lemma froc_curve_returns:
  assumes "markers_in_normal_image eng \<noteq> []" and "thresholds \<noteq> []"
  shows "froc_curve eng tpr thresholds =
           Inr (tpr, map (\<lambda>threshold.
                  real (length (filter (\<lambda>v. threshold < v) (concat (markers_in_normal_image eng))))
                  / real (length (markers_in_normal_image eng))) thresholds)"
  using assms by (simp add: froc_curve_def torch_cat_def torch_stack_def map_err_Inr)

lemma froc_curve_raises:
  assumes "markers_in_normal_image eng = []"
  shows "froc_curve eng tpr thresholds = Inl RuntimeError"
  using assms by (cases thresholds) (simp_all add: froc_curve_def torch_cat_def torch_stack_def)

lemma score_raises_compute:
  "compute (roc_lesion eng) = Inl e \<Longrightarrow> score compute auc eng = Inl e"
  by (simp add: score_def)

lemma score_raises_froc_curve:
  assumes "markers_in_normal_image eng = []"
    and "compute (roc_lesion eng) = Inr (fpr, tpr, ths)"
  shows "score compute auc eng = Inl RuntimeError"
  using assms(2) froc_curve_raises [OF assms(1), of tpr ths] by (simp add: score_def)

text \<open>
  C4, as stated, fails: \<open>score\<close> raises on an engine without recorded negative image. After
  one image with a matched malignant label the lesion accumulator holds the pair
  \<open>(0.9, 1)\<close> and \<open>markers_in_normal_image\<close> is empty: the lesion ROC is computed, then
  \<open>froc_curve\<close> raises RuntimeError, and so does \<open>score\<close>. On a new engine the accumulators are
  empty and \<open>score\<close> raises the ValueError of \<open>compute\<close>.
\<close>

theorem score_zero_negative_images_counterexample:
  "markers_in_normal_image (snd (OD_AUCROC_process_batch box_iou (new_od_aucroc 0 1 (1 / 2) 1)
      \<lparr>det_arrays = [[\<lparr>det_box = \<lparr>box_x1 = 10, box_y1 = 10, box_x2 = 50, box_y2 = 50\<rparr>, det_conf = 9 / 10, det_cls = 0\<rparr>]], lab_arrays = [[\<lparr>lab_cls = 0, lab_box = \<lparr>box_x1 = 10, box_y1 = 10, box_x2 = 50, box_y2 = 50\<rparr>\<rparr>]]\<rparr> 0 0)) = []
   \<and> roc_lesion (snd (OD_AUCROC_process_batch box_iou (new_od_aucroc 0 1 (1 / 2) 1)
      \<lparr>det_arrays = [[\<lparr>det_box = \<lparr>box_x1 = 10, box_y1 = 10, box_x2 = 50, box_y2 = 50\<rparr>, det_conf = 9 / 10, det_cls = 0\<rparr>]], lab_arrays = [[\<lparr>lab_cls = 0, lab_box = \<lparr>box_x1 = 10, box_y1 = 10, box_x2 = 50, box_y2 = 50\<rparr>\<rparr>]]\<rparr> 0 0)) = [(9 / 10, 1)]
   \<and> rank_roc [(9 / 10, 1)] = Inr ([0, 0], [0, 1], [19 / 10, 9 / 10])
   \<and> froc_curve (snd (OD_AUCROC_process_batch box_iou (new_od_aucroc 0 1 (1 / 2) 1)
      \<lparr>det_arrays = [[\<lparr>det_box = \<lparr>box_x1 = 10, box_y1 = 10, box_x2 = 50, box_y2 = 50\<rparr>, det_conf = 9 / 10, det_cls = 0\<rparr>]], lab_arrays = [[\<lparr>lab_cls = 0, lab_box = \<lparr>box_x1 = 10, box_y1 = 10, box_x2 = 50, box_y2 = 50\<rparr>\<rparr>]]\<rparr> 0 0)) [0, 1] [19 / 10, 9 / 10] = Inl RuntimeError
   \<and> score rank_roc trapezoid_auc (snd (OD_AUCROC_process_batch box_iou (new_od_aucroc 0 1 (1 / 2) 1)
      \<lparr>det_arrays = [[\<lparr>det_box = \<lparr>box_x1 = 10, box_y1 = 10, box_x2 = 50, box_y2 = 50\<rparr>, det_conf = 9 / 10, det_cls = 0\<rparr>]], lab_arrays = [[\<lparr>lab_cls = 0, lab_box = \<lparr>box_x1 = 10, box_y1 = 10, box_x2 = 50, box_y2 = 50\<rparr>\<rparr>]]\<rparr> 0 0)) = Inl RuntimeError
   \<and> OD_AUCROC_init 1 (1 / 2) 1 = Inr (new_od_aucroc 0 1 (1 / 2) 1)
   \<and> markers_in_normal_image (new_od_aucroc 0 1 (1 / 2) 1) = []
   \<and> score rank_roc trapezoid_auc (new_od_aucroc 0 1 (1 / 2) 1) = Inl ValueError"
  by code_simp

text \<open>
  C4, amended: \<open>score\<close> on an engine that has recorded zero negative images returns no
  result, it raises. When \<open>compute\<close> raises on the lesion accumulator, \<open>score\<close> raises that
  error before \<open>froc_curve\<close> is called; this is the case before any \<open>process_batch\<close>, where
  the accumulators are empty (ValueError with torchmetrics). When the lesion ROC is
  computed, \<open>froc_curve\<close> raises RuntimeError, from \<open>torch.cat\<close> of the empty marker list, or
  from \<open>torch.stack\<close> when there is no threshold, and \<open>score\<close> raises it; the division by the
  number of negative images is not reached, so nothing is divided by zero silently. With
  at least one recorded negative image and at least one threshold \<open>froc_curve\<close> returns,
  for each threshold, the number of markers above it divided by the non-zero number of
  negative images.
\<close>

theorem score_zero_negative_images:
  "(markers_in_normal_image eng = [] \<longrightarrow> (\<exists>e. score compute auc eng = Inl e))
   \<and> (\<forall>e. compute (roc_lesion eng) = Inl e \<longrightarrow> score compute auc eng = Inl e)
   \<and> (\<forall>e. compute [] = Inl e \<longrightarrow> score compute auc (new_od_aucroc th n t f) = Inl e)
   \<and> (\<forall>fpr tpr ths.
         markers_in_normal_image eng = [] \<and> compute (roc_lesion eng) = Inr (fpr, tpr, ths)
         \<longrightarrow> froc_curve eng tpr ths = Inl RuntimeError
           \<and> score compute auc eng = Inl RuntimeError)
   \<and> (markers_in_normal_image eng \<noteq> [] \<and> thresholds \<noteq> [] \<longrightarrow>
        0 < length (markers_in_normal_image eng)
        \<and> froc_curve eng tpr thresholds =
            Inr (tpr, map (\<lambda>threshold.
                   real (length (filter (\<lambda>v. threshold < v) (concat (markers_in_normal_image eng))))
                   / real (length (markers_in_normal_image eng))) thresholds))"
proof (intro conjI allI impI)
  assume m: "markers_in_normal_image eng = []"
  show "\<exists>e. score compute auc eng = Inl e"
  proof (cases "compute (roc_lesion eng)")
    case (Inl e)
    then show ?thesis using score_raises_compute by blast
  next
    case (Inr c)
    obtain fpr tpr ths where "c = (fpr, tpr, ths)" by (cases c) auto
    with Inr show ?thesis using score_raises_froc_curve [OF m] by blast
  qed
next
  fix e assume "compute (roc_lesion eng) = Inl e"
  then show "score compute auc eng = Inl e" by (rule score_raises_compute)
next
  fix e assume "compute [] = Inl e"
  then show "score compute auc (new_od_aucroc th n t f) = Inl e"
    by (intro score_raises_compute) (simp add: new_od_aucroc_def)
next
  fix fpr tpr ths
  assume "markers_in_normal_image eng = [] \<and> compute (roc_lesion eng) = Inr (fpr, tpr, ths)"
  then show "froc_curve eng tpr ths = Inl RuntimeError"
    using froc_curve_raises by blast
next
  fix fpr tpr ths
  assume "markers_in_normal_image eng = [] \<and> compute (roc_lesion eng) = Inr (fpr, tpr, ths)"
  then show "score compute auc eng = Inl RuntimeError"
    using score_raises_froc_curve by blast
next
  assume "markers_in_normal_image eng \<noteq> [] \<and> thresholds \<noteq> []"
  then show "0 < length (markers_in_normal_image eng)" by simp
next
  assume "markers_in_normal_image eng \<noteq> [] \<and> thresholds \<noteq> []"
  then show "froc_curve eng tpr thresholds =
            Inr (tpr, map (\<lambda>threshold.
                   real (length (filter (\<lambda>v. threshold < v) (concat (markers_in_normal_image eng))))
                   / real (length (markers_in_normal_image eng))) thresholds)"
    using froc_curve_returns by blast
qed

theorem score_zero_negative_images_witness:
  "markers_in_normal_image (snd (OD_AUCROC_process_batch box_iou (new_od_aucroc 0 1 (1 / 2) 1)
      \<lparr>det_arrays = [[\<lparr>det_box = \<lparr>box_x1 = 10, box_y1 = 10, box_x2 = 50, box_y2 = 50\<rparr>, det_conf = 9 / 10, det_cls = 0\<rparr>]], lab_arrays = [[\<lparr>lab_cls = 0, lab_box = \<lparr>box_x1 = 10, box_y1 = 10, box_x2 = 50, box_y2 = 50\<rparr>\<rparr>]]\<rparr> 0 0)) = []
   \<and> rank_roc (roc_lesion (snd (OD_AUCROC_process_batch box_iou (new_od_aucroc 0 1 (1 / 2) 1)
      \<lparr>det_arrays = [[\<lparr>det_box = \<lparr>box_x1 = 10, box_y1 = 10, box_x2 = 50, box_y2 = 50\<rparr>, det_conf = 9 / 10, det_cls = 0\<rparr>]], lab_arrays = [[\<lparr>lab_cls = 0, lab_box = \<lparr>box_x1 = 10, box_y1 = 10, box_x2 = 50, box_y2 = 50\<rparr>\<rparr>]]\<rparr> 0 0))) = Inr ([0, 0], [0, 1], [19 / 10, 9 / 10])
   \<and> froc_curve (snd (OD_AUCROC_process_batch box_iou (new_od_aucroc 0 1 (1 / 2) 1)
      \<lparr>det_arrays = [[\<lparr>det_box = \<lparr>box_x1 = 10, box_y1 = 10, box_x2 = 50, box_y2 = 50\<rparr>, det_conf = 9 / 10, det_cls = 0\<rparr>]], lab_arrays = [[\<lparr>lab_cls = 0, lab_box = \<lparr>box_x1 = 10, box_y1 = 10, box_x2 = 50, box_y2 = 50\<rparr>\<rparr>]]\<rparr> 0 0)) [0, 1] [19 / 10, 9 / 10] = Inl RuntimeError
   \<and> score rank_roc trapezoid_auc (snd (OD_AUCROC_process_batch box_iou (new_od_aucroc 0 1 (1 / 2) 1)
      \<lparr>det_arrays = [[\<lparr>det_box = \<lparr>box_x1 = 10, box_y1 = 10, box_x2 = 50, box_y2 = 50\<rparr>, det_conf = 9 / 10, det_cls = 0\<rparr>]], lab_arrays = [[\<lparr>lab_cls = 0, lab_box = \<lparr>box_x1 = 10, box_y1 = 10, box_x2 = 50, box_y2 = 50\<rparr>\<rparr>]]\<rparr> 0 0)) = Inl RuntimeError
   \<and> rank_roc [] = Inl ValueError
   \<and> score rank_roc trapezoid_auc (new_od_aucroc 0 1 (1 / 2) 1) = Inl ValueError
   \<and> markers_in_normal_image ((new_od_aucroc 0 1 (1 / 2) 1)\<lparr>markers_in_normal_image := [[3 / 10], [7 / 10]]\<rparr>) \<noteq> []
   \<and> [1 / 2 :: real] \<noteq> []
   \<and> froc_curve ((new_od_aucroc 0 1 (1 / 2) 1)\<lparr>markers_in_normal_image := [[3 / 10], [7 / 10]]\<rparr>) [1] [1 / 2]
       = Inr ([1], [1 / 2])"
proof -
  let ?eng = "(snd (OD_AUCROC_process_batch box_iou (new_od_aucroc 0 1 (1 / 2) 1)
      \<lparr>det_arrays = [[\<lparr>det_box = \<lparr>box_x1 = 10, box_y1 = 10, box_x2 = 50, box_y2 = 50\<rparr>, det_conf = 9 / 10, det_cls = 0\<rparr>]], lab_arrays = [[\<lparr>lab_cls = 0, lab_box = \<lparr>box_x1 = 10, box_y1 = 10, box_x2 = 50, box_y2 = 50\<rparr>\<rparr>]]\<rparr> 0 0))"
  have m: "markers_in_normal_image ?eng = []"
    and c: "rank_roc (roc_lesion ?eng) = Inr ([0, 0], [0, 1], [19 / 10, 9 / 10])"
    by code_simp+
  note t = score_zero_negative_images [of ?eng rank_roc trapezoid_auc 0 1 "1 / 2" 1]
  have a: "froc_curve ?eng [0, 1] [19 / 10, 9 / 10] = Inl RuntimeError"
    and b: "score rank_roc trapezoid_auc ?eng = Inl RuntimeError"
    using t m c by blast+
  have e: "rank_roc [] = Inl ValueError" by (simp add: rank_roc_def)
  have d: "score rank_roc trapezoid_auc (new_od_aucroc 0 1 (1 / 2) 1) = Inl ValueError"
    using t e by blast
  have f: "markers_in_normal_image ((new_od_aucroc 0 1 (1 / 2) 1)\<lparr>markers_in_normal_image := [[3 / 10], [7 / 10]]\<rparr>) \<noteq> []
   \<and> [1 / 2 :: real] \<noteq> []
   \<and> froc_curve ((new_od_aucroc 0 1 (1 / 2) 1)\<lparr>markers_in_normal_image := [[3 / 10], [7 / 10]]\<rparr>) [1] [1 / 2]
       = Inr ([1], [1 / 2])"
    using score_zero_negative_images [of "(new_od_aucroc 0 1 (1 / 2) 1)\<lparr>markers_in_normal_image := [[3 / 10], [7 / 10]]\<rparr>" _ _ _ _ _ _ "[1 / 2]" "[1]"]
    by (simp add: new_od_aucroc_def)
  show ?thesis using m c a b e d f by blast
qed

text \<open>
  C3, as stated, fails. An image without malignant labels and with two malignant
  detections of scores 0.6 and 0.7 is recorded as the entry \<open>[0.6, 0.7]\<close>, not as its
  maximum alone, and at the threshold 0.5 \<open>froc_curve\<close> counts two false markers for this
  one image.
\<close>

theorem OD_AUCROC_process_batch_normal_image_counterexample:
  "markers_in_normal_image (snd (OD_AUCROC_process_batch box_iou (new_od_aucroc 0 1 (1 / 2) 1)
      \<lparr>det_arrays = [[\<lparr>det_box = \<lparr>box_x1 = 10, box_y1 = 10, box_x2 = 50, box_y2 = 50\<rparr>, det_conf = 6 / 10, det_cls = 0\<rparr>, \<lparr>det_box = \<lparr>box_x1 = 60, box_y1 = 60, box_x2 = 70, box_y2 = 70\<rparr>, det_conf = 7 / 10, det_cls = 0\<rparr>]], lab_arrays = [[]]\<rparr> 0 0)) = [[6 / 10, 7 / 10]]
   \<and> markers_in_normal_image (snd (OD_AUCROC_process_batch box_iou (new_od_aucroc 0 1 (1 / 2) 1)
      \<lparr>det_arrays = [[\<lparr>det_box = \<lparr>box_x1 = 10, box_y1 = 10, box_x2 = 50, box_y2 = 50\<rparr>, det_conf = 6 / 10, det_cls = 0\<rparr>, \<lparr>det_box = \<lparr>box_x1 = 60, box_y1 = 60, box_x2 = 70, box_y2 = 70\<rparr>, det_conf = 7 / 10, det_cls = 0\<rparr>]], lab_arrays = [[]]\<rparr> 0 0)) \<noteq> [[torch_max [6 / 10, 7 / 10]]]
   \<and> froc_fm (froc_curve (snd (OD_AUCROC_process_batch box_iou (new_od_aucroc 0 1 (1 / 2) 1)
      \<lparr>det_arrays = [[\<lparr>det_box = \<lparr>box_x1 = 10, box_y1 = 10, box_x2 = 50, box_y2 = 50\<rparr>, det_conf = 6 / 10, det_cls = 0\<rparr>, \<lparr>det_box = \<lparr>box_x1 = 60, box_y1 = 60, box_x2 = 70, box_y2 = 70\<rparr>, det_conf = 7 / 10, det_cls = 0\<rparr>]], lab_arrays = [[]]\<rparr> 0 0)) [1] [1 / 2]) = [2]
   \<and> \<not> froc_fm (froc_curve (snd (OD_AUCROC_process_batch box_iou (new_od_aucroc 0 1 (1 / 2) 1)
      \<lparr>det_arrays = [[\<lparr>det_box = \<lparr>box_x1 = 10, box_y1 = 10, box_x2 = 50, box_y2 = 50\<rparr>, det_conf = 6 / 10, det_cls = 0\<rparr>, \<lparr>det_box = \<lparr>box_x1 = 60, box_y1 = 60, box_x2 = 70, box_y2 = 70\<rparr>, det_conf = 7 / 10, det_cls = 0\<rparr>]], lab_arrays = [[]]\<rparr> 0 0)) [1] [1 / 2]) ! 0 \<le> 1"
  by code_simp

text \<open>
  C3, amended: for an image with at least one malignant detection and no malignant
  label, \<open>process_batch\<close> appends one entry to \<open>markers_in_normal_image\<close>, holding the scores
  of all the malignant detections of the image (the maximum score is what the three ROC
  accumulators receive, with label 0); \<open>froc_curve\<close> then counts, at each threshold, every
  recorded score above it and divides by the number of entries, so such an image counts
  for as many false markers as it has malignant detections above the threshold. Two
  negative images with one detection each, of scores 0.3 and 0.7, give 0.5 at the
  threshold 0.5.
\<close>

theorem OD_AUCROC_process_batch_normal_image:
  assumes "detections < length (det_arrays st)" and "labels < length (lab_arrays st)"
    and "\<exists>d\<in>set (det_arrays st ! detections). malignant_cls_th eng \<le> det_cls d"
    and "\<forall>l\<in>set (lab_arrays st ! labels). \<not> malignant_cls_th eng \<le> lab_cls l"
  shows "markers_in_normal_image (snd (OD_AUCROC_process_batch iou eng st detections labels))
           = markers_in_normal_image eng
             @ [map det_conf (filter (\<lambda>d. malignant_cls_th eng \<le> det_cls d)
                                (det_arrays st ! detections))]
       \<and> roc_lesion (snd (OD_AUCROC_process_batch iou eng st detections labels))
           = roc_lesion eng
             @ [(Max (det_conf ` {d \<in> set (det_arrays st ! detections). malignant_cls_th eng \<le> det_cls d}), 0)]
       \<and> roc_image (snd (OD_AUCROC_process_batch iou eng st detections labels))
           = roc_image eng
             @ [(Max (det_conf ` {d \<in> set (det_arrays st ! detections). malignant_cls_th eng \<le> det_cls d}), 0)]
       \<and> roc_image_noloc (snd (OD_AUCROC_process_batch iou eng st detections labels))
           = roc_image_noloc eng
             @ [(Max (det_conf ` {d \<in> set (det_arrays st ! detections). malignant_cls_th eng \<le> det_cls d}), 0)]
       \<and> (thresholds \<noteq> [] \<longrightarrow>
            froc_curve (snd (OD_AUCROC_process_batch iou eng st detections labels)) tpr thresholds
            = Inr (tpr, map (\<lambda>threshold.
                real (length (filter (\<lambda>v. threshold < v)
                  (concat (markers_in_normal_image eng)
                   @ map det_conf (filter (\<lambda>d. malignant_cls_th eng \<le> det_cls d)
                                     (det_arrays st ! detections)))))
                / real (length (markers_in_normal_image eng) + 1)) thresholds))"
proof -
  define dets where "dets = filter (\<lambda>d. malignant_cls_th eng \<le> det_cls d) (det_arrays st ! detections)"
  define eng' where "eng' = snd (OD_AUCROC_process_batch iou eng st detections labels)"
  have ne: "dets \<noteq> []" using assms(3) by (auto simp: dets_def filter_empty_conv)
  have nl: "mal_labels_of eng (lab_arrays st ! labels) = []"
    using assms(4) by (simp add: mal_labels_of_def filter_empty_conv)
  have probs: "map det_conf (mal_detections_of eng (det_arrays st ! detections)) = map det_conf dets"
    by (simp add: mal_detections_of_def dets_def comp_def)
  have md: "mal_detections_of eng (det_arrays st ! detections) \<noteq> []"
    using ne by (simp add: mal_detections_of_def dets_def)
  have eng': "eng' = eng\<lparr>markers_in_normal_image := markers_in_normal_image eng @ [map det_conf dets],
            roc_lesion := roc_update (roc_lesion eng) [torch_max (map det_conf dets)] [0],
            roc_image := roc_update (roc_image eng) [torch_max (map det_conf dets)] [0],
            roc_image_noloc := roc_update (roc_image_noloc eng) [torch_max (map det_conf dets)] [0]\<rparr>"
    unfolding eng'_def OD_AUCROC_process_batch_store(2) [OF assms(1,2)]
    using md by (simp add: OD_AUCROC_score_image_def Let_def nl probs)
  have mx: "torch_max (map det_conf dets)
      = Max (det_conf ` {d \<in> set (det_arrays st ! detections). malignant_cls_th eng \<le> det_cls d})"
    using ne by (simp add: torch_max_Max dets_def)
  have m: "markers_in_normal_image eng' = markers_in_normal_image eng @ [map det_conf dets]"
    by (simp add: eng')
  have l: "roc_lesion eng' = roc_lesion eng @ [(torch_max (map det_conf dets), 0)]"
    and li: "roc_image eng' = roc_image eng @ [(torch_max (map det_conf dets), 0)]"
    and ln: "roc_image_noloc eng' = roc_image_noloc eng @ [(torch_max (map det_conf dets), 0)]"
    by (simp_all add: eng' roc_update_def)
  have f: "froc_curve eng' tpr thresholds
            = Inr (tpr, map (\<lambda>threshold.
                real (length (filter (\<lambda>v. threshold < v)
                  (concat (markers_in_normal_image eng) @ map det_conf dets)))
                / real (length (markers_in_normal_image eng) + 1)) thresholds)"
    if "thresholds \<noteq> []"
    using froc_curve_returns [of eng' thresholds tpr] that by (simp add: m)
  show ?thesis using m l li ln f unfolding eng'_def [symmetric] mx dets_def [symmetric] by simp
qed

theorem OD_AUCROC_process_batch_normal_image_witness:
  "(0::nat) < length (det_arrays \<lparr>det_arrays = [[\<lparr>det_box = \<lparr>box_x1 = 60, box_y1 = 60, box_x2 = 70, box_y2 = 70\<rparr>, det_conf = 7 / 10, det_cls = 0\<rparr>]], lab_arrays = [[]]\<rparr>)
   \<and> (0::nat) < length (lab_arrays \<lparr>det_arrays = [[\<lparr>det_box = \<lparr>box_x1 = 60, box_y1 = 60, box_x2 = 70, box_y2 = 70\<rparr>, det_conf = 7 / 10, det_cls = 0\<rparr>]], lab_arrays = [[]]\<rparr>)
   \<and> malignant_cls_th (snd (OD_AUCROC_process_batch box_iou (new_od_aucroc 0 1 (1 / 2) 1)
      \<lparr>det_arrays = [[\<lparr>det_box = \<lparr>box_x1 = 10, box_y1 = 10, box_x2 = 50, box_y2 = 50\<rparr>, det_conf = 3 / 10, det_cls = 0\<rparr>]], lab_arrays = [[]]\<rparr> 0 0)) \<le> det_cls (\<lparr>det_box = \<lparr>box_x1 = 60, box_y1 = 60, box_x2 = 70, box_y2 = 70\<rparr>, det_conf = 7 / 10, det_cls = 0\<rparr>)
   \<and> markers_in_normal_image (snd (OD_AUCROC_process_batch box_iou (snd (OD_AUCROC_process_batch box_iou (new_od_aucroc 0 1 (1 / 2) 1)
      \<lparr>det_arrays = [[\<lparr>det_box = \<lparr>box_x1 = 10, box_y1 = 10, box_x2 = 50, box_y2 = 50\<rparr>, det_conf = 3 / 10, det_cls = 0\<rparr>]], lab_arrays = [[]]\<rparr> 0 0))
        \<lparr>det_arrays = [[\<lparr>det_box = \<lparr>box_x1 = 60, box_y1 = 60, box_x2 = 70, box_y2 = 70\<rparr>, det_conf = 7 / 10, det_cls = 0\<rparr>]], lab_arrays = [[]]\<rparr> 0 0)) = [[3 / 10], [7 / 10]]
   \<and> froc_fm (froc_curve (snd (OD_AUCROC_process_batch box_iou (snd (OD_AUCROC_process_batch box_iou (new_od_aucroc 0 1 (1 / 2) 1)
      \<lparr>det_arrays = [[\<lparr>det_box = \<lparr>box_x1 = 10, box_y1 = 10, box_x2 = 50, box_y2 = 50\<rparr>, det_conf = 3 / 10, det_cls = 0\<rparr>]], lab_arrays = [[]]\<rparr> 0 0))
        \<lparr>det_arrays = [[\<lparr>det_box = \<lparr>box_x1 = 60, box_y1 = 60, box_x2 = 70, box_y2 = 70\<rparr>, det_conf = 7 / 10, det_cls = 0\<rparr>]], lab_arrays = [[]]\<rparr> 0 0)) [1] [1 / 2]) = [1 / 2]"
proof -
  define eng1 where "eng1 = snd (OD_AUCROC_process_batch box_iou (new_od_aucroc 0 1 (1 / 2) 1)
      \<lparr>det_arrays = [[\<lparr>det_box = \<lparr>box_x1 = 10, box_y1 = 10, box_x2 = 50, box_y2 = 50\<rparr>, det_conf = 3 / 10, det_cls = 0\<rparr>]], lab_arrays = [[]]\<rparr> 0 0)"
  have e1: "markers_in_normal_image eng1 = [[3 / 10]]" and th: "malignant_cls_th eng1 = 0"
    unfolding eng1_def by code_simp+
  have h1: "0 < length (det_arrays \<lparr>det_arrays = [[\<lparr>det_box = \<lparr>box_x1 = 60, box_y1 = 60, box_x2 = 70, box_y2 = 70\<rparr>, det_conf = 7 / 10, det_cls = 0\<rparr>]], lab_arrays = [[]]\<rparr>)"
    and h2: "0 < length (lab_arrays \<lparr>det_arrays = [[\<lparr>det_box = \<lparr>box_x1 = 60, box_y1 = 60, box_x2 = 70, box_y2 = 70\<rparr>, det_conf = 7 / 10, det_cls = 0\<rparr>]], lab_arrays = [[]]\<rparr>)"
    and h3: "\<exists>d\<in>set (det_arrays \<lparr>det_arrays = [[\<lparr>det_box = \<lparr>box_x1 = 60, box_y1 = 60, box_x2 = 70, box_y2 = 70\<rparr>, det_conf = 7 / 10, det_cls = 0\<rparr>]], lab_arrays = [[]]\<rparr> ! 0). malignant_cls_th eng1 \<le> det_cls d"
    and h4: "\<forall>l\<in>set (lab_arrays \<lparr>det_arrays = [[\<lparr>det_box = \<lparr>box_x1 = 60, box_y1 = 60, box_x2 = 70, box_y2 = 70\<rparr>, det_conf = 7 / 10, det_cls = 0\<rparr>]], lab_arrays = [[]]\<rparr> ! 0). \<not> malignant_cls_th eng1 \<le> lab_cls l"
    by (simp_all add: th)
  have ne: "[1 / 2 :: real] \<noteq> []" by simp
  note t = OD_AUCROC_process_batch_normal_image [OF h1 h2 h3 h4, where iou = box_iou and thresholds = "[1 / 2]" and tpr = "[1]"]
  have m: "markers_in_normal_image (snd (OD_AUCROC_process_batch box_iou eng1 \<lparr>det_arrays = [[\<lparr>det_box = \<lparr>box_x1 = 60, box_y1 = 60, box_x2 = 70, box_y2 = 70\<rparr>, det_conf = 7 / 10, det_cls = 0\<rparr>]], lab_arrays = [[]]\<rparr> 0 0))
      = [[3 / 10], [7 / 10]]"
    using t by (simp add: e1 th)
  have f: "froc_curve (snd (OD_AUCROC_process_batch box_iou eng1 \<lparr>det_arrays = [[\<lparr>det_box = \<lparr>box_x1 = 60, box_y1 = 60, box_x2 = 70, box_y2 = 70\<rparr>, det_conf = 7 / 10, det_cls = 0\<rparr>]], lab_arrays = [[]]\<rparr> 0 0)) [1] [1 / 2]
      = Inr ([1], [1 / 2])"
    using t ne by (simp add: e1 th)
  show ?thesis
    using m f unfolding eng1_def [symmetric] by (simp add: th froc_fm_def)
qed

lemma concat_if_singleton:
  "concat (map (\<lambda>j. if P j then [f j] else []) js) = map f (filter P js)"
  by (induction js) simp_all

lemma candidates_product:
  "candidates iou thres labels detections =
     map (\<lambda>ij. (fst ij, snd ij, iou (lab_box (labels ! fst ij)) (det_box (detections ! snd ij))))
       (filter (\<lambda>ij. thres < iou (lab_box (labels ! fst ij)) (det_box (detections ! snd ij)))
          (List.product [0..<length labels] [0..<length detections]))"
proof -
  have "concat (map (\<lambda>i. map (\<lambda>j. (i, j, iou (lab_box (labels ! i)) (det_box (detections ! j))))
                    (filter (\<lambda>j. thres < iou (lab_box (labels ! i)) (det_box (detections ! j))) js)) is)
     = map (\<lambda>ij. (fst ij, snd ij, iou (lab_box (labels ! fst ij)) (det_box (detections ! snd ij))))
       (filter (\<lambda>ij. thres < iou (lab_box (labels ! fst ij)) (det_box (detections ! snd ij)))
          (List.product is js))" for "is" js
    by (induction "is") (simp_all add: filter_map comp_def)
  then show ?thesis by (simp add: candidates_def concat_if_singleton)
qed

lemma distinct_candidates:
  "distinct (map (\<lambda>m. (m_label m, m_det m)) (candidates iou thres labels detections))"
proof -
  have "map (\<lambda>m. (m_label m, m_det m)) (candidates iou thres labels detections)
      = filter (\<lambda>ij. thres < iou (lab_box (labels ! fst ij)) (det_box (detections ! snd ij)))
          (List.product [0..<length labels] [0..<length detections])"
    unfolding candidates_product by (simp add: comp_def m_label_def m_det_def)
  then show ?thesis by (simp add: distinct_product)
qed

lemma fold_lesion_inner:
  "\<forall>dcp\<in>set zs. fst dcp = gc \<Longrightarrow>
     fst (fold (lesion_inner gc) zs (b, ib)) = fold max (map snd zs) b"
proof (induction zs arbitrary: b ib)
  case (Cons z zs)
  then have "lesion_inner gc z (b, ib) = (max b (snd z), max ib (max b (snd z)))"
    by (simp add: lesion_inner_def)
  with Cons show ?case by (simp add: max.commute)
qed simp

lemma lesion_step_fst:
  assumes rng: "\<forall>m\<in>set matches. m_det m < length dcs"
    and bnd: "\<forall>m\<in>set matches. m_label m < 32768 \<and> m_det m < 32768"
    and cls: "\<forall>k<length dcs. dcs ! k = gc" and len: "length probs = length dcs"
  shows "fst (lesion_step matches dcs probs (i, gc) (lesion, ib)) =
           lesion @ [(fold max (map (\<lambda>m. probs ! m_det m) (filter (\<lambda>m. m_label m = i) matches)) 0,
                      real gc)]"
proof -
  define ms where "ms = filter (\<lambda>m. m_label m = i) matches"
  define sel where "sel = map m_det ms"
  have m0: "map (\<lambda>v. v = int i) (matches_m0 matches) = map (\<lambda>m. m_label m = i) matches"
    using bnd by (simp add: matches_m0_id)
  have m1: "matches_m1 matches = map (\<lambda>m. int (m_det m)) matches"
    using bnd by (simp add: matches_m1_id)
  have sel: "mask_select (map (\<lambda>v. v = int i) (matches_m0 matches)) (matches_m1 matches)
      = map int sel"
    unfolding m0 m1 by (simp add: sel_def ms_def mask_select_map_filter)
  have cnt: "length (filter (\<lambda>b. b) (map (\<lambda>v. v = int i) (matches_m0 matches))) = length ms"
    unfolding m0 by (simp add: ms_def filter_map comp_def)
  have pyd: "map (py_nth dcs) (map int sel) = map ((!) dcs) sel"
    and pyp: "map (py_nth probs) (map int sel) = map ((!) probs) sel"
    by (simp_all add: py_nth_int comp_def)
  have inr: "\<forall>k\<in>set sel. k < length dcs" using rng by (auto simp: sel_def ms_def)
  then have all: "\<forall>dc\<in>set (map ((!) dcs) sel). dc = gc" using cls by auto
  have ps: "map ((!) probs) sel = map (\<lambda>m. probs ! m_det m) ms" by (simp add: sel_def comp_def)
  have unf: "lesion_step matches dcs probs (i, gc) (lesion, ib) =
      (if matches \<noteq> [] \<and> 0 < length ms \<and> (\<exists>dc\<in>set (map ((!) dcs) sel). dc = gc)
       then (case fold (lesion_inner gc) (zip (map ((!) dcs) sel) (map ((!) probs) sel)) (0, ib) of
               (best_score, image_best_score) \<Rightarrow>
                 (roc_update lesion [best_score] [real gc], image_best_score))
       else (roc_update lesion [0] [real gc], ib))"
    unfolding lesion_step_def prod.case fst_conv snd_conv Let_def sel cnt pyd pyp by simp
  show ?thesis
  proof (cases "ms = []")
    case True
    then show ?thesis unfolding unf by (simp add: roc_update_def ms_def [symmetric])
  next
    case False
    then have m: "matches \<noteq> []" by (auto simp: ms_def)
    from False have s: "sel \<noteq> []" by (simp add: sel_def)
    then have ex: "\<exists>dc\<in>set (map ((!) dcs) sel). dc = gc" using all by (cases sel) auto
    obtain bs ib' where f: "fold (lesion_inner gc) (zip (map ((!) dcs) sel) (map ((!) probs) sel)) (0, ib)
        = (bs, ib')"
      by (cases "fold (lesion_inner gc) (zip (map ((!) dcs) sel) (map ((!) probs) sel)) (0, ib)")
    have "\<forall>dcp\<in>set (zip (map ((!) dcs) sel) (map ((!) probs) sel)). fst dcp = gc"
      using all by (auto dest: set_zip_leftD)
    from fold_lesion_inner [OF this, of 0 ib]
    have "bs = fold max (map ((!) probs) sel) 0" by (simp add: f)
    then have bs: "bs = fold max (map (\<lambda>m. probs ! m_det m) ms) 0" by (simp add: ps)
    have "0 < length ms" using False by simp
    with m ex have "lesion_step matches dcs probs (i, gc) (lesion, ib)
        = (roc_update lesion [bs] [real gc], ib')"
      unfolding unf by (simp add: f)
    then show ?thesis by (simp add: roc_update_def bs ms_def)
  qed
qed

lemma lesion_loop_fst:
  assumes rng: "\<forall>m\<in>set matches. m_det m < length dcs"
    and bnd: "\<forall>m\<in>set matches. m_label m < 32768 \<and> m_det m < 32768"
    and cls: "\<forall>k<length dcs. dcs ! k = gc" and len: "length probs = length dcs"
    and gts: "\<forall>g\<in>set gts. g = gc"
  shows "fst (fold (lesion_step matches dcs probs) (enumerate k gts) (lesion, ib)) =
           lesion @ map (\<lambda>i. (fold max (map (\<lambda>m. probs ! m_det m)
                                  (filter (\<lambda>m. m_label m = i) matches)) 0, real gc))
                      [k..<k + length gts]"
  using gts
proof (induction gts arbitrary: k lesion ib)
  case Nil
  then show ?case by simp
next
  case (Cons g gts)
  then have g: "g = gc" by simp
  obtain l' ib' where st: "lesion_step matches dcs probs (k, gc) (lesion, ib) = (l', ib')"
    by (cases "lesion_step matches dcs probs (k, gc) (lesion, ib)")
  have l': "l' = lesion @ [(fold max (map (\<lambda>m. probs ! m_det m)
                                  (filter (\<lambda>m. m_label m = k) matches)) 0, real gc)]"
    using lesion_step_fst [OF rng bnd cls len, of k lesion ib] st by simp
  have ih: "fst (fold (lesion_step matches dcs probs) (enumerate (Suc k) gts) (l', ib')) =
      l' @ map (\<lambda>i. (fold max (map (\<lambda>m. probs ! m_det m)
                                  (filter (\<lambda>m. m_label m = i) matches)) 0, real gc))
             [Suc k..<Suc k + length gts]"
    using Cons.prems by (intro Cons.IH) simp
  have split: "[k..<k + length (g # gts)] = k # [Suc k..<Suc k + length gts]"
    by (simp del: upt_Suc add: upt_conv_Cons)
  have "fst (fold (lesion_step matches dcs probs) (enumerate k (g # gts)) (lesion, ib))
      = fst (fold (lesion_step matches dcs probs) (enumerate (Suc k) gts) (l', ib'))"
    by (simp add: g st)
  also note ih
  also have "l' @ map (\<lambda>i. (fold max (map (\<lambda>m. probs ! m_det m)
                                  (filter (\<lambda>m. m_label m = i) matches)) 0, real gc))
             [Suc k..<Suc k + length gts]
      = lesion @ map (\<lambda>i. (fold max (map (\<lambda>m. probs ! m_det m)
                                  (filter (\<lambda>m. m_label m = i) matches)) 0, real gc))
             [k..<k + length (g # gts)]"
    unfolding split l' by (simp del: upt_Suc)
  finally show ?case .
qed


lemma OD_AUCROC_score_image_lesion:
  assumes md: "mds \<noteq> []" and ml: "mls \<noteq> []"
    and nl: "length mls \<le> 32768" and nd: "length mds \<le> 32768"
    and d0: "\<forall>d\<in>set mds. det_cls d = 0" and l0: "\<forall>l\<in>set mls. lab_cls l = 0"
  shows "roc_lesion (OD_AUCROC_score_image iou eng mds mls) =
           roc_lesion eng
           @ map (\<lambda>i. (fold max (map (\<lambda>m. det_conf (mds ! m_det m))
                                 (filter (\<lambda>m. m_label m = i)
                                    (candidates iou (od_iou_thres eng) mls mds))) 0,
                        real (class_modifier eng)))
               [0..<length mls]"
proof -
  define ms where "ms = candidates iou (od_iou_thres eng) mls mds"
  define dcs where "dcs = map (\<lambda>d. det_cls d + class_modifier eng) mds"
  define gts where "gts = map (\<lambda>l. lab_cls l + class_modifier eng) mls"
  define probs where "probs = map det_conf mds"
  have rng: "\<forall>m\<in>set ms. m_det m < length dcs"
    by (simp add: ms_def dcs_def candidates_iff)
  have bnd: "\<forall>m\<in>set ms. m_label m < 32768 \<and> m_det m < 32768"
    using nl nd by (auto simp: ms_def candidates_iff)
  have cls: "\<forall>k<length dcs. dcs ! k = class_modifier eng"
    using d0 by (simp add: dcs_def)
  have len: "length probs = length dcs" by (simp add: probs_def dcs_def)
  have gts: "\<forall>g\<in>set gts. g = class_modifier eng" using l0 by (auto simp: gts_def)
  obtain lesion ibs where f: "fold (lesion_step ms dcs probs) (enumerate 0 gts) (roc_lesion eng, 0)
      = (lesion, ibs)"
    by (cases "fold (lesion_step ms dcs probs) (enumerate 0 gts) (roc_lesion eng, 0)")
  have "lesion = roc_lesion eng
      @ map (\<lambda>i. (fold max (map (\<lambda>m. probs ! m_det m) (filter (\<lambda>m. m_label m = i) ms)) 0,
                   real (class_modifier eng))) [0..<0 + length gts]"
    using lesion_loop_fst [OF rng bnd cls len gts, of 0 "roc_lesion eng" 0] f by simp
  moreover have "map (\<lambda>m. probs ! m_det m) (filter (\<lambda>m. m_label m = i) ms)
      = map (\<lambda>m. det_conf (mds ! m_det m)) (filter (\<lambda>m. m_label m = i) ms)" for i
    using rng by (intro map_cong) (auto simp: probs_def dcs_def)
  ultimately have lesion: "lesion = roc_lesion eng
      @ map (\<lambda>i. (fold max (map (\<lambda>m. det_conf (mds ! m_det m)) (filter (\<lambda>m. m_label m = i) ms)) 0,
                   real (class_modifier eng))) [0..<length mls]"
    by (simp add: gts_def)
  have "roc_lesion (OD_AUCROC_score_image iou eng mds mls) = lesion"
    using md ml f
    by (simp add: OD_AUCROC_score_image_def Let_def ms_def [symmetric] dcs_def [symmetric]
        gts_def [symmetric] probs_def [symmetric])
  then show ?thesis by (simp add: lesion ms_def)
qed

text \<open>
  C1, as stated, fails: the two-pass resolution is not applied in \<open>OD_AUCROC.process_batch\<close>.
  One label overlapped by two detections gives two matches with the label index 0, and
  one detection overlapping two labels gives two matches with the detection index 0.
\<close>

theorem OD_AUCROC_process_batch_all_pairs_counterexample:
  "map m_label (OD_AUCROC_matches box_iou (new_od_aucroc 0 1 (1 / 2) 1)
      [\<lparr>det_box = \<lparr>box_x1 = 10, box_y1 = 10, box_x2 = 50, box_y2 = 50\<rparr>, det_conf = 9 / 10, det_cls = 0\<rparr>,
       \<lparr>det_box = \<lparr>box_x1 = 10, box_y1 = 10, box_x2 = 50, box_y2 = 46\<rparr>, det_conf = 8 / 10, det_cls = 0\<rparr>]
      [\<lparr>lab_cls = 0, lab_box = \<lparr>box_x1 = 10, box_y1 = 10, box_x2 = 50, box_y2 = 50\<rparr>\<rparr>]) = [0, 0]
   \<and> \<not> distinct (map m_label (OD_AUCROC_matches box_iou (new_od_aucroc 0 1 (1 / 2) 1)
      [\<lparr>det_box = \<lparr>box_x1 = 10, box_y1 = 10, box_x2 = 50, box_y2 = 50\<rparr>, det_conf = 9 / 10, det_cls = 0\<rparr>,
       \<lparr>det_box = \<lparr>box_x1 = 10, box_y1 = 10, box_x2 = 50, box_y2 = 46\<rparr>, det_conf = 8 / 10, det_cls = 0\<rparr>]
      [\<lparr>lab_cls = 0, lab_box = \<lparr>box_x1 = 10, box_y1 = 10, box_x2 = 50, box_y2 = 50\<rparr>\<rparr>]))
   \<and> map m_det (OD_AUCROC_matches box_iou (new_od_aucroc 0 1 (1 / 2) 1)
      [\<lparr>det_box = \<lparr>box_x1 = 10, box_y1 = 10, box_x2 = 50, box_y2 = 50\<rparr>, det_conf = 9 / 10, det_cls = 0\<rparr>]
      [\<lparr>lab_cls = 0, lab_box = \<lparr>box_x1 = 10, box_y1 = 10, box_x2 = 50, box_y2 = 50\<rparr>\<rparr>,
       \<lparr>lab_cls = 0, lab_box = \<lparr>box_x1 = 10, box_y1 = 10, box_x2 = 50, box_y2 = 46\<rparr>\<rparr>]) = [0, 0]
   \<and> \<not> distinct (map m_det (OD_AUCROC_matches box_iou (new_od_aucroc 0 1 (1 / 2) 1)
      [\<lparr>det_box = \<lparr>box_x1 = 10, box_y1 = 10, box_x2 = 50, box_y2 = 50\<rparr>, det_conf = 9 / 10, det_cls = 0\<rparr>]
      [\<lparr>lab_cls = 0, lab_box = \<lparr>box_x1 = 10, box_y1 = 10, box_x2 = 50, box_y2 = 50\<rparr>\<rparr>,
       \<lparr>lab_cls = 0, lab_box = \<lparr>box_x1 = 10, box_y1 = 10, box_x2 = 50, box_y2 = 46\<rparr>\<rparr>]))"
  by code_simp

text \<open>
  C1, amended: for an image with at least one malignant detection and at least one
  malignant label, and at most 32768 of each (the match indices are cast to \<open>int16\<close>),
  the matches used to score the image are all the pairs of a malignant label and a
  malignant detection with IoU above the threshold, unresolved: no such pair appears
  twice, but a label index or a detection index may appear in several matches. Each
  malignant label is credited exactly once in the lesion accumulator, with the greatest
  score among the detections matched to it (0 when there is none).
\<close>

theorem OD_AUCROC_process_batch_all_pairs:
  assumes "detections < length (det_arrays st)" and "labels < length (lab_arrays st)"
    and "\<exists>d\<in>set (det_arrays st ! detections). malignant_cls_th eng \<le> det_cls d"
    and "\<exists>l\<in>set (lab_arrays st ! labels). malignant_cls_th eng \<le> lab_cls l"
    and "length (mal_labels_of eng (lab_arrays st ! labels)) \<le> 32768"
    and "length (mal_detections_of eng (det_arrays st ! detections)) \<le> 32768"
  shows "(\<forall>m. m \<in> set (OD_AUCROC_matches iou eng (det_arrays st ! detections) (lab_arrays st ! labels))
            \<longleftrightarrow> m_label m < length (mal_labels_of eng (lab_arrays st ! labels))
              \<and> m_det m < length (mal_detections_of eng (det_arrays st ! detections))
              \<and> m_iou m = iou (lab_box (mal_labels_of eng (lab_arrays st ! labels) ! m_label m))
                             (det_box (mal_detections_of eng (det_arrays st ! detections) ! m_det m))
              \<and> od_iou_thres eng < m_iou m)
       \<and> distinct (map (\<lambda>m. (m_label m, m_det m))
            (OD_AUCROC_matches iou eng (det_arrays st ! detections) (lab_arrays st ! labels)))
       \<and> roc_lesion (snd (OD_AUCROC_process_batch iou eng st detections labels)) =
           roc_lesion eng
           @ map (\<lambda>i. (fold max
                          (map (\<lambda>m. det_conf (mal_detections_of eng (det_arrays st ! detections) ! m_det m))
                             (filter (\<lambda>m. m_label m = i)
                                (OD_AUCROC_matches iou eng (det_arrays st ! detections)
                                   (lab_arrays st ! labels)))) 0,
                        real (class_modifier eng)))
               [0..<length (mal_labels_of eng (lab_arrays st ! labels))]"
proof -
  have md: "mal_detections_of eng (det_arrays st ! detections) \<noteq> []"
    using assms(3) by (auto simp: mal_detections_of_def filter_empty_conv)
  have ml: "mal_labels_of eng (lab_arrays st ! labels) \<noteq> []"
    using assms(4) by (auto simp: mal_labels_of_def filter_empty_conv)
  have d0: "\<forall>d\<in>set (mal_detections_of eng (det_arrays st ! detections)). det_cls d = 0"
    by (auto simp: mal_detections_of_def)
  have l0: "\<forall>l\<in>set (mal_labels_of eng (lab_arrays st ! labels)). lab_cls l = 0"
    by (auto simp: mal_labels_of_def)
  show ?thesis
    unfolding OD_AUCROC_process_batch_store(2) [OF assms(1,2)] OD_AUCROC_matches_def
    using candidates_iff distinct_candidates
      OD_AUCROC_score_image_lesion [OF md ml assms(5,6) d0 l0]
    by blast
qed

theorem OD_AUCROC_process_batch_all_pairs_witness:
  "(0::nat) < length (det_arrays \<lparr>det_arrays = [[\<lparr>det_box = \<lparr>box_x1 = 10, box_y1 = 10, box_x2 = 50, box_y2 = 50\<rparr>, det_conf = 9 / 10, det_cls = 0\<rparr>, \<lparr>det_box = \<lparr>box_x1 = 10, box_y1 = 10, box_x2 = 50, box_y2 = 46\<rparr>, det_conf = 8 / 10, det_cls = 0\<rparr>]], lab_arrays = [[\<lparr>lab_cls = 0, lab_box = \<lparr>box_x1 = 10, box_y1 = 10, box_x2 = 50, box_y2 = 50\<rparr>\<rparr>]]\<rparr>)
   \<and> (0::nat) < length (lab_arrays \<lparr>det_arrays = [[\<lparr>det_box = \<lparr>box_x1 = 10, box_y1 = 10, box_x2 = 50, box_y2 = 50\<rparr>, det_conf = 9 / 10, det_cls = 0\<rparr>, \<lparr>det_box = \<lparr>box_x1 = 10, box_y1 = 10, box_x2 = 50, box_y2 = 46\<rparr>, det_conf = 8 / 10, det_cls = 0\<rparr>]], lab_arrays = [[\<lparr>lab_cls = 0, lab_box = \<lparr>box_x1 = 10, box_y1 = 10, box_x2 = 50, box_y2 = 50\<rparr>\<rparr>]]\<rparr>)
   \<and> malignant_cls_th (new_od_aucroc 0 1 (1 / 2) 1) \<le> det_cls (\<lparr>det_box = \<lparr>box_x1 = 10, box_y1 = 10, box_x2 = 50, box_y2 = 50\<rparr>, det_conf = 9 / 10, det_cls = 0\<rparr>)
   \<and> malignant_cls_th (new_od_aucroc 0 1 (1 / 2) 1) \<le> lab_cls (\<lparr>lab_cls = 0, lab_box = \<lparr>box_x1 = 10, box_y1 = 10, box_x2 = 50, box_y2 = 50\<rparr>\<rparr>)
   \<and> length (mal_labels_of (new_od_aucroc 0 1 (1 / 2) 1) [\<lparr>lab_cls = 0, lab_box = \<lparr>box_x1 = 10, box_y1 = 10, box_x2 = 50, box_y2 = 50\<rparr>\<rparr>]) \<le> 32768
   \<and> length (mal_detections_of (new_od_aucroc 0 1 (1 / 2) 1) [\<lparr>det_box = \<lparr>box_x1 = 10, box_y1 = 10, box_x2 = 50, box_y2 = 50\<rparr>, det_conf = 9 / 10, det_cls = 0\<rparr>, \<lparr>det_box = \<lparr>box_x1 = 10, box_y1 = 10, box_x2 = 50, box_y2 = 46\<rparr>, det_conf = 8 / 10, det_cls = 0\<rparr>]) \<le> 32768
   \<and> OD_AUCROC_matches box_iou (new_od_aucroc 0 1 (1 / 2) 1)
      [\<lparr>det_box = \<lparr>box_x1 = 10, box_y1 = 10, box_x2 = 50, box_y2 = 50\<rparr>, det_conf = 9 / 10, det_cls = 0\<rparr>,
       \<lparr>det_box = \<lparr>box_x1 = 10, box_y1 = 10, box_x2 = 50, box_y2 = 46\<rparr>, det_conf = 8 / 10, det_cls = 0\<rparr>]
      [\<lparr>lab_cls = 0, lab_box = \<lparr>box_x1 = 10, box_y1 = 10, box_x2 = 50, box_y2 = 50\<rparr>\<rparr>] = [(0, 0, 1), (0, 1, 9 / 10)]
   \<and> distinct (map (\<lambda>m. (m_label m, m_det m)) (OD_AUCROC_matches box_iou (new_od_aucroc 0 1 (1 / 2) 1)
      [\<lparr>det_box = \<lparr>box_x1 = 10, box_y1 = 10, box_x2 = 50, box_y2 = 50\<rparr>, det_conf = 9 / 10, det_cls = 0\<rparr>,
       \<lparr>det_box = \<lparr>box_x1 = 10, box_y1 = 10, box_x2 = 50, box_y2 = 46\<rparr>, det_conf = 8 / 10, det_cls = 0\<rparr>]
      [\<lparr>lab_cls = 0, lab_box = \<lparr>box_x1 = 10, box_y1 = 10, box_x2 = 50, box_y2 = 50\<rparr>\<rparr>]))
   \<and> roc_lesion (snd (OD_AUCROC_process_batch box_iou (new_od_aucroc 0 1 (1 / 2) 1)
      \<lparr>det_arrays = [[\<lparr>det_box = \<lparr>box_x1 = 10, box_y1 = 10, box_x2 = 50, box_y2 = 50\<rparr>, det_conf = 9 / 10, det_cls = 0\<rparr>, \<lparr>det_box = \<lparr>box_x1 = 10, box_y1 = 10, box_x2 = 50, box_y2 = 46\<rparr>, det_conf = 8 / 10, det_cls = 0\<rparr>]], lab_arrays = [[\<lparr>lab_cls = 0, lab_box = \<lparr>box_x1 = 10, box_y1 = 10, box_x2 = 50, box_y2 = 50\<rparr>\<rparr>]]\<rparr> 0 0)) = [(9 / 10, 1)]"
proof -
  have h1: "0 < length (det_arrays \<lparr>det_arrays = [[\<lparr>det_box = \<lparr>box_x1 = 10, box_y1 = 10, box_x2 = 50, box_y2 = 50\<rparr>, det_conf = 9 / 10, det_cls = 0\<rparr>, \<lparr>det_box = \<lparr>box_x1 = 10, box_y1 = 10, box_x2 = 50, box_y2 = 46\<rparr>, det_conf = 8 / 10, det_cls = 0\<rparr>]], lab_arrays = [[\<lparr>lab_cls = 0, lab_box = \<lparr>box_x1 = 10, box_y1 = 10, box_x2 = 50, box_y2 = 50\<rparr>\<rparr>]]\<rparr>)"
    and h2: "0 < length (lab_arrays \<lparr>det_arrays = [[\<lparr>det_box = \<lparr>box_x1 = 10, box_y1 = 10, box_x2 = 50, box_y2 = 50\<rparr>, det_conf = 9 / 10, det_cls = 0\<rparr>, \<lparr>det_box = \<lparr>box_x1 = 10, box_y1 = 10, box_x2 = 50, box_y2 = 46\<rparr>, det_conf = 8 / 10, det_cls = 0\<rparr>]], lab_arrays = [[\<lparr>lab_cls = 0, lab_box = \<lparr>box_x1 = 10, box_y1 = 10, box_x2 = 50, box_y2 = 50\<rparr>\<rparr>]]\<rparr>)"
    and h3: "\<exists>d\<in>set (det_arrays \<lparr>det_arrays = [[\<lparr>det_box = \<lparr>box_x1 = 10, box_y1 = 10, box_x2 = 50, box_y2 = 50\<rparr>, det_conf = 9 / 10, det_cls = 0\<rparr>, \<lparr>det_box = \<lparr>box_x1 = 10, box_y1 = 10, box_x2 = 50, box_y2 = 46\<rparr>, det_conf = 8 / 10, det_cls = 0\<rparr>]], lab_arrays = [[\<lparr>lab_cls = 0, lab_box = \<lparr>box_x1 = 10, box_y1 = 10, box_x2 = 50, box_y2 = 50\<rparr>\<rparr>]]\<rparr> ! 0). malignant_cls_th (new_od_aucroc 0 1 (1 / 2) 1) \<le> det_cls d"
    and h4: "\<exists>l\<in>set (lab_arrays \<lparr>det_arrays = [[\<lparr>det_box = \<lparr>box_x1 = 10, box_y1 = 10, box_x2 = 50, box_y2 = 50\<rparr>, det_conf = 9 / 10, det_cls = 0\<rparr>, \<lparr>det_box = \<lparr>box_x1 = 10, box_y1 = 10, box_x2 = 50, box_y2 = 46\<rparr>, det_conf = 8 / 10, det_cls = 0\<rparr>]], lab_arrays = [[\<lparr>lab_cls = 0, lab_box = \<lparr>box_x1 = 10, box_y1 = 10, box_x2 = 50, box_y2 = 50\<rparr>\<rparr>]]\<rparr> ! 0). malignant_cls_th (new_od_aucroc 0 1 (1 / 2) 1) \<le> lab_cls l"
    by (auto simp: new_od_aucroc_def)
  have h5: "length (mal_labels_of (new_od_aucroc 0 1 (1 / 2) 1) (lab_arrays \<lparr>det_arrays = [[\<lparr>det_box = \<lparr>box_x1 = 10, box_y1 = 10, box_x2 = 50, box_y2 = 50\<rparr>, det_conf = 9 / 10, det_cls = 0\<rparr>, \<lparr>det_box = \<lparr>box_x1 = 10, box_y1 = 10, box_x2 = 50, box_y2 = 46\<rparr>, det_conf = 8 / 10, det_cls = 0\<rparr>]], lab_arrays = [[\<lparr>lab_cls = 0, lab_box = \<lparr>box_x1 = 10, box_y1 = 10, box_x2 = 50, box_y2 = 50\<rparr>\<rparr>]]\<rparr> ! 0)) \<le> 32768"
    and h6: "length (mal_detections_of (new_od_aucroc 0 1 (1 / 2) 1) (det_arrays \<lparr>det_arrays = [[\<lparr>det_box = \<lparr>box_x1 = 10, box_y1 = 10, box_x2 = 50, box_y2 = 50\<rparr>, det_conf = 9 / 10, det_cls = 0\<rparr>, \<lparr>det_box = \<lparr>box_x1 = 10, box_y1 = 10, box_x2 = 50, box_y2 = 46\<rparr>, det_conf = 8 / 10, det_cls = 0\<rparr>]], lab_arrays = [[\<lparr>lab_cls = 0, lab_box = \<lparr>box_x1 = 10, box_y1 = 10, box_x2 = 50, box_y2 = 50\<rparr>\<rparr>]]\<rparr> ! 0)) \<le> 32768"
    by (simp_all add: mal_labels_of_def mal_detections_of_def)
  note t = OD_AUCROC_process_batch_all_pairs [OF h1 h2 h3 h4 h5 h6, of box_iou]
  have m: "OD_AUCROC_matches box_iou (new_od_aucroc 0 1 (1 / 2) 1)
      [\<lparr>det_box = \<lparr>box_x1 = 10, box_y1 = 10, box_x2 = 50, box_y2 = 50\<rparr>, det_conf = 9 / 10, det_cls = 0\<rparr>,
       \<lparr>det_box = \<lparr>box_x1 = 10, box_y1 = 10, box_x2 = 50, box_y2 = 46\<rparr>, det_conf = 8 / 10, det_cls = 0\<rparr>]
      [\<lparr>lab_cls = 0, lab_box = \<lparr>box_x1 = 10, box_y1 = 10, box_x2 = 50, box_y2 = 50\<rparr>\<rparr>] = [(0, 0, 1), (0, 1, 9 / 10)]"
    by code_simp
  have d: "distinct (map (\<lambda>m. (m_label m, m_det m)) (OD_AUCROC_matches box_iou (new_od_aucroc 0 1 (1 / 2) 1)
      [\<lparr>det_box = \<lparr>box_x1 = 10, box_y1 = 10, box_x2 = 50, box_y2 = 50\<rparr>, det_conf = 9 / 10, det_cls = 0\<rparr>,
       \<lparr>det_box = \<lparr>box_x1 = 10, box_y1 = 10, box_x2 = 50, box_y2 = 46\<rparr>, det_conf = 8 / 10, det_cls = 0\<rparr>]
      [\<lparr>lab_cls = 0, lab_box = \<lparr>box_x1 = 10, box_y1 = 10, box_x2 = 50, box_y2 = 50\<rparr>\<rparr>]))"
    using t by simp
  have "roc_lesion (snd (OD_AUCROC_process_batch box_iou (new_od_aucroc 0 1 (1 / 2) 1)
      \<lparr>det_arrays = [[\<lparr>det_box = \<lparr>box_x1 = 10, box_y1 = 10, box_x2 = 50, box_y2 = 50\<rparr>, det_conf = 9 / 10, det_cls = 0\<rparr>, \<lparr>det_box = \<lparr>box_x1 = 10, box_y1 = 10, box_x2 = 50, box_y2 = 46\<rparr>, det_conf = 8 / 10, det_cls = 0\<rparr>]], lab_arrays = [[\<lparr>lab_cls = 0, lab_box = \<lparr>box_x1 = 10, box_y1 = 10, box_x2 = 50, box_y2 = 50\<rparr>\<rparr>]]\<rparr> 0 0)) =
      roc_lesion (new_od_aucroc 0 1 (1 / 2) 1)
           @ map (\<lambda>i. (fold max
                          (map (\<lambda>m. det_conf (mal_detections_of (new_od_aucroc 0 1 (1 / 2) 1) (det_arrays \<lparr>det_arrays = [[\<lparr>det_box = \<lparr>box_x1 = 10, box_y1 = 10, box_x2 = 50, box_y2 = 50\<rparr>, det_conf = 9 / 10, det_cls = 0\<rparr>, \<lparr>det_box = \<lparr>box_x1 = 10, box_y1 = 10, box_x2 = 50, box_y2 = 46\<rparr>, det_conf = 8 / 10, det_cls = 0\<rparr>]], lab_arrays = [[\<lparr>lab_cls = 0, lab_box = \<lparr>box_x1 = 10, box_y1 = 10, box_x2 = 50, box_y2 = 50\<rparr>\<rparr>]]\<rparr> ! 0) ! m_det m))
                             (filter (\<lambda>m. m_label m = i)
                                (OD_AUCROC_matches box_iou (new_od_aucroc 0 1 (1 / 2) 1) (det_arrays \<lparr>det_arrays = [[\<lparr>det_box = \<lparr>box_x1 = 10, box_y1 = 10, box_x2 = 50, box_y2 = 50\<rparr>, det_conf = 9 / 10, det_cls = 0\<rparr>, \<lparr>det_box = \<lparr>box_x1 = 10, box_y1 = 10, box_x2 = 50, box_y2 = 46\<rparr>, det_conf = 8 / 10, det_cls = 0\<rparr>]], lab_arrays = [[\<lparr>lab_cls = 0, lab_box = \<lparr>box_x1 = 10, box_y1 = 10, box_x2 = 50, box_y2 = 50\<rparr>\<rparr>]]\<rparr> ! 0)
                                   (lab_arrays \<lparr>det_arrays = [[\<lparr>det_box = \<lparr>box_x1 = 10, box_y1 = 10, box_x2 = 50, box_y2 = 50\<rparr>, det_conf = 9 / 10, det_cls = 0\<rparr>, \<lparr>det_box = \<lparr>box_x1 = 10, box_y1 = 10, box_x2 = 50, box_y2 = 46\<rparr>, det_conf = 8 / 10, det_cls = 0\<rparr>]], lab_arrays = [[\<lparr>lab_cls = 0, lab_box = \<lparr>box_x1 = 10, box_y1 = 10, box_x2 = 50, box_y2 = 50\<rparr>\<rparr>]]\<rparr> ! 0)))) 0,
                        real (class_modifier (new_od_aucroc 0 1 (1 / 2) 1))))
               [0..<length (mal_labels_of (new_od_aucroc 0 1 (1 / 2) 1) (lab_arrays \<lparr>det_arrays = [[\<lparr>det_box = \<lparr>box_x1 = 10, box_y1 = 10, box_x2 = 50, box_y2 = 50\<rparr>, det_conf = 9 / 10, det_cls = 0\<rparr>, \<lparr>det_box = \<lparr>box_x1 = 10, box_y1 = 10, box_x2 = 50, box_y2 = 46\<rparr>, det_conf = 8 / 10, det_cls = 0\<rparr>]], lab_arrays = [[\<lparr>lab_cls = 0, lab_box = \<lparr>box_x1 = 10, box_y1 = 10, box_x2 = 50, box_y2 = 50\<rparr>\<rparr>]]\<rparr> ! 0))]"
    using t by blast
  also have "\<dots> = [(9 / 10, 1)]" by code_simp
  finally show ?thesis using m d h5 h6 by (simp add: new_od_aucroc_def)
qed

section \<open>Properties of the plotting calls\<close>

lemma ap_column_plot:
  "map_sum id fst (ap_column True recall precision j) = map_sum id fst (ap_column False recall precision j)"
proof (cases "compute_ap (col j recall) (col j precision)")
  case (Inl e)
  then show ?thesis by (simp add: ap_column_def)
next
  case (Inr t)
  obtain ap mpre mrec where t: "t = (ap, mpre, mrec)" by (cases t) auto
  note f = compute_ap_Inr [OF Inr [unfolded t]]
  have "np_interp px1000 mrec mpre None
      = Inr (map (interp1 (hd mpre) (last mpre) mrec mpre) px1000)"
    unfolding f(1,2) using f(4) by (simp add: np_interp_def)
  then show ?thesis using Inr t by (simp add: ap_column_def)
qed

lemma class_curves_plot:
  "map_sum id (\<lambda>row. (row_ap row, row_p row, row_r row))
     (class_curves T tp conf pred_cls target_cls True c)
   = map_sum id (\<lambda>row. (row_ap row, row_p row, row_r row))
       (class_curves T tp conf pred_cls target_cls False c)"
proof -
  define i where "i = map (\<lambda>q. q = c) pred_cls"
  define n_l where "n_l = length (filter (\<lambda>t. t = c) target_cls)"
  define recall where "recall = mat_map (\<lambda>v. v / (real n_l + eps16)) (cumsum0 T (mask_select i tp))"
  define precision where "precision = mat_map2 (\<lambda>a b. a / (a + b)) (cumsum0 T (mask_select i tp))
      (cumsum0 T (mat_map (\<lambda>v. 1 - v) (mask_select i tp)))"
  define R where "R = np_interp (map uminus px1000) (map uminus (mask_select i conf)) (col 0 recall) (Some 0)"
  define P where "P = np_interp (map uminus px1000) (map uminus (mask_select i conf)) (col 0 precision) (Some 1)"
  have unf: "class_curves T tp conf pred_cls target_cls plot c =
      (if length (filter (\<lambda>b. b) i) = 0 \<or> n_l = 0
       then Inr \<lparr>row_ap = replicate T 0, row_p = replicate 1000 0, row_r = replicate 1000 0,
                 row_py = []\<rparr>
       else if T = 0 then Inl IndexError
       else bind_err R (\<lambda>r. bind_err P (\<lambda>p.
              bind_err (map_err (ap_column plot recall precision) [0..<T]) (\<lambda>cols.
                Inr \<lparr>row_ap = map fst cols, row_p = p, row_r = r,
                     row_py = concat (map snd cols)\<rparr>))))" for plot
    unfolding class_curves_def Let_def i_def [symmetric] n_l_def [symmetric]
      recall_def [symmetric] precision_def [symmetric] R_def [symmetric] P_def [symmetric]
    by (rule refl)
  have cols: "map_sum id (map fst) (map_err (ap_column True recall precision) [0..<T])
      = map_sum id (map fst) (map_err (ap_column False recall precision) [0..<T])"
    by (intro map_err_proj_cong) (simp add: ap_column_plot)
  show ?thesis
  proof (cases "map_err (ap_column True recall precision) [0..<T]")
    case (Inl e)
    with cols have "map_err (ap_column False recall precision) [0..<T] = Inl e"
      by (cases "map_err (ap_column False recall precision) [0..<T]") simp_all
    with Inl show ?thesis
      unfolding unf by (cases R; cases P) simp_all
  next
    case (Inr ys)
    with cols obtain ys' where "map_err (ap_column False recall precision) [0..<T] = Inr ys'"
      "map fst ys = map fst ys'"
      by (cases "map_err (ap_column False recall precision) [0..<T]") simp_all
    with Inr show ?thesis
      unfolding unf by (cases R; cases P) simp_all
  qed
qed


lemma map_err_length: "map_err f xs = Inr ys \<Longrightarrow> length ys = length xs"
  by (induction xs arbitrary: ys) (auto split: sum.splits)

lemma map_err_set: "map_err f xs = Inr ys \<Longrightarrow> y \<in> set ys \<Longrightarrow> \<exists>x\<in>set xs. f x = Inr y"
  by (induction xs arbitrary: ys) (auto split: sum.splits)

lemma ap_column_curve:
  "ap_column True recall precision j = Inr c \<Longrightarrow> length (snd c) = (if j = 0 then 1 else 0)"
  by (auto simp: ap_column_def bind_err_def split: sum.splits prod.splits if_splits)

lemma ap_columns_curve:
  assumes "map_err (ap_column True recall precision) [0..<T] = Inr cols" and "0 < T"
  shows "length (concat (map snd cols)) = 1"
proof -
  have "[0..<T] = 0 # [Suc 0..<T]" using assms(2) by (simp add: upt_conv_Cons)
  with assms(1) obtain c cs where c: "ap_column True recall precision 0 = Inr c"
    and cs: "map_err (ap_column True recall precision) [Suc 0..<T] = Inr cs"
    and cols: "cols = c # cs"
    by (auto split: sum.splits)
  have "snd y = []" if "y \<in> set cs" for y
  proof -
    from map_err_set [OF cs that] obtain x where "x \<in> set [Suc 0..<T]"
      "ap_column True recall precision x = Inr y" by blast
    then show ?thesis using ap_column_curve [of recall precision x y] by auto
  qed
  then have "concat (map snd cs) = []" by simp
  then show ?thesis using ap_column_curve [OF c] cols by simp
qed

lemma class_curves_curve:
  assumes "class_curves T tp conf pred_cls target_cls True c = Inr row"
  shows "length (row_py row) = (if c \<in> set pred_cls \<and> c \<in> set target_cls then 1 else 0)
       \<and> (c \<in> set pred_cls \<and> c \<in> set target_cls \<longrightarrow> 0 < T)"
proof -
  define i where "i = map (\<lambda>q. q = c) pred_cls"
  define n_l where "n_l = length (filter (\<lambda>t. t = c) target_cls)"
  define n_p where "n_p = length (filter (\<lambda>b. b) i)"
  define recall where "recall = mat_map (\<lambda>v. v / (real n_l + eps16)) (cumsum0 T (mask_select i tp))"
  define precision where "precision = mat_map2 (\<lambda>a b. a / (a + b)) (cumsum0 T (mask_select i tp))
      (cumsum0 T (mat_map (\<lambda>v. 1 - v) (mask_select i tp)))"
  define R where "R = np_interp (map uminus px1000) (map uminus (mask_select i conf)) (col 0 recall) (Some 0)"
  define P where "P = np_interp (map uminus px1000) (map uminus (mask_select i conf)) (col 0 precision) (Some 1)"
  have np: "n_p = 0 \<longleftrightarrow> c \<notin> set pred_cls"
    by (auto simp: n_p_def i_def filter_empty_conv)
  have nl: "n_l = 0 \<longleftrightarrow> c \<notin> set target_cls"
    by (auto simp: n_l_def filter_empty_conv)
  have unf: "class_curves T tp conf pred_cls target_cls True c =
      (if n_p = 0 \<or> n_l = 0
       then Inr \<lparr>row_ap = replicate T 0, row_p = replicate 1000 0, row_r = replicate 1000 0,
                 row_py = []\<rparr>
       else if T = 0 then Inl IndexError
       else bind_err R (\<lambda>r. bind_err P (\<lambda>p.
              bind_err (map_err (ap_column True recall precision) [0..<T]) (\<lambda>cols.
                Inr \<lparr>row_ap = map fst cols, row_p = p, row_r = r,
                     row_py = concat (map snd cols)\<rparr>))))"
    unfolding class_curves_def Let_def i_def [symmetric] n_l_def [symmetric] n_p_def [symmetric]
      recall_def [symmetric] precision_def [symmetric] R_def [symmetric] P_def [symmetric]
    by (rule refl)
  show ?thesis
  proof (cases "n_p = 0 \<or> n_l = 0")
    case True
    then show ?thesis using assms np nl unfolding unf by auto
  next
    case False
    then have T: "0 < T" using assms unfolding unf by (cases "T = 0") simp_all
    from False T assms obtain r p cols
      where "map_err (ap_column True recall precision) [0..<T] = Inr cols"
        and "row = \<lparr>row_ap = map fst cols, row_p = p, row_r = r, row_py = concat (map snd cols)\<rparr>"
      unfolding unf
      by (cases R; cases P; cases "map_err (ap_column True recall precision) [0..<T]") auto
    then show ?thesis using ap_columns_curve [OF _ T] False T np nl by auto
  qed
qed

lemma class_rows_curves:
  assumes "map_err (class_curves T tp conf pred_cls target_cls True) cls = Inr rs"
  shows "length (concat (map row_py rs))
           = length (filter (\<lambda>c. c \<in> set pred_cls \<and> c \<in> set target_cls) cls)
       \<and> ((\<exists>c\<in>set cls. c \<in> set pred_cls \<and> c \<in> set target_cls) \<longrightarrow> 0 < T)"
  using assms
proof (induction cls arbitrary: rs)
  case (Cons c cls)
  then obtain row rs' where row: "class_curves T tp conf pred_cls target_cls True c = Inr row"
    and rs': "map_err (class_curves T tp conf pred_cls target_cls True) cls = Inr rs'"
    and rs: "rs = row # rs'"
    by (auto split: sum.splits)
  show ?case using Cons.IH [OF rs'] class_curves_curve [OF row] rs by auto
qed simp

lemma ap_finish_True:
  "ap_finish backend True names T cls rs =
     bind_err (ap_plots backend (concat (map row_py rs)) T (map row_ap rs)
                 (mat_map2 (\<lambda>p r. 2 * p * r / (p + r + eps16)) (map row_p rs) (map row_r rs))
                 (map row_p rs) (map row_r rs) names)
       (\<lambda>_. ap_finish backend False names T cls rs)"
  by (simp add: ap_finish_def Let_def)

lemma ap_finish_False:
  assumes "map (\<lambda>row. (row_ap row, row_p row, row_r row)) rs
         = map (\<lambda>row. (row_ap row, row_p row, row_r row)) rs'"
  shows "ap_finish backend False names T cls rs = ap_finish backend False names T cls rs'"
    and "\<exists>res. ap_finish backend False names T cls rs = Inr res"
proof -
  have a: "map row_ap rs = map row_ap rs'"
    using arg_cong [OF assms(1), of "map fst"] by (simp add: comp_def)
  have p: "map row_p rs = map row_p rs'"
    using arg_cong [OF assms(1), of "map (fst \<circ> snd)"] by (simp add: comp_def)
  have r: "map row_r rs = map row_r rs'"
    using arg_cong [OF assms(1), of "map (snd \<circ> snd)"] by (simp add: comp_def)
  show "ap_finish backend False names T cls rs = ap_finish backend False names T cls rs'"
    unfolding ap_finish_def Let_def a p r by simp
  show "\<exists>res. ap_finish backend False names T cls rs = Inr res"
    by (simp add: ap_finish_def Let_def)
qed

lemma ap_finish_returns:
  assumes "plot \<longrightarrow> (\<forall>name. backend name = None) \<and> names = [] \<and> concat (map row_py rs) \<noteq> [] \<and> 0 < T"
  shows "\<exists>res. ap_finish backend plot names T cls rs = Inr res \<and> res_classes res = cls"
  using assms
  by (cases plot)
    (simp_all add: ap_finish_def Let_def ap_plots_def plot_pr_curve_def plot_mc_curve_def savefig_def)

text \<open>
  The two runs of \<open>ap_per_class\<close> side by side: either both raise the same error before
  the plotting calls are reached, or the run without plots returns and the run with plots
  is the four plotting calls followed by what the run without plots returns.
\<close>

lemma ap_per_class_plot_True:
  "(\<exists>e. \<forall>plot. ap_per_class argsort backend T tp conf pred_cls target_cls plot names = Inl e)
   \<or> (\<exists>py ap f1 p r preds.
        np_take pred_cls (argsort (map uminus conf)) = Inr preds
        \<and> length py = length (filter (\<lambda>c. c \<in> set preds \<and> c \<in> set target_cls)
                                 (sort (remdups target_cls)))
        \<and> (py \<noteq> [] \<longrightarrow> 0 < T)
        \<and> length ap = length (remdups target_cls) \<and> length f1 = length (remdups target_cls)
        \<and> length p = length (remdups target_cls) \<and> length r = length (remdups target_cls)
        \<and> (\<exists>res. ap_per_class argsort backend T tp conf pred_cls target_cls False names = Inr res)
        \<and> ap_per_class argsort backend T tp conf pred_cls target_cls True names
            = bind_err (ap_plots backend py T ap f1 p r names)
                (\<lambda>_. ap_per_class argsort backend T tp conf pred_cls target_cls False names))"
proof -
  define i where "i = argsort (map uminus conf)"
  define cls where "cls = sort (remdups target_cls)"
  have lcls: "length cls = length (remdups target_cls)" by (simp add: cls_def)
  have unf: "ap_per_class argsort backend T tp conf pred_cls target_cls plot names =
      bind_err (np_take tp i) (\<lambda>m.
      bind_err (np_take conf i) (\<lambda>conf.
      bind_err (np_take pred_cls i) (\<lambda>pred_cls.
      bind_err (map_err (class_curves T m conf pred_cls target_cls plot) cls)
        (ap_finish backend plot names T cls))))" for plot
    by (simp add: ap_per_class_def Let_def i_def cls_def)
  show ?thesis
  proof (cases "np_take tp i")
    case (Inl e)
    then show ?thesis unfolding unf by simp
  next
    case t: (Inr tps)
    show ?thesis
    proof (cases "np_take conf i")
      case (Inl e)
      then show ?thesis unfolding unf t by simp
    next
      case c: (Inr confs)
      show ?thesis
      proof (cases "np_take pred_cls i")
        case (Inl e)
        then show ?thesis unfolding unf t c by simp
      next
        case p: (Inr preds)
        have pc: "map_sum id (map (\<lambda>row. (row_ap row, row_p row, row_r row)))
              (map_err (class_curves T tps confs preds target_cls True) cls)
          = map_sum id (map (\<lambda>row. (row_ap row, row_p row, row_r row)))
              (map_err (class_curves T tps confs preds target_cls False) cls)"
          by (intro map_err_proj_cong) (simp add: class_curves_plot)
        show ?thesis
        proof (cases "map_err (class_curves T tps confs preds target_cls True) cls")
          case (Inl e)
          with pc have "map_err (class_curves T tps confs preds target_cls False) cls = Inl e"
            by (cases "map_err (class_curves T tps confs preds target_cls False) cls") simp_all
          with Inl have "\<forall>plot. ap_per_class argsort backend T tp conf pred_cls target_cls plot names = Inl e"
            unfolding unf t c p by (simp add: all_bool_eq)
          then show ?thesis by blast
        next
          case rs: (Inr rs)
          with pc obtain rs' where rs': "map_err (class_curves T tps confs preds target_cls False) cls = Inr rs'"
            and m: "map (\<lambda>row. (row_ap row, row_p row, row_r row)) rs
                  = map (\<lambda>row. (row_ap row, row_p row, row_r row)) rs'"
            by (cases "map_err (class_curves T tps confs preds target_cls False) cls") simp_all
          have F: "ap_per_class argsort backend T tp conf pred_cls target_cls False names
                = ap_finish backend False names T cls rs"
            using ap_finish_False(1) [OF m, of backend names T cls] by (simp add: unf t c p rs')
          have Tr: "ap_per_class argsort backend T tp conf pred_cls target_cls True names
                = bind_err (ap_plots backend (concat (map row_py rs)) T (map row_ap rs)
                    (mat_map2 (\<lambda>p r. 2 * p * r / (p + r + eps16)) (map row_p rs) (map row_r rs))
                    (map row_p rs) (map row_r rs) names)
                  (\<lambda>_. ap_per_class argsort backend T tp conf pred_cls target_cls False names)"
            unfolding F by (simp add: unf t c p rs ap_finish_True)
          have lrs: "length rs = length (remdups target_cls)"
            using map_err_length [OF rs] lcls by simp
          note cur = class_rows_curves [OF rs]
          have py: "length (concat (map row_py rs))
              = length (filter (\<lambda>c. c \<in> set preds \<and> c \<in> set target_cls) (sort (remdups target_cls)))"
            using cur by (simp add: cls_def)
          have pyT: "concat (map row_py rs) \<noteq> [] \<longrightarrow> 0 < T"
          proof
            assume "concat (map row_py rs) \<noteq> []"
            then have "filter (\<lambda>c. c \<in> set preds \<and> c \<in> set target_cls) cls \<noteq> []"
              using cur by (metis length_0_conv)
            then have "\<exists>c\<in>set cls. c \<in> set preds \<and> c \<in> set target_cls"
              by (simp add: filter_empty_conv)
            then show "0 < T" using cur by blast
          qed
          have ex: "\<exists>res. ap_per_class argsort backend T tp conf pred_cls target_cls False names = Inr res"
            unfolding F by (rule ap_finish_False(2) [OF m])
          have pr: "np_take pred_cls (argsort (map uminus conf)) = Inr preds"
            using p by (simp add: i_def)
          have lf: "length (mat_map2 (\<lambda>p r. 2 * p * r / (p + r + eps16)) (map row_p rs) (map row_r rs))
              = length (remdups target_cls)"
            by (simp add: mat_map2_def lrs)
          show ?thesis
            apply (rule disjI2)
            apply (rule exI [where x = "concat (map row_py rs)"])
            apply (rule exI [where x = "map row_ap rs"])
            apply (rule exI [where x = "mat_map2 (\<lambda>p r. 2 * p * r / (p + r + eps16)) (map row_p rs) (map row_r rs)"])
            apply (rule exI [where x = "map row_p rs"])
            apply (rule exI [where x = "map row_r rs"])
            apply (rule exI [where x = preds])
            using pr py pyT lrs lf ex Tr apply simp
            done
        qed
      qed
    qed
  qed
qed

lemma ap_plots_raises:
  assumes "fname \<in> set [''PR_curve.png'', ''F1_curve.png'', ''P_curve.png'', ''R_curve.png'']"
    and "backend fname = Some e"
  shows "\<exists>e'. ap_plots backend py T ap f1 p r names = Inl e'"
proof -
  have a: "\<exists>e'. bind_err (plot_pr_curve backend px1000 py T ap ''PR_curve.png'' names) K = Inl e'"
    if "backend ''PR_curve.png'' = Some e \<or> (\<exists>e'. K () = Inl e')" for K
    using that by (auto simp: plot_pr_curve_def savefig_def split: option.splits)
  have b: "\<exists>e'. bind_err (plot_mc_curve backend px1000 m name names) K = Inl e'"
    if "backend name = Some e \<or> (\<exists>e'. K () = Inl e')" for K m name
    using that by (auto simp: plot_mc_curve_def savefig_def split: option.splits)
  have c: "\<exists>e'. plot_mc_curve backend px1000 m name names = Inl e'"
    if "backend name = Some e" for m name
    using that by (auto simp: plot_mc_curve_def savefig_def split: option.splits)
  consider "fname = ''PR_curve.png''" | "fname = ''F1_curve.png''" | "fname = ''P_curve.png''"
    | "fname = ''R_curve.png''"
    using assms(1) by auto
  then show ?thesis
  proof cases
    case 1
    show ?thesis unfolding ap_plots_def
      by (rule a, rule disjI1) (use assms(2) 1 in simp)
  next
    case 2
    show ?thesis unfolding ap_plots_def
      by (rule a, rule disjI2, rule b, rule disjI1) (use assms(2) 2 in simp)
  next
    case 3
    show ?thesis unfolding ap_plots_def
      by (rule a, rule disjI2, rule b, rule disjI2, rule b, rule disjI1) (use assms(2) 3 in simp)
  next
    case 4
    show ?thesis unfolding ap_plots_def
      by (rule a, rule disjI2, rule b, rule disjI2, rule b, rule disjI2, rule c)
        (use assms(2) 4 in simp)
  qed
qed

lemma ap_plots_names:
  assumes "0 < length names" and "length names < 21" and "length names < length f1"
  shows "\<exists>e'. ap_plots backend py T ap f1 p r names = Inl e'"
  using assms
  by (auto simp: ap_plots_def plot_pr_curve_def plot_mc_curve_def savefig_def split: option.splits)

lemma ap_plots_empty: "ap_plots backend [] T ap f1 p r names = Inl ValueError"
  by (simp add: ap_plots_def plot_pr_curve_def)

lemma ap_plots_saves:
  assumes "py \<noteq> []" and "0 < T"
    and "names = [] \<or> 20 < length names
         \<or> (length py \<le> length names \<and> length py \<le> length ap \<and> length f1 \<le> length names
            \<and> length p \<le> length names \<and> length r \<le> length names)"
  shows "bind_err (ap_plots backend py T ap f1 p r names) K =
           bind_err (savefig backend ''PR_curve.png'') (\<lambda>_.
           bind_err (savefig backend ''F1_curve.png'') (\<lambda>_.
           bind_err (savefig backend ''P_curve.png'') (\<lambda>_.
           bind_err (savefig backend ''R_curve.png'') K)))"
proof -
  have pr: "plot_pr_curve backend px1000 py T ap ''PR_curve.png'' names = savefig backend ''PR_curve.png''"
    using assms by (auto simp: plot_pr_curve_def)
  have mc: "plot_mc_curve backend px1000 m name names = savefig backend name"
    if "length m = length f1 \<or> length m = length p \<or> length m = length r" for m name
    using assms(3) that by (auto simp: plot_mc_curve_def)
  show ?thesis
    unfolding ap_plots_def pr mc [of f1, simplified] mc [of p, simplified] mc [of r, simplified]
    by (simp add: bind_err_def split: sum.splits)
qed

lemma np_take_argsort_set:
  assumes "is_argsort argsort" and "length xs = length ks"
    and "np_take xs (argsort ks) = Inr ys"
  shows "set ys = set xs"
proof -
  have "mset (argsort ks) = mset [0..<length ks]"
    using assms(1) unfolding is_argsort_def by blast
  then have "set (argsort ks) = set [0..<length ks]" by (rule mset_eq_setD)
  then have si: "set (argsort ks) = {0..<length xs}" using assms(2) by simp
  have "ys = map ((!) xs) (argsort ks)"
    using assms(3) by (auto simp: np_take_def split: if_splits)
  then have "set ys = (!) xs ` {0..<length xs}" using si by simp
  also have "\<dots> = set xs" by (simp add: set_conv_nth image_def) (metis atLeast0LessThan lessThan_iff)
  finally show ?thesis .
qed


lemma class_curves_first_column_returns:
  assumes lt: "length tp0 = length pred_cls" and lc: "length conf = length pred_cls"
  shows "\<exists>p r py. class_curves_first_column tp0 conf pred_cls target_cls plot c = Inr (p, r, py)
           \<and> (py \<noteq> [] \<longleftrightarrow> plot \<and> c \<in> set pred_cls \<and> c \<in> set target_cls)"
proof -
  define i where "i = map (\<lambda>q. q = c) pred_cls"
  define n_l where "n_l = length (filter (\<lambda>t. t = c) target_cls)"
  define n_p where "n_p = length (filter (\<lambda>b. b) i)"
  have np: "n_p = 0 \<longleftrightarrow> c \<notin> set pred_cls"
    by (auto simp: n_p_def i_def filter_empty_conv)
  have nl: "n_l = 0 \<longleftrightarrow> c \<notin> set target_cls"
    by (auto simp: n_l_def filter_empty_conv)
  show ?thesis
  proof (cases "n_p = 0 \<or> n_l = 0")
    case True
    then have "class_curves_first_column tp0 conf pred_cls target_cls plot c
        = Inr (replicate 1000 0, replicate 1000 0, [])"
      unfolding class_curves_first_column_def Let_def i_def [symmetric] n_l_def [symmetric]
        n_p_def [symmetric]
      by simp
    then show ?thesis using True np nl by auto
  next
    case False
    define sel where "sel = mask_select i tp0"
    define tpc where "tpc = cumsum_from 0 sel"
    define fpc where "fpc = cumsum_from 0 (map (\<lambda>v. 1 - v) sel)"
    define recall where "recall = map (\<lambda>v. v / (real n_l + eps16)) tpc"
    define precision where "precision = map2 (\<lambda>a b. a / (a + b)) tpc fpc"
    define xp where "xp = map uminus (mask_select i conf)"
    have ls: "length sel = n_p" unfolding sel_def n_p_def
      by (rule length_mask_select) (simp add: i_def lt)
    have lx: "length xp = n_p" unfolding xp_def n_p_def
      using length_mask_select [of i conf] by (simp add: i_def lc)
    have lr: "length recall = n_p" by (simp add: recall_def tpc_def ls)
    have lp: "length precision = n_p" by (simp add: precision_def tpc_def fpc_def ls)
    have pos: "0 < n_p" using False by simp
    have xne: "xp \<noteq> []" using lx pos by auto
    have rne: "recall \<noteq> []" using lr pos by auto
    obtain r where r: "np_interp (map uminus px1000) xp recall (Some 0) = Inr r"
      using xne lx lr by (simp add: np_interp_def)
    obtain p where p: "np_interp (map uminus px1000) xp precision (Some 1) = Inr p"
      using xne lx lp by (simp add: np_interp_def)
    obtain ap where ap: "compute_ap recall precision =
        Inr (ap, rev (maximum_accumulate (rev ([1] @ precision @ [0]))),
             [0] @ recall @ [last recall + 1 / 100])"
      using compute_ap_returns [OF rne] lr lp by auto
    obtain y where y: "np_interp px1000 ([0] @ recall @ [last recall + 1 / 100])
        (rev (maximum_accumulate (rev ([1] @ precision @ [0])))) None = Inr y"
      using lr lp by (simp add: np_interp_def)
    have "class_curves_first_column tp0 conf pred_cls target_cls plot c
        = Inr (p, r, if plot then [y] else [])"
      using False r p ap y
      unfolding class_curves_first_column_def Let_def i_def [symmetric] n_l_def [symmetric]
        n_p_def [symmetric] sel_def [symmetric] tpc_def [symmetric] fpc_def [symmetric]
        recall_def [symmetric] precision_def [symmetric] xp_def [symmetric]
      by simp
    then show ?thesis using False np nl by auto
  qed
qed

lemma class_curves_returns:
  assumes T: "0 < T" and rows: "\<forall>row\<in>set tp. length row = T"
    and lt: "length tp = length pred_cls" and lc: "length conf = length pred_cls"
  shows "\<exists>row. class_curves T tp conf pred_cls target_cls plot c = Inr row
           \<and> (row_py row \<noteq> [] \<longleftrightarrow> plot \<and> c \<in> set pred_cls \<and> c \<in> set target_cls)"
proof -
  obtain p r py where f: "class_curves_first_column (col 0 tp) conf pred_cls target_cls plot c = Inr (p, r, py)"
    and py: "py \<noteq> [] \<longleftrightarrow> plot \<and> c \<in> set pred_cls \<and> c \<in> set target_cls"
    using class_curves_first_column_returns [of "col 0 tp" pred_cls conf target_cls plot c] lt lc
    by auto
  have "map_sum id (\<lambda>row. (row_p row, row_r row, row_py row))
           (class_curves T tp conf pred_cls target_cls plot c) = Inr (p, r, py)"
    using class_curves_first_column [OF T rows lt] f by simp
  then obtain row where "class_curves T tp conf pred_cls target_cls plot c = Inr row"
    "row_py row = py"
    by (cases "class_curves T tp conf pred_cls target_cls plot c") auto
  with py show ?thesis by auto
qed

lemma map_err_list_all2:
  assumes "\<forall>x\<in>set xs. \<exists>y. f x = Inr y \<and> Q x y"
  shows "\<exists>ys. map_err f xs = Inr ys \<and> list_all2 Q xs ys"
  using assms
proof (induction xs)
  case (Cons x xs)
  then obtain y ys where "f x = Inr y" "Q x y" "map_err f xs = Inr ys" "list_all2 Q xs ys"
    by auto
  then show ?case by simp
qed simp


lemma ap_per_class_returns:
  assumes srt: "is_argsort argsort" and T: "0 < T" and rows: "\<forall>row\<in>set tp. length row = T"
    and lt: "length tp = length conf" and lp: "length pred_cls = length conf"
    and pl: "plot \<longrightarrow> (\<forall>name. backend name = None) \<and> names = []
                \<and> (\<exists>c\<in>set target_cls. c \<in> set pred_cls)"
  shows "\<exists>res. ap_per_class argsort backend T tp conf pred_cls target_cls plot names = Inr res
           \<and> res_classes res = sort (remdups target_cls)"
proof -
  define i where "i = argsort (map uminus conf)"
  define cls where "cls = sort (remdups target_cls)"
  define tps where "tps = map ((!) tp) i"
  define confs where "confs = map ((!) conf) i"
  define preds where "preds = map ((!) pred_cls) i"
  have "mset i = mset [0..<length (map uminus conf)]"
    using srt unfolding i_def is_argsort_def by blast
  then have "set i = set [0..<length (map uminus conf)]" by (rule mset_eq_setD)
  then have si: "set i = {0..<length conf}" by simp
  have t: "np_take tp i = Inr tps" and c: "np_take conf i = Inr confs"
    and p: "np_take pred_cls i = Inr preds"
    using si lt lp by (simp_all add: np_take_def tps_def confs_def preds_def)
  have rs: "\<forall>row\<in>set tps. length row = T"
    using rows si lt by (auto simp: tps_def)
  have l1: "length tps = length preds" and l2: "length confs = length preds"
    by (simp_all add: tps_def confs_def preds_def)
  have sp: "set preds = set pred_cls"
  proof -
    have "set preds = (!) pred_cls ` {0..<length pred_cls}" by (simp add: preds_def si lp)
    also have "\<dots> = set pred_cls" by (simp add: set_conv_nth image_def) (metis atLeast0LessThan lessThan_iff)
    finally show ?thesis .
  qed
  have "\<forall>c\<in>set cls. \<exists>row. class_curves T tps confs preds target_cls plot c = Inr row
      \<and> (row_py row \<noteq> [] \<longleftrightarrow> plot \<and> c \<in> set preds \<and> c \<in> set target_cls)"
    using class_curves_returns [OF T rs l1 l2] by blast
  then obtain rows' where m: "map_err (class_curves T tps confs preds target_cls plot) cls = Inr rows'"
    and all2: "list_all2 (\<lambda>c row. row_py row \<noteq> [] \<longleftrightarrow> plot \<and> c \<in> set preds \<and> c \<in> set target_cls)
                 cls rows'"
    using map_err_list_all2 [of cls "class_curves T tps confs preds target_cls plot"
        "\<lambda>c row. row_py row \<noteq> [] \<longleftrightarrow> plot \<and> c \<in> set preds \<and> c \<in> set target_cls"]
    by blast
  have py: "concat (map row_py rows') \<noteq> []" if plot
  proof -
    from that pl obtain c where c: "c \<in> set target_cls" "c \<in> set pred_cls" by blast
    then have "c \<in> set cls" by (simp add: cls_def)
    then obtain k where k: "k < length cls" "cls ! k = c" by (auto simp: in_set_conv_nth)
    with all2 have "row_py (rows' ! k) \<noteq> []" and "k < length rows'"
      using that c sp by (auto simp: list_all2_conv_all_nth)
    then have "\<exists>row\<in>set rows'. row_py row \<noteq> []" using nth_mem by blast
    then show ?thesis by auto
  qed
  have "plot \<longrightarrow> (\<forall>name. backend name = None) \<and> names = [] \<and> concat (map row_py rows') \<noteq> []
          \<and> 0 < T"
    using pl py T by blast
  from ap_finish_returns [OF this, of cls]
  obtain res where "ap_finish backend plot names T cls rows' = Inr res" "res_classes res = cls"
    by blast
  then show ?thesis
    using t c p m by (simp add: ap_per_class_def Let_def i_def [symmetric] cls_def [symmetric])
qed

lemma ap_per_class_plot_same:
  assumes "ap_per_class argsort backend T tp conf pred_cls target_cls True names = Inr res"
  shows "ap_per_class argsort backend T tp conf pred_cls target_cls False names = Inr res"
proof -
  have "\<not> (\<exists>e. \<forall>plot. ap_per_class argsort backend T tp conf pred_cls target_cls plot names = Inl e)"
    using assms by (metis Inl_Inr_False)
  with ap_per_class_plot_True [of argsort backend T tp conf pred_cls target_cls names]
  obtain py ap f1 p r
    where Tr: "ap_per_class argsort backend T tp conf pred_cls target_cls True names
          = bind_err (ap_plots backend py T ap f1 p r names)
              (\<lambda>_. ap_per_class argsort backend T tp conf pred_cls target_cls False names)"
    by blast
  show ?thesis
    using assms unfolding Tr by (cases "ap_plots backend py T ap f1 p r names") simp_all
qed

lemma ap_per_class_plot_raises:
  assumes "fname \<in> set [''PR_curve.png'', ''F1_curve.png'', ''P_curve.png'', ''R_curve.png'']"
    and "backend fname = Some e"
  shows "\<exists>e'. ap_per_class argsort backend T tp conf pred_cls target_cls True names = Inl e'"
  using ap_per_class_plot_True [of argsort backend T tp conf pred_cls target_cls names]
proof (elim disjE exE conjE)
  fix py ap f1 p r preds
  assume "ap_per_class argsort backend T tp conf pred_cls target_cls True names
            = bind_err (ap_plots backend py T ap f1 p r names)
                (\<lambda>_. ap_per_class argsort backend T tp conf pred_cls target_cls False names)"
  then show ?thesis
    using ap_plots_raises [where backend = backend and fname = fname, OF assms, of py T ap f1 p r names]
    by auto
qed blast

lemma ap_per_class_names_raises:
  assumes "0 < length names" and "length names < 21" and "length names < length (remdups target_cls)"
  shows "\<exists>e'. ap_per_class argsort backend T tp conf pred_cls target_cls True names = Inl e'"
  using ap_per_class_plot_True [of argsort backend T tp conf pred_cls target_cls names]
proof (elim disjE exE conjE)
  fix py ap f1 p r preds
  assume "length (f1 :: real list list) = length (remdups target_cls)"
    and "ap_per_class argsort backend T tp conf pred_cls target_cls True names
            = bind_err (ap_plots backend py T ap f1 p r names)
                (\<lambda>_. ap_per_class argsort backend T tp conf pred_cls target_cls False names)"
  then show ?thesis
    using ap_plots_names [OF assms(1,2), of f1 backend py T ap p r] assms(3) by auto
qed blast

lemma ap_per_class_no_curve:
  assumes "\<forall>c\<in>set target_cls. c \<notin> set pred_cls"
  shows "\<exists>e'. ap_per_class argsort backend T tp conf pred_cls target_cls True names = Inl e'"
    and "ap_per_class argsort backend T tp conf pred_cls target_cls False names = Inr res
         \<Longrightarrow> ap_per_class argsort backend T tp conf pred_cls target_cls True names = Inl ValueError"
proof -
  have "ap_per_class argsort backend T tp conf pred_cls target_cls True names = Inl ValueError"
    if "\<not> (\<exists>e. \<forall>plot. ap_per_class argsort backend T tp conf pred_cls target_cls plot names = Inl e)"
  proof -
    from ap_per_class_plot_True [of argsort backend T tp conf pred_cls target_cls names] that
    obtain py ap f1 p r preds
      where preds: "np_take pred_cls (argsort (map uminus conf)) = Inr preds"
        and py: "length py = length (filter (\<lambda>c. c \<in> set preds \<and> c \<in> set target_cls)
                                       (sort (remdups target_cls)))"
        and Tr: "ap_per_class argsort backend T tp conf pred_cls target_cls True names
            = bind_err (ap_plots backend py T ap f1 p r names)
                (\<lambda>_. ap_per_class argsort backend T tp conf pred_cls target_cls False names)"
      by blast
    have "filter (\<lambda>c. c \<in> set preds \<and> c \<in> set target_cls) (sort (remdups target_cls)) = []"
      using np_take_subset [OF preds] assms by (auto simp: filter_empty_conv)
    then have "py = []" using py by simp
    then show ?thesis unfolding Tr by (simp add: ap_plots_empty)
  qed
  note key = this
  show "\<exists>e'. ap_per_class argsort backend T tp conf pred_cls target_cls True names = Inl e'"
    using key by blast
  show "ap_per_class argsort backend T tp conf pred_cls target_cls True names = Inl ValueError"
    if "ap_per_class argsort backend T tp conf pred_cls target_cls False names = Inr res"
  proof -
    have "\<not> (\<exists>e. \<forall>plot. ap_per_class argsort backend T tp conf pred_cls target_cls plot names = Inl e)"
      using that by (metis Inl_Inr_False)
    then show ?thesis by (rule key)
  qed
qed

lemma ap_per_class_plot_saves:
  assumes F: "ap_per_class argsort backend T tp conf pred_cls target_cls False names = Inr res"
    and srt: "is_argsort argsort" and lp: "length pred_cls = length conf"
    and cl: "\<exists>c\<in>set target_cls. c \<in> set pred_cls"
    and nm: "names = [] \<or> 20 < length names \<or> length (remdups target_cls) \<le> length names"
  shows "ap_per_class argsort backend T tp conf pred_cls target_cls True names =
           bind_err (savefig backend ''PR_curve.png'') (\<lambda>_.
           bind_err (savefig backend ''F1_curve.png'') (\<lambda>_.
           bind_err (savefig backend ''P_curve.png'') (\<lambda>_.
           bind_err (savefig backend ''R_curve.png'') (\<lambda>_. Inr res))))"
proof -
  have "\<not> (\<exists>e. \<forall>plot. ap_per_class argsort backend T tp conf pred_cls target_cls plot names = Inl e)"
    using F by (metis Inl_Inr_False)
  with ap_per_class_plot_True [of argsort backend T tp conf pred_cls target_cls names]
  obtain py ap f1 p r preds
    where preds: "np_take pred_cls (argsort (map uminus conf)) = Inr preds"
      and py: "length py = length (filter (\<lambda>c. c \<in> set preds \<and> c \<in> set target_cls)
                                     (sort (remdups target_cls)))"
      and pyT: "py \<noteq> [] \<longrightarrow> 0 < T"
      and len: "length ap = length (remdups target_cls)" "length f1 = length (remdups target_cls)"
        "length p = length (remdups target_cls)" "length r = length (remdups target_cls)"
      and Tr: "ap_per_class argsort backend T tp conf pred_cls target_cls True names
          = bind_err (ap_plots backend py T ap f1 p r names)
              (\<lambda>_. ap_per_class argsort backend T tp conf pred_cls target_cls False names)"
    by blast
  have sp: "set preds = set pred_cls"
    using np_take_argsort_set [OF srt _ preds] lp by simp
  from cl obtain c where "c \<in> set target_cls" "c \<in> set pred_cls" by blast
  then have "c \<in> set (filter (\<lambda>c. c \<in> set preds \<and> c \<in> set target_cls) (sort (remdups target_cls)))"
    using sp by simp
  then have ne: "py \<noteq> []" using py by (metis length_0_conv empty_iff empty_set)
  have le: "length py \<le> length (remdups target_cls)"
    unfolding py using length_filter_le [of _ "sort (remdups target_cls)"] by simp
  have "names = [] \<or> 20 < length names
         \<or> (length py \<le> length names \<and> length py \<le> length ap \<and> length f1 \<le> length names
            \<and> length p \<le> length names \<and> length r \<le> length names)"
    using nm le len by auto
  from ap_plots_saves [OF ne _ this] pyT ne show ?thesis
    unfolding Tr F by simp
qed

text \<open>
  C8, as stated, fails for \<open>ap_per_class\<close>, whose plotting calls are not inside a \<open>try\<close>. With
  every rendering call succeeding, a data set whose only class has no prediction leaves
  \<open>py\<close> empty and \<open>np.stack\<close> raises ValueError inside \<open>plot_pr_curve\<close>: \<open>ap_per_class\<close> with
  \<open>plot=True\<close> raises, while with \<open>plot=False\<close> it returns its results. Likewise, when saving
  \<open>PR_curve.png\<close> raises OSError, \<open>ap_per_class\<close> with \<open>plot=True\<close> raises on an input for
  which it returns with \<open>plot=False\<close>.
\<close>

theorem plotting_failures_counterexample:
  "ap_per_class stable_argsort working_backend 1 [] [] [] [0] True [] = Inl ValueError
   \<and> map_sum id res_classes (ap_per_class stable_argsort working_backend 1 [] [] [] [0] False [])
       = Inr [0]
   \<and> isl (ap_per_class stable_argsort (failing_backend ''PR_curve.png'' OSError) 1
            [[1]] [9 / 10] [0] [0] True [])
   \<and> \<not> isl (ap_per_class stable_argsort (failing_backend ''PR_curve.png'' OSError) 1
            [[1]] [9 / 10] [0] [0] False [])"
proof -
  have a: "ap_per_class stable_argsort working_backend 1 [] [] [] [0] True [] = Inl ValueError"
    by (simp add: ap_per_class_def stable_argsort_def np_take_def class_curves_def ap_finish_def
        ap_plots_def plot_pr_curve_def Let_def)
  obtain res where "ap_per_class stable_argsort working_backend 1 [] [] [] [0] False [] = Inr res"
    and "res_classes res = sort (remdups [0])"
    using ap_per_class_returns [OF is_argsort_stable, of 1 "[]" "[]" "[]" False working_backend "[]" "[0]"]
    by auto
  then have b: "map_sum id res_classes (ap_per_class stable_argsort working_backend 1 [] [] [] [0] False [])
       = Inr [0]"
    by simp
  have "failing_backend ''PR_curve.png'' OSError ''PR_curve.png'' = Some OSError"
    by (simp add: failing_backend_def)
  from ap_per_class_plot_raises [where backend = "failing_backend ''PR_curve.png'' OSError"
      and e = OSError and fname = "''PR_curve.png''", OF _ this]
  have c: "isl (ap_per_class stable_argsort (failing_backend ''PR_curve.png'' OSError) 1
            [[1]] [9 / 10] [0] [0] True [])"
    by (metis list.set_intros(1) sum.disc(1))
  obtain res' where "ap_per_class stable_argsort (failing_backend ''PR_curve.png'' OSError) 1
            [[1]] [9 / 10] [0] [0] False [] = Inr res'"
    using ap_per_class_returns [OF is_argsort_stable, of 1 "[[1]]" "[9 / 10]" "[0]" False
        "failing_backend ''PR_curve.png'' OSError" "[]" "[0]"]
    by auto
  then have d: "\<not> isl (ap_per_class stable_argsort (failing_backend ''PR_curve.png'' OSError) 1
            [[1]] [9 / 10] [0] [0] False [])"
    by simp
  show ?thesis using a b c d by blast
qed

text \<open>
  C8, amended: \<open>ConfusionMatrix.plot\<close> catches and drops every \<open>Exception\<close> raised while it
  renders (a missing seaborn, an I/O error, a TypeError on the tick labels) and returns
  normally. \<open>ap_per_class\<close> has no such guard around \<open>plot_pr_curve\<close> and \<open>plot_mc_curve\<close>:
  whenever it returns with \<open>plot=True\<close> it returns exactly the results of \<open>plot=False\<close>, and
  with \<open>plot=True\<close> it raises

  \<^item> whenever saving one of \<open>PR_curve.png\<close>, \<open>F1_curve.png\<close>, \<open>P_curve.png\<close>, \<open>R_curve.png\<close>
    raises;
  \<^item> whenever no labelled class has a prediction (ValueError from \<open>np.stack\<close> of the empty
    \<open>py\<close> in \<open>plot_pr_curve\<close> when the computation itself succeeds);
  \<^item> whenever \<open>names\<close> has between 1 and 20 entries and fewer entries than there are
    labelled classes.

  When \<open>ap_per_class\<close> returns with \<open>plot=False\<close>, \<open>np.argsort\<close> gives a permutation, there
  are as many predicted classes as confidences, some labelled class has a prediction, and
  \<open>names\<close> is empty, has more than 20 entries or has one entry for every labelled class,
  then \<open>ap_per_class\<close> with \<open>plot=True\<close> raises exactly what the first failing one of the
  four saves raises, in the order of the source, and returns the results of \<open>plot=False\<close>
  when all four succeed.
\<close>

theorem plotting_failures:
  "((\<forall>name e. backend name = Some e \<longrightarrow> is_Exception e)
      \<longrightarrow> ConfusionMatrix_plot backend n_c names_is_tuple cm_names = Inr ())
   \<and> (\<forall>res. ap_per_class argsort backend T tp conf pred_cls target_cls True names = Inr res
         \<longrightarrow> ap_per_class argsort backend T tp conf pred_cls target_cls False names = Inr res)
   \<and> (\<forall>fname e. fname \<in> set [''PR_curve.png'', ''F1_curve.png'', ''P_curve.png'', ''R_curve.png'']
                \<and> backend fname = Some e
         \<longrightarrow> (\<exists>e'. ap_per_class argsort backend T tp conf pred_cls target_cls True names = Inl e'))
   \<and> ((\<forall>c\<in>set target_cls. c \<notin> set pred_cls)
         \<longrightarrow> (\<exists>e'. ap_per_class argsort backend T tp conf pred_cls target_cls True names = Inl e')
           \<and> (\<forall>res. ap_per_class argsort backend T tp conf pred_cls target_cls False names = Inr res
                 \<longrightarrow> ap_per_class argsort backend T tp conf pred_cls target_cls True names
                       = Inl ValueError))
   \<and> (0 < length names \<and> length names < 21 \<and> length names < length (remdups target_cls)
         \<longrightarrow> (\<exists>e'. ap_per_class argsort backend T tp conf pred_cls target_cls True names = Inl e'))
   \<and> (\<forall>res. ap_per_class argsort backend T tp conf pred_cls target_cls False names = Inr res
             \<and> is_argsort argsort \<and> length pred_cls = length conf
             \<and> (\<exists>c\<in>set target_cls. c \<in> set pred_cls)
             \<and> (names = [] \<or> 20 < length names \<or> length (remdups target_cls) \<le> length names)
         \<longrightarrow> ap_per_class argsort backend T tp conf pred_cls target_cls True names =
               bind_err (savefig backend ''PR_curve.png'') (\<lambda>_.
               bind_err (savefig backend ''F1_curve.png'') (\<lambda>_.
               bind_err (savefig backend ''P_curve.png'') (\<lambda>_.
               bind_err (savefig backend ''R_curve.png'') (\<lambda>_. Inr res)))))"
proof (intro conjI allI impI)
  assume h: "\<forall>name e. backend name = Some e \<longrightarrow> is_Exception e"
  show "ConfusionMatrix_plot backend n_c names_is_tuple cm_names = Inr ()"
  proof (cases "ConfusionMatrix_plot_body backend n_c names_is_tuple cm_names")
    case (Inl e)
    then have "e = TypeError \<or> (\<exists>name. backend name = Some e)"
      by (auto simp: ConfusionMatrix_plot_body_def import_module_def savefig_def bind_err_def
          split: option.splits if_splits)
    then have "is_Exception e" using h by (auto simp: is_Exception_def)
    with Inl show ?thesis by (simp add: ConfusionMatrix_plot_def try_except_Exception_def)
  next
    case (Inr u)
    then show ?thesis by (simp add: ConfusionMatrix_plot_def try_except_Exception_def)
  qed
next
  fix res
  assume "ap_per_class argsort backend T tp conf pred_cls target_cls True names = Inr res"
  then show "ap_per_class argsort backend T tp conf pred_cls target_cls False names = Inr res"
    by (rule ap_per_class_plot_same)
next
  fix fname e
  assume "fname \<in> set [''PR_curve.png'', ''F1_curve.png'', ''P_curve.png'', ''R_curve.png'']
          \<and> backend fname = Some e"
  then show "\<exists>e'. ap_per_class argsort backend T tp conf pred_cls target_cls True names = Inl e'"
    using ap_per_class_plot_raises by blast
next
  assume "\<forall>c\<in>set target_cls. c \<notin> set pred_cls"
  then show "\<exists>e'. ap_per_class argsort backend T tp conf pred_cls target_cls True names = Inl e'"
    by (rule ap_per_class_no_curve(1))
next
  fix res
  assume "\<forall>c\<in>set target_cls. c \<notin> set pred_cls"
    and "ap_per_class argsort backend T tp conf pred_cls target_cls False names = Inr res"
  then show "ap_per_class argsort backend T tp conf pred_cls target_cls True names = Inl ValueError"
    by (rule ap_per_class_no_curve(2))
next
  assume "0 < length names \<and> length names < 21 \<and> length names < length (remdups target_cls)"
  then show "\<exists>e'. ap_per_class argsort backend T tp conf pred_cls target_cls True names = Inl e'"
    using ap_per_class_names_raises by blast
next
  fix res
  assume "ap_per_class argsort backend T tp conf pred_cls target_cls False names = Inr res
             \<and> is_argsort argsort \<and> length pred_cls = length conf
             \<and> (\<exists>c\<in>set target_cls. c \<in> set pred_cls)
             \<and> (names = [] \<or> 20 < length names \<or> length (remdups target_cls) \<le> length names)"
  then show "ap_per_class argsort backend T tp conf pred_cls target_cls True names =
               bind_err (savefig backend ''PR_curve.png'') (\<lambda>_.
               bind_err (savefig backend ''F1_curve.png'') (\<lambda>_.
               bind_err (savefig backend ''P_curve.png'') (\<lambda>_.
               bind_err (savefig backend ''R_curve.png'') (\<lambda>_. Inr res))))"
    using ap_per_class_plot_saves by blast
qed

theorem plotting_failures_witness:
  "is_Exception ImportError
   \<and> ConfusionMatrix_plot (failing_backend ''seaborn'' ImportError) 1 False [] = Inr ()
   \<and> (\<exists>res. ap_per_class stable_argsort working_backend 1 [[1]] [9 / 10] [0] [0] True [] = Inr res
         \<and> ap_per_class stable_argsort working_backend 1 [[1]] [9 / 10] [0] [0] False [] = Inr res)
   \<and> ''F1_curve.png'' \<in> set [''PR_curve.png'', ''F1_curve.png'', ''P_curve.png'', ''R_curve.png'']
   \<and> failing_backend ''F1_curve.png'' OSError ''F1_curve.png'' = Some OSError
   \<and> isl (ap_per_class stable_argsort (failing_backend ''F1_curve.png'' OSError) 1
            [[1]] [9 / 10] [0] [0] True [])
   \<and> set [0 :: nat] \<inter> set [] = {}
   \<and> (\<exists>res. ap_per_class stable_argsort working_backend 1 [] [] [] [0] False [] = Inr res)
   \<and> ap_per_class stable_argsort working_backend 1 [] [] [] [0] True [] = Inl ValueError
   \<and> length [''a''] < length (remdups [0 :: nat, 1])
   \<and> isl (ap_per_class stable_argsort working_backend 1 [] [] [] [0, 1] True [''a''])
   \<and> is_argsort stable_argsort
   \<and> (\<exists>res. ap_per_class stable_argsort (failing_backend ''P_curve.png'' OSError) 1
               [[1]] [9 / 10] [0] [0] False [] = Inr res)
   \<and> ap_per_class stable_argsort (failing_backend ''P_curve.png'' OSError) 1
        [[1]] [9 / 10] [0] [0] True [] = Inl OSError"
proof -
  have h1: "\<forall>name e. failing_backend ''seaborn'' ImportError name = Some e \<longrightarrow> is_Exception e"
    by (simp add: failing_backend_def is_Exception_def)
  have a: "ConfusionMatrix_plot (failing_backend ''seaborn'' ImportError) 1 False [] = Inr ()"
    using plotting_failures [of "failing_backend ''seaborn'' ImportError" 1 False "[]"] h1
    by blast
  obtain res where r: "ap_per_class stable_argsort working_backend 1 [[1]] [9 / 10] [0] [0] True [] = Inr res"
    using ap_per_class_returns [OF is_argsort_stable, of 1 "[[1]]" "[9 / 10]" "[0]" True
        working_backend "[]" "[0]"]
    by (auto simp: working_backend_def)
  then have b: "ap_per_class stable_argsort working_backend 1 [[1]] [9 / 10] [0] [0] False [] = Inr res"
    using plotting_failures [of working_backend _ _ _ stable_argsort 1 "[[1]]" "[9 / 10]" "[0]" "[0]" "[]"]
    by blast
  have h3: "''F1_curve.png'' \<in> set [''PR_curve.png'', ''F1_curve.png'', ''P_curve.png'', ''R_curve.png'']"
    "failing_backend ''F1_curve.png'' OSError ''F1_curve.png'' = Some OSError"
    by (simp_all add: failing_backend_def)
  have "\<exists>e'. ap_per_class stable_argsort (failing_backend ''F1_curve.png'' OSError) 1
            [[1]] [9 / 10] [0] [0] True [] = Inl e'"
    using plotting_failures [of "failing_backend ''F1_curve.png'' OSError" _ _ _ stable_argsort 1
        "[[1]]" "[9 / 10]" "[0]" "[0]" "[]"] h3
    by blast
  then have c: "isl (ap_per_class stable_argsort (failing_backend ''F1_curve.png'' OSError) 1
            [[1]] [9 / 10] [0] [0] True [])"
    by (metis sum.disc(1))
  have h4: "\<forall>c\<in>set [0 :: nat]. c \<notin> set []" by simp
  obtain res4 where r4: "ap_per_class stable_argsort working_backend 1 [] [] [] [0] False [] = Inr res4"
    using ap_per_class_returns [OF is_argsort_stable, of 1 "[]" "[]" "[]" False working_backend "[]" "[0]"]
    by auto
  have d: "ap_per_class stable_argsort working_backend 1 [] [] [] [0] True [] = Inl ValueError"
    using plotting_failures [of working_backend _ _ _ stable_argsort 1 "[]" "[]" "[]" "[0]" "[]"]
      h4 r4
    by blast
  have h5: "0 < length [''a''] \<and> length [''a''] < 21 \<and> length [''a''] < length (remdups [0 :: nat, 1])"
    by simp
  have "\<exists>e'. ap_per_class stable_argsort working_backend 1 [] [] [] [0, 1] True [''a''] = Inl e'"
    using plotting_failures [of working_backend _ _ _ stable_argsort 1 "[]" "[]" "[]" "[0, 1]" "[''a'']"]
      h5
    by blast
  then have f: "isl (ap_per_class stable_argsort working_backend 1 [] [] [] [0, 1] True [''a''])"
    by (metis sum.disc(1))
  obtain res6 where r6: "ap_per_class stable_argsort (failing_backend ''P_curve.png'' OSError) 1
               [[1]] [9 / 10] [0] [0] False [] = Inr res6"
    using ap_per_class_returns [OF is_argsort_stable, of 1 "[[1]]" "[9 / 10]" "[0]" False
        "failing_backend ''P_curve.png'' OSError" "[]" "[0]"]
    by auto
  have h6: "ap_per_class stable_argsort (failing_backend ''P_curve.png'' OSError) 1
               [[1]] [9 / 10] [0] [0] False [] = Inr res6
             \<and> is_argsort stable_argsort \<and> length [0 :: nat] = length [9 / 10 :: real]
             \<and> (\<exists>c\<in>set [0 :: nat]. c \<in> set [0])
             \<and> (([] :: string list) = [] \<or> 20 < length ([] :: string list)
                 \<or> length (remdups [0 :: nat]) \<le> length ([] :: string list))"
    using r6 is_argsort_stable by simp
  have "ap_per_class stable_argsort (failing_backend ''P_curve.png'' OSError) 1
               [[1]] [9 / 10] [0] [0] True [] =
           bind_err (savefig (failing_backend ''P_curve.png'' OSError) ''PR_curve.png'') (\<lambda>_.
           bind_err (savefig (failing_backend ''P_curve.png'' OSError) ''F1_curve.png'') (\<lambda>_.
           bind_err (savefig (failing_backend ''P_curve.png'' OSError) ''P_curve.png'') (\<lambda>_.
           bind_err (savefig (failing_backend ''P_curve.png'' OSError) ''R_curve.png'') (\<lambda>_. Inr res6))))"
    using plotting_failures [of "failing_backend ''P_curve.png'' OSError" _ _ _ stable_argsort 1
        "[[1]]" "[9 / 10]" "[0]" "[0]" "[]"] h6
    by blast
  then have g: "ap_per_class stable_argsort (failing_backend ''P_curve.png'' OSError) 1
        [[1]] [9 / 10] [0] [0] True [] = Inl OSError"
    by (simp add: savefig_def failing_backend_def)
  have i1: "is_Exception ImportError" by (simp add: is_Exception_def)
  have i2: "set [0 :: nat] \<inter> set [] = {}" by simp
  have i3: "length [''a''] < length (remdups [0 :: nat, 1])" by simp
  show ?thesis
    using i1 a r b h3 c i2 r4 d i3 f is_argsort_stable r6 g by blast
qed

end
